theory Spec2Isabelle
  imports Complex_Main "HOL-Library.Word" "HOL-Library.Monad_Syntax"
begin

section \<open>Fluidic channel controller (fluidics.c, fluidics.h, fluidicsConfig.c)\<close>

text \<open>
  A shallow embedding of the fluidic channel controller. The C object \<open>Fluidic_t\<close> is a
  record that every function takes and returns updated. Calls into the piezo driver, the
  electrochemistry driver, the timer and the event bus are appended to the field
  \<open>trace\<close> of the record, in the order the C code makes them; what those collaborators
  return is read from a record \<open>env\<close> given with each event.

  \<open>float\<close> is modelled by \<open>real\<close> (no rounding, no NaN), \<open>uint32_t\<close> by \<open>32 word\<close>.
  A failed \<open>ASSERT\<close> is the value \<open>None\<close> of a handler: the model says nothing about
  what the firmware does after it. A handler is \<open>None\<close> for no other reason.

  \<open>positionLimits\<close> is a function on all values of \<open>eFluidicPositions_t\<close>. The table of the
  C structure is its part on Home, Down, A, B, C; the code also indexes it with the
  sentinels, without a guard, and such an access goes to the slot of that index, outside
  the table: the handler carries on as the code does, and the table is not touched. The
  memory that such a slot shares with other fields in the firmware is not modelled.
\<close>

subsection \<open>Enumerations\<close>

text \<open>
  Modelled from the spec: the header fluidicsTypes.h that declares \<open>eFluidicPositions_t\<close>
  is not among the sources. Spec section 3 lists Home, Down, A, B, C and the two sentinels
  Unknown and None; the code indexes \<open>positionLimits[BC_VALID_POS_COUNT]\<close> with the first
  five, so they are 0..4 and the count is 5. The order Home, Down, A, B, C is the one the
  code relies on (\<open>eTargetPos > BC_POS_DOWN\<close> for moves inside the channel, \<open>lowerPos--\<close>
  for the contact below), and the sentinels are placed after the count.
\<close>

datatype eFluidicPositions_t =
  BC_POS_HOME | BC_POS_DOWN | BC_POS_FLUID_A | BC_POS_FLUID_B | BC_POS_FLUID_C
  | BC_POS_UNKNOWN | BC_NONE

fun pos_ord :: "eFluidicPositions_t \<Rightarrow> nat" where
  "pos_ord BC_POS_HOME = 0"
| "pos_ord BC_POS_DOWN = 1"
| "pos_ord BC_POS_FLUID_A = 2"
| "pos_ord BC_POS_FLUID_B = 3"
| "pos_ord BC_POS_FLUID_C = 4"
| "pos_ord BC_POS_UNKNOWN = 6"
| "pos_ord BC_NONE = 7"

definition BC_VALID_POS_COUNT :: nat where
  "BC_VALID_POS_COUNT = 5"

text \<open>An index that lies inside the array \<open>positionLimits\<close>.\<close>

definition in_array :: "eFluidicPositions_t \<Rightarrow> bool" where
  "in_array p = (pos_ord p < BC_VALID_POS_COUNT)"

text \<open>
  \<open>lowerPos = (uint32_t) eTargetPos; lowerPos--\<close>, when the result is the number of a
  position: from Home the decrement wraps, and from Unknown it gives the count.
\<close>

fun lowerPos :: "eFluidicPositions_t \<Rightarrow> eFluidicPositions_t option" where
  "lowerPos BC_POS_DOWN = Some BC_POS_HOME"
| "lowerPos BC_POS_FLUID_A = Some BC_POS_DOWN"
| "lowerPos BC_POS_FLUID_B = Some BC_POS_FLUID_A"
| "lowerPos BC_POS_FLUID_C = Some BC_POS_FLUID_B"
| "lowerPos BC_NONE = Some BC_POS_UNKNOWN"
| "lowerPos _ = None"

text \<open>
  Modelled from the spec: \<open>eEcFluidDetectPosition_t\<close> is declared in electrochemicalTypes.h,
  not among the sources. Spec section 6 gives its values, totally ordered:
  Invalid, NoStrip, NoFluid, Fluid, PositionA, PositionB, PositionC.
\<close>

datatype eEcFluidDetectPosition_t =
  FD_DATA_INVALID | NO_STRIP_DETECTED | NO_FLUID_DETECTED | FLUID_DETECTED
  | FLUID_POSITION_A | FLUID_POSITION_B | FLUID_POSITION_C

fun fd_ord :: "eEcFluidDetectPosition_t \<Rightarrow> nat" where
  "fd_ord FD_DATA_INVALID = 0"
| "fd_ord NO_STRIP_DETECTED = 1"
| "fd_ord NO_FLUID_DETECTED = 2"
| "fd_ord FLUID_DETECTED = 3"
| "fd_ord FLUID_POSITION_A = 4"
| "fd_ord FLUID_POSITION_B = 5"
| "fd_ord FLUID_POSITION_C = 6"

definition FLD_POS_NUM :: nat where
  "FLD_POS_NUM = 7"

datatype eElectrochemicalChannel =
  EC_STRIP_CHAN_1 | EC_STRIP_CHAN_2 | EC_STRIP_CHAN_3 | EC_STRIP_CHAN_4

datatype eElectrochemicalChannelPos =
  EC_CHAN_POS_A | EC_CHAN_POS_B | EC_CHAN_POS_C | EC_CHAN_POS_NONE

datatype eFluidicMoveDirection_t = FLUID_MOVE_FWD | FLUID_MOVE_REV | FLUID_MOVE_RETURN

text \<open>
  \<open>FLUID_OVERSHOOT_COMP_NUM\<close> stands for every value of the C enumeration that is not one
  of the three modes (the code tests \<open>eOvershootCompMode >= FLUID_OVERSHOOT_COMP_NUM\<close>).
\<close>

datatype eFluidOvershootCompensation_t =
  FLUID_OVERSHOOT_COMP_NONE | FLUID_OVERSHOOT_COMP_PIEZO_VOLTS
  | FLUID_OVERSHOOT_COMP_BREAK_REMAKE | FLUID_OVERSHOOT_COMP_NUM

datatype eFluidMixingType_t =
  FLUID_MIX_DUAL_POINT_LOOP | FLUID_MIX_SINGLE_POINT_LOOP | FLUID_MIX_OPEN_LOOP

datatype eFluidicHysterisisChangeType_t = FLUID_HYST_INC | FLUID_HYST_DEC

datatype eErrorCode =
  OK_STATUS | OK_COMMAND_ACCEPTED
  | ERROR_NULL_PTR | ERROR_OBJECT_NOT_READY | ERROR_BAD_ARGS
  | ERROR_FLUID_SPEED | ERROR_FLUID_CHANNEL_INVALID_MOVE | ERROR_FLUID_INVALID_PARAMS
  | ERROR_FLUID_CHANNEL_ECHEM_BUSY | ERROR_FLUID_CHANNEL_FLUID_FRONT
  | ERROR_PIEZO_UNKNOWN | ERROR_FLUIDIC_ERR_CNT
  | ERROR_FLUID_NO_STRIP | ERROR_COMMAND_TIMEOUT
  | ERROR_DXRUNNER_FMOV_TIMEOUT | ERROR_DXRUNNER_FMIX_TIMEOUT
  | ERROR_FLUIDIC_UNEXPECTED_MSG_PIEZO | ERROR_FLUIDIC_UNKNOWN_MSG_FROM_EC
  | ERROR_OTHER nat

text \<open>The macro \<open>FLUIDIC_CIRITICAL_ERR\<close> of fluidics.h.\<close>

definition FLUIDIC_CIRITICAL_ERR :: "eErrorCode \<Rightarrow> bool" where
  "FLUIDIC_CIRITICAL_ERR errorCode =
     ((errorCode = ERROR_FLUID_CHANNEL_ECHEM_BUSY \<or> errorCode = ERROR_FLUID_CHANNEL_FLUID_FRONT)
      \<or> errorCode = ERROR_PIEZO_UNKNOWN
      \<or> errorCode = ERROR_FLUIDIC_ERR_CNT)"

datatype XState = X_RET_HANDLED | X_RET_IGNORED | X_RET_TRAN

text \<open>The state handlers a controller can be in (the function pointer \<open>me->super.state\<close>).\<close>

datatype state_id =
  S_Init | S_Idle | S_CheckForStrip | S_MoveContact | S_MoveOther | S_LiftUpBladder
  | S_WaitForContact | S_WaitForPiezoStop | S_MixContactControlled | S_MixPiezoControlled
  | S_MixWaitContinue | S_MonitorFluidBreach | S_Err

subsection \<open>Constants of fluidics.h and electrochemical.h\<close>

definition FLUID_NUM_MIXING_STAGES_PER_CYCLE :: "32 word" where
  "FLUID_NUM_MIXING_STAGES_PER_CYCLE = 2"

definition FLUIDIC_TIMER_COUNT_MS :: "32 word" where
  "FLUIDIC_TIMER_COUNT_MS = 20"

definition ECHEM_UPDATE_PERIOD_MS :: "32 word" where
  "ECHEM_UPDATE_PERIOD_MS = 80"

definition FLUIDIC_HYSETRISIS_MAX :: real where
  "FLUIDIC_HYSETRISIS_MAX = 10"

definition FLUIDIC_HYSETRISIS_MIN :: real where
  "FLUIDIC_HYSETRISIS_MIN = 1"

definition FLUIDIC_MAX_COMPENSATION_FACTOR :: real where
  "FLUIDIC_MAX_COMPENSATION_FACTOR = 1"

definition FLUIDIC_MAX_VOLTS_BEFORE_LIFT :: real where
  "FLUIDIC_MAX_VOLTS_BEFORE_LIFT = 50"

definition FLUIDIC_DEFAULT_TARGET_POSITION :: real where
  "FLUIDIC_DEFAULT_TARGET_POSITION = 60"

definition FLUIDIC_DEFAULT_HYSTERISIS_V :: real where
  "FLUIDIC_DEFAULT_HYSTERISIS_V = 5"

definition FLUIDIC_POS_A_HYSTERISIS_V :: real where
  "FLUIDIC_POS_A_HYSTERISIS_V = 10"

definition FLUIDIC_HYSTERISIS_NONE :: real where
  "FLUIDIC_HYSTERISIS_NONE = 0"

definition FLUID_HYST_MULTIPLIER_INC_DEFAULT :: real where
  "FLUID_HYST_MULTIPLIER_INC_DEFAULT = 11 / 10"

definition FLUID_HYST_MULTIPLIER_DEC_DEFAULT :: real where
  "FLUID_HYST_MULTIPLIER_DEC_DEFAULT = 9 / 10"

definition FLUID_SPEED_LOW_DEFAULT_V_PER_S :: real where
  "FLUID_SPEED_LOW_DEFAULT_V_PER_S = 5 / 2"

definition FLUID_RETURN_SPEED_REDUCTION_FACTOR :: real where
  "FLUID_RETURN_SPEED_REDUCTION_FACTOR = 2"

definition FLUIDIC_DEFAULT_TIMEOUT_30S :: "32 word" where
  "FLUIDIC_DEFAULT_TIMEOUT_30S = 1000 * 30"

definition FLUIDIC_MAX_MIX_TIMEOUT_DEFAULT_MS :: "32 word" where
  "FLUIDIC_MAX_MIX_TIMEOUT_DEFAULT_MS = 3600 * 1000"

definition FLUIDIC_DEFAULT_MIX_FREQ :: real where
  "FLUIDIC_DEFAULT_MIX_FREQ = 1"

subsection \<open>Structures\<close>

record FluidicPositionLimits_t =
  targetVolts :: real
  posHysterisis :: real
  echemRequirements :: "eFluidicMoveDirection_t \<Rightarrow> eEcFluidDetectPosition_t"

record FluidicParams_t =
  positionLimits :: "eFluidicPositions_t \<Rightarrow> FluidicPositionLimits_t"
  eChannel :: eElectrochemicalChannel
  timeout_ms :: "32 word"
  mixFrequency_Hz :: real
  mixTimeout_ms :: "32 word"
  targetMixCycles :: "32 word"
  rampSpeedVoltsPerSec :: real
  mixTimeoutMax_ms :: "32 word"
  eMixEndPosition :: eFluidicPositions_t
  hysterisisMultipliersVolts :: "eFluidicHysterisisChangeType_t \<Rightarrow> real"
  eOvershootCompensationType :: eFluidOvershootCompensation_t
  compensationProportion :: real
  returnSpeedRedcutionFactor :: real
  eMixType :: eFluidMixingType_t
  openLoopCompensationFactor :: real
  mixDownstrokeProportion :: real
  monitorBreachAfterMove :: bool

text \<open>
  \<open>FluidicMovePositionMsg_t\<close>; \<open>FluidicLiftUpBladderMsg_t\<close> has the same fields, and the
  handler of the lift message reads it through a cast to the move message.
\<close>

record FluidicMovePositionMsg_t =
  mv_eTargetPos :: eFluidicPositions_t
  mv_rampSpeedVoltsPerSec :: real
  mv_eOvershootComp :: eFluidOvershootCompensation_t
  mv_overshootCompProportion :: real
  mv_timeout_ms :: "32 word"

record FluidicMixMsg_t =
  mx_eTargetPos :: eFluidicPositions_t
  mx_mixFrequency :: real
  mx_mixTime :: "32 word"
  mx_mixCycles :: "32 word"
  mx_eMixType :: eFluidMixingType_t
  mx_openLoopCompensationFactor :: real
  mx_mixDownstrokeProportion :: real

record FluidicWaitForFluidAtContactMsg_t =
  wf_timeoutMs :: "32 word"
  wf_eTargetPos :: eFluidicPositions_t

record FluidicUpdateParamsMsg_t =
  flAVal :: real
  flBVal :: real
  flCVal :: real

record FluididStatus_t =
  eFluidFrontPosition :: eEcFluidDetectPosition_t
  piezoVoltage :: real
  mixComplete :: bool
  mixingStagesCompleted :: "32 word"
  eMoveDirection :: eFluidicMoveDirection_t

text \<open>Events the controller receives (\<open>pEv->id\<close> with the payload of the message).\<close>

datatype XEvent_t =
  X_EV_ENTRY | X_EV_EXIT | X_EV_TIMER
  | XMSG_FLUID_CHANNEL_MOVE_TO FluidicMovePositionMsg_t
  | XMSG_FLUID_LIFT_UP_BLADDER FluidicMovePositionMsg_t
  | XMSG_FLUID_MIX FluidicMixMsg_t
  | XMSG_FLUID_WAIT_FOR_CONTACT FluidicWaitForFluidAtContactMsg_t
  | XMSG_FLUID_CHANNEL_CANCEL | XMSG_GLOBAL_HALT | XMSG_DOOR_OPENED
  | XMSG_FLUID_ERR_CLEAR | XMSG_FLUID_MIX_CONTINUE
  | XMSG_FLUID_CHANNEL_NEW_PARAMS FluidicUpdateParamsMsg_t
  | XMSG_FLUID_ENABLE_BREACH_DETECT bool
  | XMSG_PIEZO_MOVE_COMPLTE nat real
  | XMSG_PIEZO_STOPPED nat real
  | XMSG_PEIZO_MOVE_FAIL nat eErrorCode
  | XMSG_EC_FLUID_STATUS_CHANGED "eElectrochemicalChannel \<Rightarrow> eEcFluidDetectPosition_t"
  | XMSG_EC_ERROR eErrorCode
  | XMSG_EC_A1_BLDR_UP | XMSG_EC_B2_BLDR_UP | XMSG_EC_A3_BLDR_UP | XMSG_EC_B4_BLDR_UP
  | XMSG_EC_A1_BLDR_DOWN | XMSG_EC_B2_BLDR_DOWN | XMSG_EC_A3_BLDR_DOWN | XMSG_EC_B4_BLDR_DOWN
  | XMSG_OTHER

text \<open>
  What the controller does to its collaborators: events published on the bus, messages
  posted to its own queue, and calls into the drivers and the timer.
\<close>

datatype action =
  Publish_moveSuccessMsg eElectrochemicalChannel eFluidicPositions_t "32 word" real
  | Publish_moveFailMsg eElectrochemicalChannel eFluidicPositions_t
  | Publish_cmdFail eErrorCode
  | Publish_mixCmpltMsg eElectrochemicalChannel eFluidicPositions_t
  | Publish_stageCompelteMsg eElectrochemicalChannel
  | Publish_breachDetectedMsg
  | Publish_errorMsg eErrorCode
  | Publish_fcStartBladderDetectMsg
  | Publish_fcStopBladderDetectMsg
  | Post XEvent_t
  | Call_ERROR_CHECK eErrorCode
  | Call_XTimerStart | Call_XTimerStop
  | Call_ecDisable eElectrochemicalChannel
  | Call_ecSetModeFillDetect eElectrochemicalChannel eElectrochemicalChannelPos
  | Call_piezoStop | Call_piezoHome
  | Call_piezoVoltageSet real real bool

text \<open>
  What the collaborators answer while one event is handled, and the constants of piezo.h
  (not among the sources), taken as parameters. \<open>outsideTable_targetVolts\<close> is what a read
  of \<open>positionLimits[lowerPos].targetVolts\<close> finds when \<open>lowerPos\<close> is not the number of a
  position.
\<close>

record env =
  PIEZO_RAMP_MAX :: real
  PIEZO_MIN_VOLTAGE :: real
  PIEZO_VOLT_MAX :: real
  ecDisable_ret :: eErrorCode
  ecSetModeFillDetect_ret :: eErrorCode
  piezoStop_ret :: eErrorCode
  piezoHome_ret :: eErrorCode
  piezoVoltageSet_ret :: eErrorCode
  piezoVoltageGet_ret :: real
  ecGetFluidPosition_ret :: eEcFluidDetectPosition_t
  outsideTable_targetVolts :: real

text \<open>
  \<open>Fluidic_t\<close>. \<open>state\<close> and \<open>errorCode\<close> are the fields of the framework base object
  (\<open>me->super\<close>) that the code reads; \<open>pPiezo_chan\<close> and \<open>pPiezo_maxRampRate\<close> are
  \<open>me->pPiezo->pParams->chan\<close> and \<open>->maxRampRate\<close>. The outgoing message buffers are not
  kept: a publication is recorded in \<open>trace\<close> with the fields it carries.
\<close>

record Fluidic_t =
  state :: state_id
  errorCode :: eErrorCode
  pPiezo_chan :: nat
  pPiezo_maxRampRate :: real
  eLastKnownPos :: eFluidicPositions_t
  eTargetPos :: eFluidicPositions_t
  pParams :: FluidicParams_t
  timeoutTimer :: "32 word"
  mixTimer :: "32 word"
  status :: FluididStatus_t
  publishCompletionEvent :: bool
  chTargetPosReached :: bool
  mixMsg :: FluidicMixMsg_t
  moveMsg :: FluidicMovePositionMsg_t
  liftUpBlddrMsg :: FluidicMovePositionMsg_t
  waitForFluidContactMsg :: FluidicWaitForFluidAtContactMsg_t
  monitorPositionMsg :: bool
  paramsMsg :: FluidicUpdateParamsMsg_t
  trace :: "action list"

definition emit :: "action \<Rightarrow> Fluidic_t \<Rightarrow> Fluidic_t" where
  "emit a me = me\<lparr>trace := trace me @ [a]\<rparr>"

definition ASSERT :: "bool \<Rightarrow> unit option" where
  "ASSERT b = (if b then Some () else None)"


subsection \<open>Framework macros\<close>

text \<open>
  Modelled from the spec: the event framework (poci.h) is not among the sources. \<open>X_TRAN\<close>
  records the target handler in the base object and answers "transition";
  \<open>X_TRAN_ERROR\<close> also stores the error code that \<open>Fluidic_OnErrorStateEntry\<close> publishes
  from \<open>me->super.super.errorCode\<close>; \<open>XFSM_IS_STATE\<close> compares the recorded handler.
\<close>

definition X_TRAN :: "Fluidic_t \<Rightarrow> state_id \<Rightarrow> XState \<times> Fluidic_t" where
  "X_TRAN me s = (X_RET_TRAN, me\<lparr>state := s\<rparr>)"

definition X_TRAN_ERROR :: "Fluidic_t \<Rightarrow> state_id \<Rightarrow> eErrorCode \<Rightarrow> XState \<times> Fluidic_t" where
  "X_TRAN_ERROR me s err = (X_RET_TRAN, me\<lparr>state := s, errorCode := err\<rparr>)"

definition XFSM_IS_STATE :: "Fluidic_t \<Rightarrow> state_id \<Rightarrow> bool" where
  "XFSM_IS_STATE me s = (state me = s)"

subsection \<open>Parameter checks\<close>

definition bladderControlCheckValidPosChange ::
  "eFluidicPositions_t \<Rightarrow> eFluidicPositions_t \<Rightarrow> bool" where
  "bladderControlCheckValidPosChange eCurrentPos eTarget =
     (if eCurrentPos = BC_NONE \<or> eCurrentPos = BC_POS_UNKNOWN then
        (if eTarget \<noteq> BC_POS_HOME then False else True)
      else if eCurrentPos = BC_POS_HOME then
        (if eTarget = BC_POS_DOWN \<or> eTarget = BC_POS_HOME then True else False)
      else
        (if eTarget \<noteq> BC_POS_UNKNOWN \<and> eTarget \<noteq> BC_NONE then True else False))"

definition bladderControlCheckMoveValid :: "Fluidic_t \<Rightarrow> eFluidicPositions_t \<Rightarrow> bool" where
  "bladderControlCheckMoveValid me eTarget =
     (let eCurrentPos = eLastKnownPos me in
      if BC_POS_HOME = eTarget then True
      else bladderControlCheckValidPosChange eCurrentPos eTarget)"

text \<open>
  The three tests are consecutive \<open>if\<close>s, each overwriting \<open>error\<close>: the last one that
  fires decides.
\<close>

definition FluidCheckMoveParams ::
  "env \<Rightarrow> Fluidic_t \<Rightarrow> eFluidicPositions_t \<Rightarrow> real \<Rightarrow> 32 word
     \<Rightarrow> eFluidOvershootCompensation_t \<Rightarrow> real \<Rightarrow> eErrorCode" where
  "FluidCheckMoveParams e me eTarget ramp timeout eOvershootCompMode compProportion =
     (let moveValid = bladderControlCheckMoveValid me eTarget in
      if moveValid then
        (let error1 = (if ramp > PIEZO_RAMP_MAX e then ERROR_FLUID_SPEED else OK_STATUS);
             error2 = (if eOvershootCompMode = FLUID_OVERSHOOT_COMP_NUM then ERROR_BAD_ARGS else error1);
             error3 = (if compProportion > FLUIDIC_MAX_COMPENSATION_FACTOR then ERROR_BAD_ARGS else error2)
         in error3)
      else ERROR_FLUID_CHANNEL_INVALID_MOVE)"

text \<open>
  \<open>isFrequencyOk\<close> reads \<open>positionLimits\<close> at the target and at the last known position
  without a check; at a sentinel the C code reads whatever lies behind the array, here the
  value of the function \<open>positionLimits\<close> at that sentinel.
\<close>

definition isFrequencyOk :: "Fluidic_t \<Rightarrow> eFluidicPositions_t \<Rightarrow> real \<Rightarrow> bool" where
  "isFrequencyOk me eTarget mixFreq =
     (let eLastPos = eLastKnownPos me;
          maxRampRate = pPiezo_maxRampRate me;
          targetPosVoltage = targetVolts (positionLimits (pParams me) eTarget);
          currentPosVoltage = targetVolts (positionLimits (pParams me) eLastPos);
          rampRateForMix = \<bar>currentPosVoltage - targetPosVoltage\<bar> * mixFreq
      in if rampRateForMix \<ge> maxRampRate then False
         else if mixFreq = 0 then False
         else True)"

definition isMixTimeoutOk :: "Fluidic_t \<Rightarrow> 32 word \<Rightarrow> bool" where
  "isMixTimeoutOk me mixTimeout =
     (if mixTimeout > mixTimeoutMax_ms (pParams me) then False
      else if mixTimeout = 0 then False
      else True)"

definition isMixPositionOk :: "Fluidic_t \<Rightarrow> eFluidicPositions_t \<Rightarrow> bool" where
  "isMixPositionOk me eTarget =
     (let eLastPosition = eLastKnownPos me in
      if pos_ord eTarget \<ge> pos_ord eLastPosition \<or> BC_POS_HOME = eTarget then False
      else if BC_POS_UNKNOWN = eTarget \<or> BC_NONE = eTarget then False
      else True)"

definition FluidCheckMixParams ::
  "Fluidic_t \<Rightarrow> eFluidicPositions_t \<Rightarrow> real \<Rightarrow> 32 word \<Rightarrow> 32 word
     \<Rightarrow> eFluidMixingType_t \<Rightarrow> real \<Rightarrow> real \<Rightarrow> eErrorCode" where
  "FluidCheckMixParams me eTarget mixFreq mixTimeout numCycles mixType olcf mixDownstroke =
     (let freqOk = isFrequencyOk me eTarget mixFreq;
          posOk = isMixPositionOk me eTarget;
          timeoutOk = isMixTimeoutOk me mixTimeout;
          error1 =
            (if freqOk \<and> posOk \<and> timeoutOk then
               (if mixType \<noteq> FLUID_MIX_DUAL_POINT_LOOP then
                  (if mixDownstroke > 0 then OK_STATUS else ERROR_BAD_ARGS)
                else OK_STATUS)
             else ERROR_BAD_ARGS)
      in if posOk = False then ERROR_FLUID_CHANNEL_INVALID_MOVE else error1)"

definition FluidicStateCanAcceptCommand :: "Fluidic_t \<Rightarrow> bool" where
  "FluidicStateCanAcceptCommand me =
     (if XFSM_IS_STATE me S_Idle \<or> XFSM_IS_STATE me S_MonitorFluidBreach then True else False)"

subsection \<open>The API\<close>

text \<open>
  Each call returns the error code and the controller; a message handed to
  \<open>XActivePost\<close> is recorded in \<open>trace\<close> as \<open>Post\<close> with the content the message buffer
  has at that moment. \<open>FluidicMove\<close> and \<open>FluidicMix\<close> test \<open>me\<close> against \<open>NULL\<close>: the
  pointer is an \<open>option\<close>.
\<close>

definition FluidicMove ::
  "env \<Rightarrow> Fluidic_t option \<Rightarrow> eFluidicPositions_t \<Rightarrow> real \<Rightarrow> 32 word
     \<Rightarrow> eFluidOvershootCompensation_t \<Rightarrow> real \<Rightarrow> eErrorCode \<times> Fluidic_t option" where
  "FluidicMove e mp eTarget ramp timeout eOvershootComp overshootCompProportion =
     (case mp of
        None \<Rightarrow> (ERROR_NULL_PTR, None)
      | Some me \<Rightarrow>
          if eTarget = BC_POS_HOME then
            (let me1 = me\<lparr>moveMsg := (moveMsg me)\<lparr>mv_eTargetPos := BC_POS_HOME\<rparr>\<rparr>;
                 me2 = emit (Post (XMSG_FLUID_CHANNEL_MOVE_TO (moveMsg me1))) me1
             in (OK_COMMAND_ACCEPTED, Some me2))
          else
            (let error = FluidCheckMoveParams e me eTarget ramp timeout eOvershootComp
                           overshootCompProportion;
                 isReady = FluidicStateCanAcceptCommand me
             in if isReady then
                  (if OK_STATUS = error then
                     (let me1 = me\<lparr>moveMsg := \<lparr>mv_eTargetPos = eTarget,
                                     mv_rampSpeedVoltsPerSec = ramp,
                                     mv_eOvershootComp = eOvershootComp,
                                     mv_overshootCompProportion = overshootCompProportion,
                                     mv_timeout_ms = timeout\<rparr>\<rparr>;
                          me2 = emit (Post (XMSG_FLUID_CHANNEL_MOVE_TO (moveMsg me1))) me1
                      in (OK_COMMAND_ACCEPTED, Some me2))
                   else (error, Some me))
                else (ERROR_OBJECT_NOT_READY, Some me)))"

definition FluidicLiftUpBladder ::
  "env \<Rightarrow> Fluidic_t \<Rightarrow> real \<Rightarrow> 32 word \<Rightarrow> eErrorCode \<times> Fluidic_t" where
  "FluidicLiftUpBladder e me ramp timeout =
     (let me1 = me\<lparr>eTargetPos := BC_POS_HOME\<rparr>;
          me2 = me1\<lparr>liftUpBlddrMsg := (liftUpBlddrMsg me1)\<lparr>mv_rampSpeedVoltsPerSec := ramp,
                                                          mv_timeout_ms := timeout\<rparr>\<rparr>;
          error = FluidCheckMoveParams e me2 BC_POS_DOWN ramp timeout FLUID_OVERSHOOT_COMP_NONE 0;
          isReady = FluidicStateCanAcceptCommand me2
      in if OK_STATUS = error then
           (if isReady then
              (OK_COMMAND_ACCEPTED, emit (Post (XMSG_FLUID_LIFT_UP_BLADDER (liftUpBlddrMsg me2))) me2)
            else (ERROR_OBJECT_NOT_READY, me2))
         else (error, me2))"

definition FluidicMix ::
  "Fluidic_t option \<Rightarrow> eFluidicPositions_t \<Rightarrow> real \<Rightarrow> 32 word \<Rightarrow> 32 word
     \<Rightarrow> eFluidMixingType_t \<Rightarrow> real \<Rightarrow> real \<Rightarrow> eErrorCode \<times> Fluidic_t option" where
  "FluidicMix mp eTarget mixFreq mixTimeout cycles mixType olcf mixDownstroke =
     (case mp of
        None \<Rightarrow> (ERROR_NULL_PTR, None)
      | Some me \<Rightarrow>
          (let error = FluidCheckMixParams me eTarget mixFreq mixTimeout cycles mixType olcf
                         mixDownstroke
           in if FluidicStateCanAcceptCommand me then
                (if OK_STATUS = error then
                   (let me1 = me\<lparr>mixMsg := \<lparr>mx_eTargetPos = eTarget,
                                   mx_mixFrequency = mixFreq,
                                   mx_mixTime = mixTimeout,
                                   mx_mixCycles = cycles,
                                   mx_eMixType = mixType,
                                   mx_openLoopCompensationFactor = olcf,
                                   mx_mixDownstrokeProportion = mixDownstroke\<rparr>\<rparr>;
                        me2 = emit (Post (XMSG_FLUID_MIX (mixMsg me1))) me1
                    in (OK_COMMAND_ACCEPTED, Some me2))
                 else (error, Some me))
              else (ERROR_OBJECT_NOT_READY, Some me)))"

definition FluidicErrorClear :: "Fluidic_t \<Rightarrow> eErrorCode \<times> Fluidic_t" where
  "FluidicErrorClear me = (OK_COMMAND_ACCEPTED, emit (Post XMSG_FLUID_ERR_CLEAR) me)"

definition FluidicStop :: "Fluidic_t \<Rightarrow> eErrorCode \<times> Fluidic_t" where
  "FluidicStop me = (OK_COMMAND_ACCEPTED, emit (Post XMSG_FLUID_CHANNEL_CANCEL) me)"

definition FluidicEnableBreachMonitoring :: "Fluidic_t \<Rightarrow> bool \<Rightarrow> eErrorCode \<times> Fluidic_t" where
  "FluidicEnableBreachMonitoring me enable =
     (let me1 = me\<lparr>monitorPositionMsg := enable\<rparr>
      in (OK_STATUS, emit (Post (XMSG_FLUID_ENABLE_BREACH_DETECT (monitorPositionMsg me1))) me1))"

text \<open>
  \<open>FluidicInit\<close>: \<open>memset\<close> clears the object, so every enumeration field holds the value 0
  (Home for a position, the first member for the others), then the parameter bundle is
  attached and the publication flag set. The framework starts the object in
  \<open>FluidicState_Init\<close>.
\<close>

definition zero_moveMsg :: FluidicMovePositionMsg_t where
  "zero_moveMsg = \<lparr>mv_eTargetPos = BC_POS_HOME, mv_rampSpeedVoltsPerSec = 0,
                    mv_eOvershootComp = FLUID_OVERSHOOT_COMP_NONE,
                    mv_overshootCompProportion = 0, mv_timeout_ms = 0\<rparr>"

definition FluidicInit :: "nat \<Rightarrow> real \<Rightarrow> FluidicParams_t \<Rightarrow> Fluidic_t" where
  "FluidicInit chan maxRamp params =
     \<lparr>state = S_Init, errorCode = OK_STATUS,
      pPiezo_chan = chan, pPiezo_maxRampRate = maxRamp,
      eLastKnownPos = BC_POS_HOME, eTargetPos = BC_POS_HOME,
      pParams = params,
      timeoutTimer = 0, mixTimer = 0,
      status = \<lparr>eFluidFrontPosition = FD_DATA_INVALID, piezoVoltage = 0, mixComplete = False,
                 mixingStagesCompleted = 0, eMoveDirection = FLUID_MOVE_FWD\<rparr>,
      publishCompletionEvent = True,
      chTargetPosReached = False,
      mixMsg = \<lparr>mx_eTargetPos = BC_POS_HOME, mx_mixFrequency = 0, mx_mixTime = 0,
                 mx_mixCycles = 0, mx_eMixType = FLUID_MIX_DUAL_POINT_LOOP,
                 mx_openLoopCompensationFactor = 0, mx_mixDownstrokeProportion = 0\<rparr>,
      moveMsg = zero_moveMsg,
      liftUpBlddrMsg = zero_moveMsg,
      waitForFluidContactMsg = \<lparr>wf_timeoutMs = 0, wf_eTargetPos = BC_POS_HOME\<rparr>,
      monitorPositionMsg = False,
      paramsMsg = \<lparr>flAVal = 0, flBVal = 0, flCVal = 0\<rparr>,
      trace = []\<rparr>"

subsection \<open>Default parameter bundles (fluidicsConfig.c)\<close>

text \<open>
  The four bundles differ in the channel only. Fields the initialiser does not name are 0.
  \<open>PIEZO_VOLT_MAX\<close> and \<open>PIEZO_MIN_VOLTAGE\<close> come from piezo.h.
\<close>

definition defaultLimits ::
  "real \<Rightarrow> real \<Rightarrow> eEcFluidDetectPosition_t \<Rightarrow> eEcFluidDetectPosition_t
     \<Rightarrow> FluidicPositionLimits_t" where
  "defaultLimits v h reqFwd reqRev =
     \<lparr>targetVolts = v, posHysterisis = h,
      echemRequirements = (\<lambda>d. case d of FLUID_MOVE_FWD \<Rightarrow> reqFwd
                                  | FLUID_MOVE_REV \<Rightarrow> reqRev
                                  | FLUID_MOVE_RETURN \<Rightarrow> FD_DATA_INVALID)\<rparr>"

definition bladderDefaultParams :: "env \<Rightarrow> eElectrochemicalChannel \<Rightarrow> FluidicParams_t" where
  "bladderDefaultParams e chan =
     \<lparr>positionLimits = (\<lambda>p. case p of
          BC_POS_HOME \<Rightarrow> defaultLimits (PIEZO_VOLT_MAX e) FLUIDIC_HYSTERISIS_NONE
                           FD_DATA_INVALID FD_DATA_INVALID
        | BC_POS_DOWN \<Rightarrow> defaultLimits (PIEZO_MIN_VOLTAGE e) FLUIDIC_HYSTERISIS_NONE
                           NO_FLUID_DETECTED FLUID_DETECTED
        | BC_POS_FLUID_A \<Rightarrow> defaultLimits FLUIDIC_DEFAULT_TARGET_POSITION FLUIDIC_POS_A_HYSTERISIS_V
                           FLUID_POSITION_A FLUID_DETECTED
        | BC_POS_FLUID_B \<Rightarrow> defaultLimits FLUIDIC_DEFAULT_TARGET_POSITION FLUIDIC_DEFAULT_HYSTERISIS_V
                           FLUID_POSITION_B FLUID_POSITION_A
        | BC_POS_FLUID_C \<Rightarrow> defaultLimits FLUIDIC_DEFAULT_TARGET_POSITION FLUIDIC_DEFAULT_HYSTERISIS_V
                           FLUID_POSITION_C FLUID_POSITION_B
        | _ \<Rightarrow> defaultLimits 0 0 FD_DATA_INVALID FD_DATA_INVALID),
      eChannel = chan,
      timeout_ms = FLUIDIC_DEFAULT_TIMEOUT_30S,
      mixFrequency_Hz = FLUIDIC_DEFAULT_MIX_FREQ,
      mixTimeout_ms = 0,
      targetMixCycles = 0,
      rampSpeedVoltsPerSec = FLUID_SPEED_LOW_DEFAULT_V_PER_S,
      mixTimeoutMax_ms = FLUIDIC_MAX_MIX_TIMEOUT_DEFAULT_MS,
      eMixEndPosition = BC_POS_UNKNOWN,
      hysterisisMultipliersVolts =
        (\<lambda>t. case t of FLUID_HYST_INC \<Rightarrow> FLUID_HYST_MULTIPLIER_INC_DEFAULT
                     | FLUID_HYST_DEC \<Rightarrow> FLUID_HYST_MULTIPLIER_DEC_DEFAULT),
      eOvershootCompensationType = FLUID_OVERSHOOT_COMP_NONE,
      compensationProportion = 0,
      returnSpeedRedcutionFactor = FLUID_RETURN_SPEED_REDUCTION_FACTOR,
      eMixType = FLUID_MIX_DUAL_POINT_LOOP,
      openLoopCompensationFactor = 0,
      mixDownstrokeProportion = 0,
      monitorBreachAfterMove = False\<rparr>"

definition bladder1DefaultParams :: "env \<Rightarrow> FluidicParams_t" where
  "bladder1DefaultParams e = bladderDefaultParams e EC_STRIP_CHAN_1"

definition bladder2DefaultParams :: "env \<Rightarrow> FluidicParams_t" where
  "bladder2DefaultParams e = bladderDefaultParams e EC_STRIP_CHAN_2"

definition bladder3DefaultParams :: "env \<Rightarrow> FluidicParams_t" where
  "bladder3DefaultParams e = bladderDefaultParams e EC_STRIP_CHAN_3"

definition bladder4DefaultParams :: "env \<Rightarrow> FluidicParams_t" where
  "bladder4DefaultParams e = bladderDefaultParams e EC_STRIP_CHAN_4"


subsection \<open>Collaborators\<close>

text \<open>
  Modelled from the spec: the piezo driver, the electrochemistry driver and the timer are
  not among the sources; spec section 6 gives their interface. A call is recorded in
  \<open>trace\<close> and answers what \<open>env\<close> says.
\<close>

definition piezoStop :: "env \<Rightarrow> Fluidic_t \<Rightarrow> eErrorCode \<times> Fluidic_t" where
  "piezoStop e me = (piezoStop_ret e, emit Call_piezoStop me)"

definition piezoHome :: "env \<Rightarrow> Fluidic_t \<Rightarrow> eErrorCode \<times> Fluidic_t" where
  "piezoHome e me = (piezoHome_ret e, emit Call_piezoHome me)"

definition piezoVoltageSet ::
  "env \<Rightarrow> Fluidic_t \<Rightarrow> real \<Rightarrow> real \<Rightarrow> bool \<Rightarrow> eErrorCode \<times> Fluidic_t" where
  "piezoVoltageSet e me targetVoltage rampSpeed publishCompletion =
     (piezoVoltageSet_ret e, emit (Call_piezoVoltageSet targetVoltage rampSpeed publishCompletion) me)"

definition piezoVoltageGet :: "env \<Rightarrow> real" where
  "piezoVoltageGet e = piezoVoltageGet_ret e"

definition ecDisable :: "env \<Rightarrow> Fluidic_t \<Rightarrow> eElectrochemicalChannel \<Rightarrow> eErrorCode \<times> Fluidic_t" where
  "ecDisable e me chan = (ecDisable_ret e, emit (Call_ecDisable chan) me)"

definition ecSetModeFillDetect ::
  "env \<Rightarrow> Fluidic_t \<Rightarrow> eElectrochemicalChannel \<Rightarrow> eElectrochemicalChannelPos
     \<Rightarrow> eErrorCode \<times> Fluidic_t" where
  "ecSetModeFillDetect e me chan minPos =
     (ecSetModeFillDetect_ret e, emit (Call_ecSetModeFillDetect chan minPos) me)"

definition ecGetFluidPosition :: "env \<Rightarrow> eEcFluidDetectPosition_t" where
  "ecGetFluidPosition e = ecGetFluidPosition_ret e"

subsection \<open>Helpers of the state handlers\<close>

definition set_targetVolts :: "eFluidicPositions_t \<Rightarrow> real \<Rightarrow> Fluidic_t \<Rightarrow> Fluidic_t" where
  "set_targetVolts p v me =
     me\<lparr>pParams := (pParams me)\<lparr>positionLimits :=
          (positionLimits (pParams me))(p := (positionLimits (pParams me) p)\<lparr>targetVolts := v\<rparr>)\<rparr>\<rparr>"

definition set_posHysterisis :: "eFluidicPositions_t \<Rightarrow> real \<Rightarrow> Fluidic_t \<Rightarrow> Fluidic_t" where
  "set_posHysterisis p v me =
     me\<lparr>pParams := (pParams me)\<lparr>positionLimits :=
          (positionLimits (pParams me))(p := (positionLimits (pParams me) p)\<lparr>posHysterisis := v\<rparr>)\<rparr>\<rparr>"

definition FluidicSetCurrentAndTargetPositions ::
  "Fluidic_t \<Rightarrow> eFluidicPositions_t \<Rightarrow> eFluidicPositions_t \<Rightarrow> Fluidic_t" where
  "FluidicSetCurrentAndTargetPositions me eCurrent eTarget =
     me\<lparr>eLastKnownPos := eCurrent, eTargetPos := eTarget\<rparr>"

definition FluidicsErrorSet :: "Fluidic_t \<Rightarrow> eErrorCode \<Rightarrow> XState \<Rightarrow> XState \<times> Fluidic_t" where
  "FluidicsErrorSet me err retCode =
     (if OK_STATUS \<noteq> err then
        (let me1 = emit (Call_ERROR_CHECK err) me
         in if FLUIDIC_CIRITICAL_ERR err \<and> (False = XFSM_IS_STATE me1 S_Err)
            then X_TRAN_ERROR me1 S_Err err
            else (retCode, me1))
      else (retCode, me))"

definition FluidicStopMove :: "env \<Rightarrow> Fluidic_t \<Rightarrow> eErrorCode \<times> Fluidic_t" where
  "FluidicStopMove e me = piezoStop e me"

definition FluidicHomeMoveBegin :: "env \<Rightarrow> Fluidic_t \<Rightarrow> eErrorCode \<times> Fluidic_t" where
  "FluidicHomeMoveBegin e me =
     (let me1 = set_targetVolts BC_POS_FLUID_A FLUIDIC_MAX_VOLTS_BEFORE_LIFT me;
          me2 = set_targetVolts BC_POS_FLUID_B FLUIDIC_MAX_VOLTS_BEFORE_LIFT me1;
          me3 = set_targetVolts BC_POS_FLUID_C FLUIDIC_MAX_VOLTS_BEFORE_LIFT me2
      in piezoHome e me3)"

text \<open>
  \<open>FluidicOnMoveCompleteMsg\<close> publishes the move-success message whatever the value of
  \<open>publishCompletionEvent\<close>, and then sets the flag.
\<close>

definition FluidicOnMoveCompleteMsg :: "env \<Rightarrow> Fluidic_t \<Rightarrow> Fluidic_t" where
  "FluidicOnMoveCompleteMsg e me =
     (let me1 = FluidicSetCurrentAndTargetPositions me (eTargetPos me) BC_NONE;
          me2 = emit (Publish_moveSuccessMsg (eChannel (pParams me1)) (eLastKnownPos me1)
                        (timeoutTimer me1) (piezoVoltageGet e)) me1
      in me2\<lparr>publishCompletionEvent := True\<rparr>)"

definition FluidicOnMoveFailMsg ::
  "Fluidic_t \<Rightarrow> eFluidicPositions_t \<Rightarrow> eErrorCode \<Rightarrow> Fluidic_t" where
  "FluidicOnMoveFailMsg me pos eError =
     (let me1 = emit (Publish_moveFailMsg (eChannel (pParams me)) pos) me
      in emit (Publish_cmdFail eError) me1)"

definition FluidicOnMixComplete :: "Fluidic_t \<Rightarrow> Fluidic_t" where
  "FluidicOnMixComplete me =
     (let me1 = me\<lparr>mixTimer := 0\<rparr>;
          me2 = me1\<lparr>status := (status me1)\<lparr>mixComplete := True\<rparr>\<rparr>;
          me3 = FluidicSetCurrentAndTargetPositions me2 (eTargetPos me2)
                  (eMixEndPosition (pParams me2))
      in emit (Publish_mixCmpltMsg (eChannel (pParams me3)) (eMixEndPosition (pParams me3))) me3)"

definition fluidGetEchemRequirement ::
  "Fluidic_t \<Rightarrow> bool \<Rightarrow> eEcFluidDetectPosition_t option" where
  "fluidGetEchemRequirement me isMoving =
     (let ePosition = (if isMoving then eTargetPos me else eLastKnownPos me);
          eDirection = (if isMoving then
                          (if eMoveDirection (status me) = FLUID_MOVE_REV
                           then FLUID_MOVE_REV else FLUID_MOVE_FWD)
                        else FLUID_MOVE_FWD)
      in do {
           ASSERT (ePosition \<noteq> BC_NONE \<and> ePosition \<noteq> BC_POS_UNKNOWN
                   \<and> pos_ord ePosition \<noteq> BC_VALID_POS_COUNT);
           Some (echemRequirements (positionLimits (pParams me) ePosition) eDirection)
         })"

definition FluidOnPiezoStop :: "Fluidic_t \<Rightarrow> nat \<Rightarrow> real \<Rightarrow> eErrorCode \<times> Fluidic_t" where
  "FluidOnPiezoStop me chan volts =
     (OK_STATUS,
      if chan = pPiezo_chan me then me\<lparr>status := (status me)\<lparr>piezoVoltage := volts\<rparr>\<rparr> else me)"

definition FluidOnPiezoMoveComplete :: "Fluidic_t \<Rightarrow> nat \<Rightarrow> real \<Rightarrow> eErrorCode \<times> Fluidic_t" where
  "FluidOnPiezoMoveComplete me chan volts =
     (OK_STATUS,
      if chan = pPiezo_chan me then me\<lparr>status := (status me)\<lparr>piezoVoltage := volts\<rparr>\<rparr> else me)"

definition FluidOnEchemStatusChange ::
  "Fluidic_t \<Rightarrow> (eElectrochemicalChannel \<Rightarrow> eEcFluidDetectPosition_t) \<Rightarrow> eErrorCode \<times> Fluidic_t" where
  "FluidOnEchemStatusChange me fluidPositions =
     (OK_STATUS,
      me\<lparr>status := (status me)\<lparr>eFluidFrontPosition := fluidPositions (eChannel (pParams me))\<rparr>\<rparr>)"

definition FluidicBeginPiezoMoveToTarget ::
  "env \<Rightarrow> Fluidic_t \<Rightarrow> (eErrorCode \<times> Fluidic_t) option" where
  "FluidicBeginPiezoMoveToTarget e me =
     (let eTarget = eTargetPos me in
      do {
        ASSERT (eTarget \<noteq> BC_POS_UNKNOWN \<and> eTarget \<noteq> BC_NONE
                \<and> pos_ord eTarget \<noteq> BC_VALID_POS_COUNT);
        let targetVoltage0 = targetVolts (positionLimits (pParams me) eTarget);
            rampSpeed = rampSpeedVoltsPerSec (pParams me);
            targetVoltage =
              (if eMoveDirection (status me) = FLUID_MOVE_REV then PIEZO_MIN_VOLTAGE e
               else targetVoltage0 + posHysterisis (positionLimits (pParams me) eTarget))
        in Some (piezoVoltageSet e me targetVoltage rampSpeed False)
      })"

definition FluidicBeginPiezoMoveToLift ::
  "env \<Rightarrow> Fluidic_t \<Rightarrow> (eErrorCode \<times> Fluidic_t) option" where
  "FluidicBeginPiezoMoveToLift e me =
     (let eTarget = eTargetPos me in
      do {
        ASSERT (eTarget \<noteq> BC_POS_UNKNOWN \<and> eTarget \<noteq> BC_NONE
                \<and> pos_ord eTarget \<noteq> BC_VALID_POS_COUNT);
        let rampSpeed = rampSpeedVoltsPerSec (pParams me);
            targetVoltage = PIEZO_RAMP_MAX e + posHysterisis (positionLimits (pParams me) eTarget)
        in Some (piezoVoltageSet e me targetVoltage rampSpeed False)
      })"

definition fluidicMixingCalculaterampSpeedVoltsPerSec ::
  "Fluidic_t \<Rightarrow> real \<Rightarrow> real \<Rightarrow> Fluidic_t" where
  "fluidicMixingCalculaterampSpeedVoltsPerSec me startVolts endVolts =
     me\<lparr>pParams := (pParams me)\<lparr>rampSpeedVoltsPerSec :=
          \<bar>startVolts - endVolts\<bar> * 2 * mixFrequency_Hz (pParams me)\<rparr>\<rparr>"

text \<open>\<open>FLUID_SPEED_HIGH_DEFAULT_V_PER_S\<close> is \<open>PIEZO_RAMP_MAX\<close>.\<close>

definition FLUID_SPEED_HIGH_DEFAULT_V_PER_S :: "env \<Rightarrow> real" where
  "FLUID_SPEED_HIGH_DEFAULT_V_PER_S e = PIEZO_RAMP_MAX e"

definition OnMsgBladderControlMoveToPos ::
  "env \<Rightarrow> Fluidic_t \<Rightarrow> FluidicMovePositionMsg_t \<Rightarrow> XState \<times> Fluidic_t" where
  "OnMsgBladderControlMoveToPos e me pBCMsg =
     (if BC_POS_HOME = mv_eTargetPos pBCMsg then
        (let me1 = me\<lparr>eTargetPos := mv_eTargetPos pBCMsg\<rparr>;
             me2 = me1\<lparr>pParams := (pParams me1)\<lparr>
                     rampSpeedVoltsPerSec := FLUID_SPEED_HIGH_DEFAULT_V_PER_S e,
                     timeout_ms := 1000,
                     compensationProportion := 0,
                     eOvershootCompensationType := FLUID_OVERSHOOT_COMP_NONE\<rparr>\<rparr>
         in X_TRAN me2 S_MoveOther)
      else if OK_STATUS = FluidCheckMoveParams e me (mv_eTargetPos pBCMsg)
                            (mv_rampSpeedVoltsPerSec pBCMsg) (mv_timeout_ms pBCMsg)
                            (mv_eOvershootComp pBCMsg) (mv_overshootCompProportion pBCMsg) then
        (let me1 = me\<lparr>eTargetPos := mv_eTargetPos pBCMsg\<rparr>;
             me2 = me1\<lparr>pParams := (pParams me1)\<lparr>
                     rampSpeedVoltsPerSec := mv_rampSpeedVoltsPerSec pBCMsg,
                     timeout_ms := mv_timeout_ms pBCMsg,
                     compensationProportion := mv_overshootCompProportion pBCMsg,
                     eOvershootCompensationType := mv_eOvershootComp pBCMsg\<rparr>\<rparr>;
             me3 = (if pos_ord (eLastKnownPos me2) \<ge> pos_ord (eTargetPos me2)
                    then me2\<lparr>status := (status me2)\<lparr>eMoveDirection := FLUID_MOVE_REV\<rparr>\<rparr>
                    else me2)
         in X_TRAN me3 S_CheckForStrip)
      else
        (X_RET_IGNORED,
         FluidicOnMoveFailMsg me (mv_eTargetPos pBCMsg) ERROR_FLUID_CHANNEL_INVALID_MOVE))"

definition OnMsgLiftUpBladders ::
  "env \<Rightarrow> Fluidic_t \<Rightarrow> FluidicMovePositionMsg_t \<Rightarrow> XState \<times> Fluidic_t" where
  "OnMsgLiftUpBladders e me pBCMsg =
     (if OK_STATUS = FluidCheckMoveParams e me (mv_eTargetPos pBCMsg)
                       (mv_rampSpeedVoltsPerSec pBCMsg) (mv_timeout_ms pBCMsg)
                       (mv_eOvershootComp pBCMsg) (mv_overshootCompProportion pBCMsg) then
        (let me1 = me\<lparr>eTargetPos := mv_eTargetPos pBCMsg\<rparr>;
             me2 = me1\<lparr>pParams := (pParams me1)\<lparr>
                     rampSpeedVoltsPerSec := mv_rampSpeedVoltsPerSec pBCMsg,
                     timeout_ms := mv_timeout_ms pBCMsg,
                     compensationProportion := mv_overshootCompProportion pBCMsg,
                     eOvershootCompensationType := mv_eOvershootComp pBCMsg\<rparr>\<rparr>;
             me3 = (if pos_ord (eLastKnownPos me2) \<ge> pos_ord (eTargetPos me2)
                    then me2\<lparr>status := (status me2)\<lparr>eMoveDirection := FLUID_MOVE_REV\<rparr>\<rparr>
                    else me2)
         in X_TRAN me3 S_LiftUpBladder)
      else (X_RET_IGNORED, me))"

definition OnMsgBladderControlMix :: "Fluidic_t \<Rightarrow> FluidicMixMsg_t \<Rightarrow> XState \<times> Fluidic_t" where
  "OnMsgBladderControlMix me pBCMsg =
     (if OK_STATUS = FluidCheckMixParams me (mx_eTargetPos pBCMsg) (mx_mixFrequency pBCMsg)
                       (mx_mixTime pBCMsg) (mx_mixCycles pBCMsg) (mx_eMixType pBCMsg)
                       (mx_openLoopCompensationFactor pBCMsg)
                       (mx_mixDownstrokeProportion pBCMsg) then
        (let me1 = me\<lparr>eTargetPos := mx_eTargetPos pBCMsg\<rparr>;
             me2 = me1\<lparr>pParams := (pParams me1)\<lparr>
                     mixFrequency_Hz := mx_mixFrequency pBCMsg,
                     mixTimeout_ms := mx_mixTime pBCMsg,
                     targetMixCycles := mx_mixCycles pBCMsg,
                     eMixType := mx_eMixType pBCMsg,
                     mixDownstrokeProportion := mx_mixDownstrokeProportion pBCMsg,
                     openLoopCompensationFactor := mx_openLoopCompensationFactor pBCMsg\<rparr>\<rparr>;
             me3 = me2\<lparr>status := (status me2)\<lparr>eMoveDirection := FLUID_MOVE_REV\<rparr>\<rparr>;
             me4 = me3\<lparr>pParams := (pParams me3)\<lparr>eMixEndPosition := eLastKnownPos me3\<rparr>\<rparr>;
             me5 = me4\<lparr>status := (status me4)\<lparr>mixingStagesCompleted := 0\<rparr>\<rparr>;
             me6 = me5\<lparr>mixTimer := 0\<rparr>
         in if eMixType (pParams me6) = FLUID_MIX_DUAL_POINT_LOOP
            then X_TRAN me6 S_MixContactControlled
            else X_TRAN me6 S_MixPiezoControlled)
      else (X_RET_IGNORED, me))"

definition OnMsgUpdateParams :: "Fluidic_t \<Rightarrow> FluidicUpdateParamsMsg_t \<Rightarrow> Fluidic_t" where
  "OnMsgUpdateParams me pUpdateEv =
     (let me1 = set_targetVolts BC_POS_FLUID_A (flAVal pUpdateEv) me;
          me2 = set_targetVolts BC_POS_FLUID_B (flBVal pUpdateEv) me1
      in set_targetVolts BC_POS_FLUID_C (flCVal pUpdateEv) me2)"

definition OnMsgWaitForFluidAtContact ::
  "Fluidic_t \<Rightarrow> FluidicWaitForFluidAtContactMsg_t \<Rightarrow> XState \<times> Fluidic_t" where
  "OnMsgWaitForFluidAtContact me pWaitMsg =
     (let me1 = me\<lparr>eTargetPos := wf_eTargetPos pWaitMsg\<rparr>;
          me2 = me1\<lparr>pParams := (pParams me1)\<lparr>timeout_ms := wf_timeoutMs pWaitMsg\<rparr>\<rparr>
      in X_TRAN me2 S_WaitForContact)"

text \<open>
  \<open>AdjustHysterisisVoltage\<close> multiplies the hysteresis of the target position and clamps
  the product; the store is into \<open>positionLimits[me->eTargetPos]\<close>. (Its \<open>ASSERT\<close> excludes
  \<open>FLUID_HYST_COUNT\<close>, which is no value of the multiplier type here.)
\<close>

definition AdjustHysterisisVoltage ::
  "Fluidic_t \<Rightarrow> eFluidicHysterisisChangeType_t \<Rightarrow> Fluidic_t" where
  "AdjustHysterisisVoltage me multiplierType =
     (let hystVoltage0 = posHysterisis (positionLimits (pParams me) (eTargetPos me));
          hystVoltage1 = hystVoltage0 * hysterisisMultipliersVolts (pParams me) multiplierType;
          hystVoltage =
            (if FLUIDIC_HYSETRISIS_MAX < hystVoltage1 then FLUIDIC_HYSETRISIS_MAX
             else if FLUIDIC_HYSETRISIS_MIN > hystVoltage1 then FLUIDIC_HYSETRISIS_MIN
             else hystVoltage1)
      in set_posHysterisis (eTargetPos me) hystVoltage me)"

definition FluidMixOnStageComplete :: "Fluidic_t \<Rightarrow> XState \<times> Fluidic_t" where
  "FluidMixOnStageComplete me =
     (let me1 = me\<lparr>status := (status me)\<lparr>mixingStagesCompleted :=
                    mixingStagesCompleted (status me) + 1\<rparr>\<rparr>
      in if mixingStagesCompleted (status me1) div FLUID_NUM_MIXING_STAGES_PER_CYCLE
              \<ge> targetMixCycles (pParams me1)
         then X_TRAN (FluidicOnMixComplete me1) S_Idle
         else X_TRAN me1 S_MixWaitContinue)"

definition FluidMixMovementContinue :: "Fluidic_t \<Rightarrow> XState \<times> Fluidic_t" where
  "FluidMixMovementContinue me =
     (let me1 = FluidicSetCurrentAndTargetPositions me (eTargetPos me) (eLastKnownPos me);
          me2 = (if eMoveDirection (status me1) = FLUID_MOVE_REV
                 then me1\<lparr>status := (status me1)\<lparr>eMoveDirection := FLUID_MOVE_FWD\<rparr>\<rparr>
                 else me1\<lparr>status := (status me1)\<lparr>eMoveDirection := FLUID_MOVE_REV\<rparr>\<rparr>)
      in if eMixType (pParams me2) = FLUID_MIX_DUAL_POINT_LOOP then
           X_TRAN me2 S_MixContactControlled
         else if eMixType (pParams me2) = FLUID_MIX_SINGLE_POINT_LOOP then
           (if eMoveDirection (status me2) = FLUID_MOVE_FWD
            then X_TRAN me2 S_MixContactControlled
            else X_TRAN me2 S_MixPiezoControlled)
         else X_TRAN me2 S_MixPiezoControlled)"

text \<open>The bladder event that belongs to a channel, for each of the two kinds.\<close>

fun bladderDownChannel :: "XEvent_t \<Rightarrow> eElectrochemicalChannel option" where
  "bladderDownChannel XMSG_EC_A1_BLDR_DOWN = Some EC_STRIP_CHAN_1"
| "bladderDownChannel XMSG_EC_B2_BLDR_DOWN = Some EC_STRIP_CHAN_2"
| "bladderDownChannel XMSG_EC_A3_BLDR_DOWN = Some EC_STRIP_CHAN_3"
| "bladderDownChannel XMSG_EC_B4_BLDR_DOWN = Some EC_STRIP_CHAN_4"
| "bladderDownChannel _ = None"

fun bladderUpChannel :: "XEvent_t \<Rightarrow> eElectrochemicalChannel option" where
  "bladderUpChannel XMSG_EC_A1_BLDR_UP = Some EC_STRIP_CHAN_1"
| "bladderUpChannel XMSG_EC_B2_BLDR_UP = Some EC_STRIP_CHAN_2"
| "bladderUpChannel XMSG_EC_A3_BLDR_UP = Some EC_STRIP_CHAN_3"
| "bladderUpChannel XMSG_EC_B4_BLDR_UP = Some EC_STRIP_CHAN_4"
| "bladderUpChannel _ = None"

text \<open>
  \<open>FluidicMonitorBladderDetection\<close>: two \<open>switch\<close>es over the eight bladder events. With
  the target Down the four "down" events are matched against the channel and the "up"
  events are skipped; with any other target it is the other way round. Any other event
  is the \<open>default\<close> label.
\<close>

definition FluidicMonitorBladderDetection ::
  "env \<Rightarrow> Fluidic_t \<Rightarrow> XEvent_t \<Rightarrow> eErrorCode \<times> Fluidic_t" where
  "FluidicMonitorBladderDetection e me eventId =
     (if \<not> chTargetPosReached me then
        (if BC_POS_DOWN = eTargetPos me then
           (case bladderDownChannel eventId of
              Some c \<Rightarrow>
                (if c = eChannel (pParams me) then
                   (let (error, me1) = piezoStop e me in (error, me1\<lparr>chTargetPosReached := True\<rparr>))
                 else (OK_STATUS, me))
            | None \<Rightarrow>
                (case bladderUpChannel eventId of
                   Some c \<Rightarrow> (OK_STATUS, me)
                 | None \<Rightarrow> (ERROR_FLUIDIC_UNKNOWN_MSG_FROM_EC, me)))
         else
           (case bladderUpChannel eventId of
              Some c \<Rightarrow>
                (if c = eChannel (pParams me) then
                   (let (error, me1) = piezoStop e me in (error, me1\<lparr>chTargetPosReached := True\<rparr>))
                 else (OK_STATUS, me))
            | None \<Rightarrow>
                (case bladderDownChannel eventId of
                   Some c \<Rightarrow> (OK_STATUS, me)
                 | None \<Rightarrow> (ERROR_FLUIDIC_UNKNOWN_MSG_FROM_EC, me))))
      else (OK_STATUS, me))"

fun ConvertFluidPosToEchemPos :: "eFluidicPositions_t \<Rightarrow> eElectrochemicalChannelPos" where
  "ConvertFluidPosToEchemPos BC_POS_FLUID_A = EC_CHAN_POS_A"
| "ConvertFluidPosToEchemPos BC_POS_FLUID_B = EC_CHAN_POS_B"
| "ConvertFluidPosToEchemPos BC_POS_FLUID_C = EC_CHAN_POS_C"
| "ConvertFluidPosToEchemPos _ = EC_CHAN_POS_NONE"


subsection \<open>Entry actions and timer ticks\<close>

definition Fluidic_OnIdleEntry :: "env \<Rightarrow> Fluidic_t \<Rightarrow> eErrorCode \<times> Fluidic_t" where
  "Fluidic_OnIdleEntry e me =
     (let (error1, me1) = ecDisable e me (eChannel (pParams me));
          me2 = emit Call_XTimerStop me1;
          (error, me3) = (if OK_STATUS = error1 then FluidicStopMove e me2 else (error1, me2));
          me4 = me3\<lparr>status := (status me3)\<lparr>eFluidFrontPosition := FD_DATA_INVALID\<rparr>\<rparr>;
          me5 = me4\<lparr>status := (status me4)\<lparr>eMoveDirection := FLUID_MOVE_FWD\<rparr>\<rparr>
      in (error, FluidicSetCurrentAndTargetPositions me5 (eLastKnownPos me5) BC_NONE))"

definition Fluidic_OnErrorStateEntry :: "env \<Rightarrow> Fluidic_t \<Rightarrow> Fluidic_t" where
  "Fluidic_OnErrorStateEntry e me =
     (let (error1, me1) = ecDisable e me (eChannel (pParams me));
          me2 = emit (Call_ERROR_CHECK error1) me1;
          (error2, me3) = FluidicStopMove e me2;
          me4 = emit (Call_ERROR_CHECK error2) me3;
          me5 = me4\<lparr>status := (status me4)\<lparr>eFluidFrontPosition := FD_DATA_INVALID\<rparr>\<rparr>;
          me6 = FluidicSetCurrentAndTargetPositions me5 BC_POS_UNKNOWN BC_NONE
      in emit (Publish_errorMsg (errorCode me6)) me6)"

definition OnFluidMoveContact_Entry :: "env \<Rightarrow> Fluidic_t \<Rightarrow> (eErrorCode \<times> Fluidic_t) option" where
  "OnFluidMoveContact_Entry e me =
     (let ecChan = eChannel (pParams me);
          me1 = emit Call_XTimerStart me;
          eTarget = eTargetPos me1
      in do {
           ASSERT (pos_ord (eTargetPos me1) \<le> BC_VALID_POS_COUNT
                   \<and> pos_ord (eTargetPos me1) > pos_ord BC_POS_DOWN);
           let me2 = me1\<lparr>timeoutTimer := 0\<rparr>;
               (error, me3) = ecSetModeFillDetect e me2 ecChan EC_CHAN_POS_A
           in if OK_STATUS = error then FluidicBeginPiezoMoveToTarget e me3
              else Some (error, FluidicOnMoveFailMsg me3 eTarget error)
         })"

definition OnFluidMoveOther_Entry :: "env \<Rightarrow> Fluidic_t \<Rightarrow> (eErrorCode \<times> Fluidic_t) option" where
  "OnFluidMoveOther_Entry e me =
     (let me1 = me\<lparr>timeoutTimer := 0\<rparr>;
          me2 = emit Call_XTimerStart me1
      in if eTargetPos me2 = BC_POS_HOME then Some (FluidicHomeMoveBegin e me2)
         else
           (let (err1, me3) = ecDisable e me2 (eChannel (pParams me2)) in
            do {
              (err2, me4) \<leftarrow> (if OK_STATUS = err1 then
                                do {
                                  (err, me') \<leftarrow> FluidicBeginPiezoMoveToTarget e me3;
                                  Some (if err = OK_COMMAND_ACCEPTED then OK_STATUS else err, me')
                                }
                              else Some (err1, me3));
              if OK_STATUS \<noteq> err2 then Some (err2, FluidicOnMoveFailMsg me4 (eTargetPos me4) err2)
              else Some (OK_STATUS, me4)
            }))"

definition OnLiftUpBladders_Entry :: "env \<Rightarrow> Fluidic_t \<Rightarrow> (eErrorCode \<times> Fluidic_t) option" where
  "OnLiftUpBladders_Entry e me =
     (let me1 = me\<lparr>timeoutTimer := 0\<rparr>;
          me2 = emit Call_XTimerStart me1
      in do {
           (err, me3) \<leftarrow> FluidicBeginPiezoMoveToLift e me2;
           if OK_COMMAND_ACCEPTED \<noteq> err
           then Some (err, FluidicOnMoveFailMsg me3 (eTargetPos me3) err)
           else Some (err, me3)
         })"

definition FluidicMoveContact_OnTick :: "env \<Rightarrow> Fluidic_t \<Rightarrow> (XState \<times> Fluidic_t) option" where
  "FluidicMoveContact_OnTick e me =
     do {
       ASSERT (pos_ord (eTargetPos me) \<noteq> BC_VALID_POS_COUNT \<and> eTargetPos me \<noteq> BC_NONE
               \<and> eTargetPos me \<noteq> BC_POS_UNKNOWN);
       eRequirement \<leftarrow> fluidGetEchemRequirement me True;
       let eFluidFrontPos = eFluidFrontPosition (status me);
           (retCode1, error, me1) =
             (if fd_ord eFluidFrontPos < fd_ord FLUID_DETECTED \<or> fd_ord eFluidFrontPos \<ge> FLD_POS_NUM
              then
                (let (r, m) = X_TRAN (FluidicOnMoveFailMsg me (eTargetPos me)
                                        ERROR_FLUIDIC_UNKNOWN_MSG_FROM_EC) S_Idle
                 in (r, OK_STATUS, m))
              else if eRequirement = eFluidFrontPos then
                (let (err, m1) = FluidicStopMove e me;
                     (r, m) = X_TRAN m1 S_WaitForPiezoStop
                 in (r, err, m))
              else (X_RET_HANDLED, OK_STATUS, me));
           me2 = me1\<lparr>timeoutTimer := timeoutTimer me1 + FLUIDIC_TIMER_COUNT_MS\<rparr>;
           (retCode, me3) =
             (if timeoutTimer me2 \<ge> timeout_ms (pParams me2)
              then X_TRAN (FluidicOnMoveFailMsg me2 (eTargetPos me2) ERROR_DXRUNNER_FMOV_TIMEOUT) S_Idle
              else (retCode1, me2))
       in Some (FluidicsErrorSet me3 error retCode)
     }"

definition FluidicMixCalculateDownStrokeMixProportion :: "Fluidic_t \<Rightarrow> real" where
  "FluidicMixCalculateDownStrokeMixProportion me =
     (let endVolts0 = targetVolts (positionLimits (pParams me) (eTargetPos me));
          startVolts = piezoVoltage (status me);
          endVolts1 = startVolts - endVolts0;
          endVolts2 = endVolts1 * mixDownstrokeProportion (pParams me)
      in startVolts - endVolts2)"

definition FluidicMixContactControlled_OnEntry ::
  "env \<Rightarrow> Fluidic_t \<Rightarrow> (eErrorCode \<times> Fluidic_t) option" where
  "FluidicMixContactControlled_OnEntry e me =
     (let pl = positionLimits (pParams me);
          (startVolts, endVolts) =
            (if eMixType (pParams me) = FLUID_MIX_DUAL_POINT_LOOP then
               (targetVolts (pl (eLastKnownPos me)),
                if eMoveDirection (status me) = FLUID_MOVE_REV
                then targetVolts (pl (eTargetPos me)) - posHysterisis (pl (eTargetPos me))
                else targetVolts (pl (eTargetPos me)) + posHysterisis (pl (eTargetPos me)))
             else if eMoveDirection (status me) = FLUID_MOVE_REV then
               (targetVolts (pl (eLastKnownPos me)), FluidicMixCalculateDownStrokeMixProportion me)
             else
               (piezoVoltageGet e,
                targetVolts (pl (eTargetPos me)) + posHysterisis (pl (eTargetPos me))));
          ecChan = eChannel (pParams me);
          me1 = emit Call_XTimerStart me;
          me2 = fluidicMixingCalculaterampSpeedVoltsPerSec me1 startVolts endVolts;
          (error, me3) = ecSetModeFillDetect e me2 ecChan EC_CHAN_POS_A
      in if OK_STATUS = error then FluidicBeginPiezoMoveToTarget e me3
         else Some (error, me3))"

text \<open>
  \<open>FluidicMixPiezoControlled_OnEntry\<close>: on a reverse stroke the end voltage is the
  down-stroke proportion, and the open-loop compensation is subtracted under the test
  \<open>mixingStagesCompleted == 1u\<close> in open-loop mode.
\<close>

definition FluidicMixPiezoControlled_OnEntry :: "env \<Rightarrow> Fluidic_t \<Rightarrow> eErrorCode \<times> Fluidic_t" where
  "FluidicMixPiezoControlled_OnEntry e me =
     (let (startVolts, endVolts) =
            (if eMoveDirection (status me) = FLUID_MOVE_REV then
               (let startV = piezoVoltage (status me);
                    endV = FluidicMixCalculateDownStrokeMixProportion me
                in (startV,
                    if mixingStagesCompleted (status me) = 1
                       \<and> eMixType (pParams me) = FLUID_MIX_OPEN_LOOP
                    then endV - endV * openLoopCompensationFactor (pParams me)
                    else endV))
             else
               (piezoVoltage (status me),
                targetVolts (positionLimits (pParams me) (eTargetPos me))));
          me1 = emit Call_XTimerStart me;
          me2 = fluidicMixingCalculaterampSpeedVoltsPerSec me1 startVolts endVolts
      in piezoVoltageSet e me2 endVolts (rampSpeedVoltsPerSec (pParams me2)) False)"

definition FluidicMixContactControlled_OnTick ::
  "env \<Rightarrow> Fluidic_t \<Rightarrow> (XState \<times> Fluidic_t) option" where
  "FluidicMixContactControlled_OnTick e me =
     do {
       ASSERT (pos_ord (eTargetPos me) \<noteq> BC_VALID_POS_COUNT \<and> eTargetPos me \<noteq> BC_NONE
               \<and> eTargetPos me \<noteq> BC_POS_UNKNOWN);
       eTargetFrontPosition \<leftarrow> fluidGetEchemRequirement me True;
       let me1 = me\<lparr>mixTimer := mixTimer me + FLUIDIC_TIMER_COUNT_MS\<rparr>;
       let (retCode1, fluidInCorrectPos, me2) =
             (if mixTimer me1 \<ge> mixTimeout_ms (pParams me1) then
                (let m1 = FluidicOnMoveFailMsg me1 (eTargetPos me1) ERROR_DXRUNNER_FMIX_TIMEOUT;
                     m2 = m1\<lparr>eTargetPos := eMixEndPosition (pParams m1)\<rparr>;
                     (r, m3) = X_TRAN m2 S_MoveContact
                 in (r, False, m3))
              else if fd_ord eTargetFrontPosition \<le> fd_ord (eFluidFrontPosition (status me1))
                      \<and> eMoveDirection (status me1) = FLUID_MOVE_FWD then
                (X_RET_HANDLED, True, me1)
              else if fd_ord eTargetFrontPosition \<ge> fd_ord (eFluidFrontPosition (status me1))
                      \<and> eMoveDirection (status me1) = FLUID_MOVE_REV then
                (X_RET_HANDLED, True, me1)
              else (X_RET_HANDLED, False, me1));
       (retCode, me5) \<leftarrow>
         (if fluidInCorrectPos then
            (let me3 = set_targetVolts (eTargetPos me2) (piezoVoltageGet e) me2;
                 me4 = AdjustHysterisisVoltage me3 FLUID_HYST_DEC
             in Some (FluidMixOnStageComplete me4))
          else Some (retCode1, me2));
       Some (FluidicsErrorSet me5 OK_STATUS retCode)
     }"

definition FluidicState_CheckForStrip_OnTick :: "env \<Rightarrow> Fluidic_t \<Rightarrow> XState \<times> Fluidic_t" where
  "FluidicState_CheckForStrip_OnTick e me =
     (let me1 = me\<lparr>timeoutTimer := timeoutTimer me + FLUIDIC_TIMER_COUNT_MS\<rparr>;
          me2 = me1\<lparr>status := (status me1)\<lparr>eFluidFrontPosition := ecGetFluidPosition e\<rparr>\<rparr>;
          (retCode1, error1, me3) =
            (if timeoutTimer me2 > ECHEM_UPDATE_PERIOD_MS
                \<and> eFluidFrontPosition (status me2) \<noteq> FD_DATA_INVALID then
               (let m = me2\<lparr>status := (status me2)\<lparr>eFluidFrontPosition := ecGetFluidPosition e\<rparr>\<rparr>
                in if eTargetPos m = BC_POS_DOWN
                      \<and> fd_ord (eFluidFrontPosition (status m)) \<ge> fd_ord NO_FLUID_DETECTED then
                     (let (r, m1) = X_TRAN m S_MoveOther in (r, OK_STATUS, m1))
                   else if fd_ord (eFluidFrontPosition (status m)) \<ge> fd_ord FLUID_DETECTED
                           \<and> pos_ord (eTargetPos m) > pos_ord BC_POS_DOWN then
                     (let (r, m1) = X_TRAN m S_MoveContact
                      in (r, OK_STATUS, m1\<lparr>timeoutTimer := 0\<rparr>))
                   else if eFluidFrontPosition (status m) = NO_STRIP_DETECTED then
                     (let (r, m1) = X_TRAN m S_Idle in (r, ERROR_FLUID_NO_STRIP, m1))
                   else
                     (let (r, m1) = X_TRAN m S_Idle in (r, ERROR_FLUID_CHANNEL_INVALID_MOVE, m1)))
             else (X_RET_HANDLED, OK_STATUS, me2));
          (retCode, error, me4) =
            (if timeoutTimer me3 \<ge> timeout_ms (pParams me3) then
               (let (r, m1) = X_TRAN me3 S_Idle in (r, ERROR_COMMAND_TIMEOUT, m1))
             else (retCode1, error1, me3));
          me5 = (if OK_STATUS \<noteq> error then FluidicOnMoveFailMsg me4 (eTargetPos me4) error else me4)
      in FluidicsErrorSet me5 error retCode)"

text \<open>
  \<open>FluidicStateWaitForPiezoStop_OnPiezoStop\<close>. After \<open>FluidicOnMoveCompleteMsg\<close> the
  target position is \<open>BC_NONE\<close>, and the store that follows it uses that index: it goes
  to the slot of \<open>BC_NONE\<close>, outside the table, and the move completes.
\<close>

definition FluidicStateWaitForPiezoStop_OnPiezoStop ::
  "env \<Rightarrow> Fluidic_t \<Rightarrow> nat \<Rightarrow> real \<Rightarrow> XState \<times> Fluidic_t" where
  "FluidicStateWaitForPiezoStop_OnPiezoStop e me chan volts =
     (let (error0, me1) = FluidOnPiezoStop me chan volts;
          eCompType = eOvershootCompensationType (pParams me1);
          me2 = me1\<lparr>eLastKnownPos := eTargetPos me1\<rparr>;
          me3 = set_targetVolts (eTargetPos me2) (piezoVoltageGet e) me2;
          (retCode1, error, movementIsComplete, me6) =
            (if eMoveDirection (status me3) = FLUID_MOVE_FWD then
               (if FLUID_OVERSHOOT_COMP_NONE = eCompType then
                  (let me4 = FluidicOnMoveCompleteMsg e me3;
                       me5 = set_targetVolts (eTargetPos me4) (piezoVoltage (status me4)) me4
                   in (X_RET_HANDLED, error0, True, me5))
                else if FLUID_OVERSHOOT_COMP_PIEZO_VOLTS = eCompType then
                  (let pl = positionLimits (pParams me3);
                       lowerVolts = (case lowerPos (eTargetPos me3) of
                                       Some lp \<Rightarrow> targetVolts (pl lp)
                                     | None \<Rightarrow> outsideTable_targetVolts e);
                       overshootPiezoVoltage =
                         (targetVolts (pl (eTargetPos me3)) - lowerVolts)
                           * compensationProportion (pParams me3);
                       targetVoltage = targetVolts (pl (eTargetPos me3)) - overshootPiezoVoltage;
                       me4 = set_targetVolts (eTargetPos me3) targetVoltage me3;
                       (err, me5) = piezoVoltageSet e me4 targetVoltage (PIEZO_RAMP_MAX e) False
                   in (X_RET_HANDLED, err, False, me5))
                else
                  (let me4 = me3\<lparr>status := (status me3)\<lparr>eMoveDirection := FLUID_MOVE_REV\<rparr>\<rparr>;
                       (r, me5) = X_TRAN me4 S_MoveContact
                   in (r, error0, False, me5)))
             else
               (let me4 = FluidicOnMoveCompleteMsg e me3;
                    me5 = set_targetVolts (eTargetPos me4) (piezoVoltage (status me4)) me4
                in (X_RET_HANDLED, error0, True, me5)));
          (retCode, me7) =
            (if movementIsComplete then
               (if monitorBreachAfterMove (pParams me6) then X_TRAN me6 S_MonitorFluidBreach
                else X_TRAN me6 S_Idle)
             else (retCode1, me6))
      in FluidicsErrorSet me7 error retCode)"


subsection \<open>State handlers\<close>

definition Fluidic_defaultEvents :: "env \<Rightarrow> Fluidic_t \<Rightarrow> XEvent_t \<Rightarrow> XState \<times> Fluidic_t" where
  "Fluidic_defaultEvents e me pEv =
     (let (retCode, error, me1) =
            (case pEv of
               XMSG_FLUID_CHANNEL_CANCEL \<Rightarrow>
                 (let m1 = (if eTargetPos me \<noteq> BC_NONE then
                              FluidicSetCurrentAndTargetPositions (FluidicOnMoveCompleteMsg e me)
                                BC_POS_UNKNOWN BC_NONE
                            else me);
                      m2 = m1\<lparr>status := (status m1)\<lparr>eFluidFrontPosition := FD_DATA_INVALID\<rparr>\<rparr>;
                      (r, m3) = X_TRAN m2 S_Idle
                  in (r, OK_STATUS, m3))
             | XMSG_GLOBAL_HALT \<Rightarrow>
                 (let m1 = (if eTargetPos me \<noteq> BC_NONE then
                              FluidicSetCurrentAndTargetPositions (FluidicOnMoveCompleteMsg e me)
                                BC_POS_UNKNOWN BC_NONE
                            else me);
                      m2 = m1\<lparr>status := (status m1)\<lparr>eFluidFrontPosition := FD_DATA_INVALID\<rparr>\<rparr>;
                      (r, m3) = X_TRAN m2 S_Idle
                  in (r, OK_STATUS, m3))
             | XMSG_DOOR_OPENED \<Rightarrow>
                 (let m1 = me\<lparr>eTargetPos := BC_POS_HOME\<rparr>;
                      m2 = m1\<lparr>publishCompletionEvent := False\<rparr>;
                      (r, m3) = X_TRAN m2 S_MoveOther
                  in (r, OK_STATUS, m3))
             | XMSG_FLUID_CHANNEL_MOVE_TO pFMoveEv \<Rightarrow>
                 (if mv_eTargetPos pFMoveEv = BC_POS_HOME then
                    (let (r, m1) = OnMsgBladderControlMoveToPos e me pFMoveEv in (r, OK_STATUS, m1))
                  else (X_RET_HANDLED, OK_STATUS, me))
             | XMSG_FLUID_MIX m \<Rightarrow> (X_RET_IGNORED, OK_STATUS, me)
             | XMSG_FLUID_ERR_CLEAR \<Rightarrow> (X_RET_IGNORED, OK_STATUS, me)
             | XMSG_PIEZO_MOVE_COMPLTE chan volts \<Rightarrow>
                 (let (err, m1) = FluidOnPiezoMoveComplete me chan volts in (X_RET_HANDLED, err, m1))
             | XMSG_PIEZO_STOPPED chan volts \<Rightarrow>
                 (let (err, m1) = FluidOnPiezoStop me chan volts in (X_RET_HANDLED, err, m1))
             | XMSG_EC_FLUID_STATUS_CHANGED fluidPositions \<Rightarrow>
                 (let (err, m1) = FluidOnEchemStatusChange me fluidPositions
                  in (X_RET_HANDLED, err, m1))
             | XMSG_FLUID_CHANNEL_NEW_PARAMS pUpdateEv \<Rightarrow>
                 (X_RET_HANDLED, OK_STATUS, OnMsgUpdateParams me pUpdateEv)
             | XMSG_PEIZO_MOVE_FAIL chan err \<Rightarrow>
                 (if chan = pPiezo_chan me then (X_RET_HANDLED, err, me)
                  else (X_RET_HANDLED, OK_STATUS, me))
             | XMSG_EC_ERROR err \<Rightarrow> (X_RET_HANDLED, err, me)
             | X_EV_EXIT \<Rightarrow> (X_RET_HANDLED, OK_STATUS, emit Call_XTimerStop me)
             | XMSG_FLUID_ENABLE_BREACH_DETECT monitorFluidPosition \<Rightarrow>
                 (X_RET_HANDLED, OK_STATUS,
                  me\<lparr>pParams := (pParams me)\<lparr>monitorBreachAfterMove := monitorFluidPosition\<rparr>\<rparr>)
             | _ \<Rightarrow> (X_RET_IGNORED, OK_STATUS, me))
      in FluidicsErrorSet me1 error retCode)"

text \<open>The events with the labels \<open>XMSG_EC_xx_BLDR_UP\<close> and \<open>XMSG_EC_xx_BLDR_DOWN\<close>.\<close>

definition isBladderEvent :: "XEvent_t \<Rightarrow> bool" where
  "isBladderEvent pEv = (bladderUpChannel pEv \<noteq> None \<or> bladderDownChannel pEv \<noteq> None)"

definition FluidicState_Init :: "Fluidic_t \<Rightarrow> XState \<times> Fluidic_t" where
  "FluidicState_Init me =
     (let (retCode, me1) = X_TRAN me S_Idle;
          me2 = FluidicSetCurrentAndTargetPositions me1 BC_POS_UNKNOWN BC_NONE;
          me3 = me2\<lparr>status := (status me2)\<lparr>eFluidFrontPosition := FD_DATA_INVALID\<rparr>\<rparr>
      in (retCode, me3))"

definition FluidicState_Idle :: "env \<Rightarrow> Fluidic_t \<Rightarrow> XEvent_t \<Rightarrow> XState \<times> Fluidic_t" where
  "FluidicState_Idle e me pEv =
     (let (retCode, error, me1) =
            (case pEv of
               X_EV_ENTRY \<Rightarrow>
                 (let (err, m1) = Fluidic_OnIdleEntry e (me\<lparr>timeoutTimer := 0\<rparr>)
                  in (X_RET_HANDLED, err, m1))
             | XMSG_FLUID_CHANNEL_MOVE_TO msg \<Rightarrow>
                 (let (r, m1) = OnMsgBladderControlMoveToPos e me msg in (r, OK_STATUS, m1))
             | XMSG_FLUID_LIFT_UP_BLADDER msg \<Rightarrow>
                 (let (r, m1) = OnMsgLiftUpBladders e me msg in (r, OK_STATUS, m1))
             | XMSG_FLUID_MIX msg \<Rightarrow>
                 (let (r, m1) = OnMsgBladderControlMix me msg in (r, OK_STATUS, m1))
             | XMSG_FLUID_WAIT_FOR_CONTACT msg \<Rightarrow>
                 (let (r, m1) = OnMsgWaitForFluidAtContact me msg in (r, OK_STATUS, m1))
             | _ \<Rightarrow> (let (r, m1) = Fluidic_defaultEvents e me pEv in (r, OK_STATUS, m1)))
      in FluidicsErrorSet me1 error retCode)"

definition FluidicState_MoveContact ::
  "env \<Rightarrow> Fluidic_t \<Rightarrow> XEvent_t \<Rightarrow> (XState \<times> Fluidic_t) option" where
  "FluidicState_MoveContact e me pEv =
     do {
       (retCode, error, me1) \<leftarrow>
         (case pEv of
            X_EV_ENTRY \<Rightarrow>
              do {
                (err, m1) \<leftarrow> OnFluidMoveContact_Entry e (me\<lparr>timeoutTimer := 0\<rparr>);
                Some (X_RET_HANDLED, err, m1)
              }
          | X_EV_TIMER \<Rightarrow>
              do {
                (r, m1) \<leftarrow> FluidicMoveContact_OnTick e me;
                Some (r, OK_STATUS, m1)
              }
          | XMSG_PIEZO_MOVE_COMPLTE chan volts \<Rightarrow> Some (X_RET_HANDLED, OK_STATUS, me)
          | _ \<Rightarrow> (let (r, m1) = Fluidic_defaultEvents e me pEv in Some (r, OK_STATUS, m1)));
       Some (FluidicsErrorSet me1 error retCode)
     }"

definition FluidicState_MoveOther ::
  "env \<Rightarrow> Fluidic_t \<Rightarrow> XEvent_t \<Rightarrow> (XState \<times> Fluidic_t) option" where
  "FluidicState_MoveOther e me pEv =
     (let onPiezo = (\<lambda>chan volts.
            if chan = pPiezo_chan me then
              (let m1 = me\<lparr>status := (status me)\<lparr>piezoVoltage := volts\<rparr>\<rparr>;
                   m2 = FluidicOnMoveCompleteMsg e m1;
                   m3 = (if BC_POS_DOWN = eTargetPos m2
                         then set_targetVolts (eTargetPos m2) (piezoVoltageGet e) m2
                         else m2);
                   (r, m4) = X_TRAN m3 S_Idle
               in Some (r, OK_STATUS, m4))
            else Some (X_RET_HANDLED, OK_STATUS, me))
      in do {
           (retCode, error, me1) \<leftarrow>
             (if pEv = X_EV_ENTRY then
                do {
                  (err, m1) \<leftarrow> OnFluidMoveOther_Entry e (me\<lparr>chTargetPosReached := False\<rparr>);
                  Some (X_RET_HANDLED, err, m1)
                }
              else if pEv = X_EV_TIMER then
                (let m1 = me\<lparr>timeoutTimer := timeoutTimer me + FLUIDIC_TIMER_COUNT_MS\<rparr>;
                     (r, m2) =
                       (if timeoutTimer m1 \<ge> timeout_ms (pParams m1) then
                          (let m' = FluidicOnMoveFailMsg m1 (eTargetPos m1) ERROR_DXRUNNER_FMOV_TIMEOUT;
                               m'' = emit Publish_fcStopBladderDetectMsg m'
                           in X_TRAN (m''\<lparr>eLastKnownPos := BC_POS_UNKNOWN\<rparr>) S_Idle)
                        else (X_RET_HANDLED, m1));
                     m3 = (if 20 = timeoutTimer m2 \<and> BC_POS_DOWN = eTargetPos m2
                           then emit Publish_fcStartBladderDetectMsg m2 else m2)
                 in Some (r, OK_STATUS, m3))
              else if isBladderEvent pEv then
                (let (err, m1) = FluidicMonitorBladderDetection e me pEv
                 in Some (X_RET_HANDLED, err, m1))
              else
                (case pEv of
                   XMSG_PIEZO_STOPPED chan volts \<Rightarrow> onPiezo chan volts
                 | XMSG_PIEZO_MOVE_COMPLTE chan volts \<Rightarrow> onPiezo chan volts
                 | _ \<Rightarrow> (let (r, m1) = Fluidic_defaultEvents e me pEv in Some (r, OK_STATUS, m1))));
           Some (FluidicsErrorSet me1 error retCode)
         })"

definition FluidicState_LiftUpBladder ::
  "env \<Rightarrow> Fluidic_t \<Rightarrow> XEvent_t \<Rightarrow> (XState \<times> Fluidic_t) option" where
  "FluidicState_LiftUpBladder e me pEv =
     (let onPiezo = (\<lambda>chan volts.
            if chan = pPiezo_chan me then
              (let m1 = me\<lparr>eTargetPos := BC_POS_DOWN\<rparr>;
                   m2 = m1\<lparr>status := (status m1)\<lparr>piezoVoltage := volts\<rparr>\<rparr>;
                   m3 = FluidicOnMoveCompleteMsg e m2;
                   (r, m4) = X_TRAN m3 S_Idle
               in Some (r, OK_STATUS, m4))
            else Some (X_RET_HANDLED, OK_STATUS, me))
      in do {
           (retCode, error, me1) \<leftarrow>
             (if pEv = X_EV_ENTRY then
                do {
                  (err, m1) \<leftarrow> OnLiftUpBladders_Entry e (me\<lparr>chTargetPosReached := False\<rparr>);
                  Some (X_RET_HANDLED, err, m1)
                }
              else if pEv = X_EV_TIMER then
                (let m1 = me\<lparr>timeoutTimer := timeoutTimer me + FLUIDIC_TIMER_COUNT_MS\<rparr>;
                     (r, m2) =
                       (if timeoutTimer m1 \<ge> timeout_ms (pParams m1) then
                          (let m' = FluidicOnMoveFailMsg m1 (eTargetPos m1) ERROR_COMMAND_TIMEOUT
                           in X_TRAN (m'\<lparr>eLastKnownPos := BC_POS_UNKNOWN\<rparr>) S_Idle)
                        else (X_RET_HANDLED, m1));
                     m3 = (if 20 = timeoutTimer m2 \<and> BC_POS_HOME = eTargetPos m2
                           then emit Publish_fcStartBladderDetectMsg m2 else m2)
                 in Some (r, OK_STATUS, m3))
              else if isBladderEvent pEv then
                (let (err, m1) = FluidicMonitorBladderDetection e me pEv
                 in Some (X_RET_HANDLED, err, m1))
              else
                (case pEv of
                   XMSG_PIEZO_STOPPED chan volts \<Rightarrow> onPiezo chan volts
                 | XMSG_PIEZO_MOVE_COMPLTE chan volts \<Rightarrow> onPiezo chan volts
                 | _ \<Rightarrow> (let (r, m1) = Fluidic_defaultEvents e me pEv in Some (r, OK_STATUS, m1))));
           Some (FluidicsErrorSet me1 error retCode)
         })"

definition FluidicState_WaitForContact ::
  "env \<Rightarrow> Fluidic_t \<Rightarrow> XEvent_t \<Rightarrow> (XState \<times> Fluidic_t) option" where
  "FluidicState_WaitForContact e me pEv =
     (let onPiezo = (\<lambda>chan (volts :: real).
            if chan = pPiezo_chan me then
              (let (r, m1) = X_TRAN (FluidicOnMoveFailMsg me (eTargetPos me)
                                       ERROR_FLUIDIC_UNEXPECTED_MSG_PIEZO) S_Idle
               in Some (r, OK_STATUS, m1))
            else Some (X_RET_HANDLED, OK_STATUS, me))
      in do {
           (retCode, error, me1) \<leftarrow>
             (case pEv of
                X_EV_ENTRY \<Rightarrow>
                  (let ecChan = eChannel (pParams me);
                       m1 = emit Call_XTimerStart me;
                       m2 = m1\<lparr>timeoutTimer := 0\<rparr>;
                       (err, m3) = ecSetModeFillDetect e m2 ecChan EC_CHAN_POS_A
                   in Some (X_RET_HANDLED, err, m3))
              | X_EV_TIMER \<Rightarrow>
                  (let m1 = me\<lparr>timeoutTimer := timeoutTimer me + FLUIDIC_TIMER_COUNT_MS\<rparr> in
                   do {
                     eRequirement \<leftarrow> fluidGetEchemRequirement m1 True;
                     let eFluidFrontPos = eFluidFrontPosition (status m1);
                     let (r, m2) =
                           (if eRequirement = eFluidFrontPos then
                              X_TRAN (FluidicOnMoveCompleteMsg e m1) S_Idle
                            else if timeoutTimer m1 \<ge> timeout_ms (pParams m1) then
                              X_TRAN (FluidicOnMoveFailMsg m1 (eTargetPos m1) ERROR_COMMAND_TIMEOUT)
                                S_Idle
                            else (X_RET_HANDLED, m1));
                     Some (r, OK_STATUS, m2)
                   })
              | XMSG_PIEZO_STOPPED chan volts \<Rightarrow> onPiezo chan volts
              | XMSG_PIEZO_MOVE_COMPLTE chan volts \<Rightarrow> onPiezo chan volts
              | _ \<Rightarrow> (let (r, m1) = Fluidic_defaultEvents e me pEv in Some (r, OK_STATUS, m1)));
           Some (FluidicsErrorSet me1 error retCode)
         })"

definition FluidicState_CheckForStrip ::
  "env \<Rightarrow> Fluidic_t \<Rightarrow> XEvent_t \<Rightarrow> XState \<times> Fluidic_t" where
  "FluidicState_CheckForStrip e me pEv =
     (let (retCode, error, me1) =
            (case pEv of
               X_EV_ENTRY \<Rightarrow>
                 (let m1 = me\<lparr>timeoutTimer := 0\<rparr>;
                      m2 = emit Call_XTimerStart m1;
                      (err, m3) = ecSetModeFillDetect e m2 (eChannel (pParams m2)) EC_CHAN_POS_A
                  in (X_RET_HANDLED, err, m3))
             | X_EV_TIMER \<Rightarrow>
                 (let (r, m1) = FluidicState_CheckForStrip_OnTick e me in (r, OK_STATUS, m1))
             | _ \<Rightarrow> (let (r, m1) = Fluidic_defaultEvents e me pEv in (r, OK_STATUS, m1)))
      in FluidicsErrorSet me1 error retCode)"

definition FluidicState_WaitForPiezoStop ::
  "env \<Rightarrow> Fluidic_t \<Rightarrow> XEvent_t \<Rightarrow> XState \<times> Fluidic_t" where
  "FluidicState_WaitForPiezoStop e me pEv =
     (let (retCode, me1) =
            (case pEv of
               XMSG_PIEZO_STOPPED chan volts \<Rightarrow>
                 (if chan = pPiezo_chan me
                  then FluidicStateWaitForPiezoStop_OnPiezoStop e me chan volts
                  else (X_RET_HANDLED, me))
             | XMSG_PIEZO_MOVE_COMPLTE chan volts \<Rightarrow>
                 (if chan = pPiezo_chan me then
                    (let m1 = me\<lparr>status := (status me)\<lparr>piezoVoltage := volts\<rparr>\<rparr>;
                         m2 = FluidicOnMoveCompleteMsg e m1
                     in if monitorBreachAfterMove (pParams m2)
                        then X_TRAN m2 S_MonitorFluidBreach
                        else X_TRAN m2 S_Idle)
                  else (X_RET_HANDLED, me))
             | _ \<Rightarrow> Fluidic_defaultEvents e me pEv)
      in FluidicsErrorSet me1 OK_STATUS retCode)"

text \<open>The cancel branch shared by the three mix states.\<close>

definition mixCancel :: "Fluidic_t \<Rightarrow> XState \<times> Fluidic_t" where
  "mixCancel me =
     (let m1 = me\<lparr>eTargetPos := eMixEndPosition (pParams me)\<rparr>;
          m2 = m1\<lparr>status := (status m1)\<lparr>mixComplete := True\<rparr>\<rparr>
      in X_TRAN m2 S_MoveContact)"

text \<open>The mix-timeout branch of the timer tick in the piezo-controlled and waiting states.\<close>

definition mixTimerTick :: "Fluidic_t \<Rightarrow> XState \<times> Fluidic_t" where
  "mixTimerTick me =
     (let m1 = me\<lparr>mixTimer := mixTimer me + FLUIDIC_TIMER_COUNT_MS\<rparr>
      in if mixTimer m1 \<ge> mixTimeout_ms (pParams m1) then
           (let m2 = FluidicOnMoveFailMsg m1 (eTargetPos m1) ERROR_DXRUNNER_FMIX_TIMEOUT;
                m3 = m2\<lparr>eTargetPos := eMixEndPosition (pParams m2)\<rparr>
            in X_TRAN m3 S_MoveContact)
         else (X_RET_HANDLED, m1))"

definition FluidicState_MixContactControlled ::
  "env \<Rightarrow> Fluidic_t \<Rightarrow> XEvent_t \<Rightarrow> (XState \<times> Fluidic_t) option" where
  "FluidicState_MixContactControlled e me pEv =
     do {
       (retCode, error, me1) \<leftarrow>
         (case pEv of
            X_EV_ENTRY \<Rightarrow>
              do {
                (err, m1) \<leftarrow> FluidicMixContactControlled_OnEntry e me;
                Some (X_RET_HANDLED, err, m1)
              }
          | X_EV_TIMER \<Rightarrow>
              do {
                (r, m1) \<leftarrow> FluidicMixContactControlled_OnTick e me;
                Some (r, OK_STATUS, m1)
              }
          | XMSG_PIEZO_MOVE_COMPLTE chan volts \<Rightarrow>
              (if chan = pPiezo_chan me then
                 (let m1 = AdjustHysterisisVoltage me FLUID_HYST_INC;
                      m2 = m1\<lparr>status := (status m1)\<lparr>piezoVoltage := volts\<rparr>\<rparr>;
                      (r, m3) = FluidMixOnStageComplete m2
                  in Some (r, OK_STATUS, m3))
               else Some (X_RET_HANDLED, OK_STATUS, me))
          | XMSG_FLUID_CHANNEL_CANCEL \<Rightarrow>
              (let (r, m1) = mixCancel me in Some (r, OK_STATUS, m1))
          | _ \<Rightarrow> (let (r, m1) = Fluidic_defaultEvents e me pEv in Some (r, OK_STATUS, m1)));
       Some (FluidicsErrorSet me1 error retCode)
     }"

definition FluidicState_MixPiezoControlled ::
  "env \<Rightarrow> Fluidic_t \<Rightarrow> XEvent_t \<Rightarrow> XState \<times> Fluidic_t" where
  "FluidicState_MixPiezoControlled e me pEv =
     (let (retCode, error, me1) =
            (case pEv of
               X_EV_ENTRY \<Rightarrow>
                 (let (err, m1) = FluidicMixPiezoControlled_OnEntry e me in (X_RET_HANDLED, err, m1))
             | X_EV_TIMER \<Rightarrow> (let (r, m1) = mixTimerTick me in (r, OK_STATUS, m1))
             | XMSG_PIEZO_MOVE_COMPLTE chan volts \<Rightarrow>
                 (if chan = pPiezo_chan me then
                    (let m1 = me\<lparr>status := (status me)\<lparr>piezoVoltage := volts\<rparr>\<rparr>;
                         (r, m2) = FluidMixOnStageComplete m1
                     in (r, OK_STATUS, m2))
                  else (X_RET_HANDLED, OK_STATUS, me))
             | XMSG_FLUID_CHANNEL_CANCEL \<Rightarrow> (let (r, m1) = mixCancel me in (r, OK_STATUS, m1))
             | _ \<Rightarrow> (let (r, m1) = Fluidic_defaultEvents e me pEv in (r, OK_STATUS, m1)))
      in FluidicsErrorSet me1 error retCode)"

definition FluidicState_MixWaitContinue ::
  "env \<Rightarrow> Fluidic_t \<Rightarrow> XEvent_t \<Rightarrow> XState \<times> Fluidic_t" where
  "FluidicState_MixWaitContinue e me pEv =
     (let (retCode, error, me1) =
            (case pEv of
               X_EV_ENTRY \<Rightarrow>
                 (let (err, m1) = piezoStop e me;
                      m2 = emit (Publish_stageCompelteMsg (eChannel (pParams m1))) m1
                  in (X_RET_HANDLED, OK_STATUS, m2))
             | X_EV_TIMER \<Rightarrow> (let (r, m1) = mixTimerTick me in (r, OK_STATUS, m1))
             | XMSG_FLUID_MIX_CONTINUE \<Rightarrow>
                 (let (r, m1) = FluidMixMovementContinue me in (r, OK_STATUS, m1))
             | XMSG_PIEZO_MOVE_COMPLTE chan volts \<Rightarrow>
                 (let (err, m1) = FluidOnPiezoMoveComplete me chan volts in (X_RET_HANDLED, err, m1))
             | XMSG_FLUID_CHANNEL_CANCEL \<Rightarrow> (let (r, m1) = mixCancel me in (r, OK_STATUS, m1))
             | _ \<Rightarrow> (let (r, m1) = Fluidic_defaultEvents e me pEv in (r, OK_STATUS, m1)))
      in FluidicsErrorSet me1 error retCode)"

text \<open>
  \<open>FluidicState_MonitorFluidBreach\<close> returns \<open>retCode\<close> as it is: it is one of the two
  handlers (with the error state) that do not end in \<open>FluidicsErrorSet\<close>, and the error
  code of the breach goes to \<open>FluidicOnMoveFailMsg\<close> only.
\<close>

definition FluidicState_MonitorFluidBreach ::
  "env \<Rightarrow> Fluidic_t \<Rightarrow> XEvent_t \<Rightarrow> (XState \<times> Fluidic_t) option" where
  "FluidicState_MonitorFluidBreach e me pEv =
     (let ecChan = eChannel (pParams me) in
      case pEv of
        X_EV_ENTRY \<Rightarrow>
          (let (err, m1) = ecSetModeFillDetect e me ecChan
                             (ConvertFluidPosToEchemPos (eLastKnownPos me))
           in Some (X_RET_HANDLED, m1))
      | XMSG_EC_FLUID_STATUS_CHANGED fluidPositions \<Rightarrow>
          (let (err, m1) = FluidOnEchemStatusChange me fluidPositions in
           do {
             eRequirement \<leftarrow> fluidGetEchemRequirement m1 False;
             if eFluidFrontPosition (status m1) \<noteq> eRequirement then
               (let m2 = emit Publish_breachDetectedMsg m1;
                    m3 = FluidicOnMoveFailMsg m2 (eLastKnownPos m2) ERROR_FLUID_CHANNEL_FLUID_FRONT
                in Some (X_TRAN m3 S_Idle))
             else Some (X_RET_HANDLED, m1)
           })
      | XMSG_FLUID_CHANNEL_MOVE_TO msg \<Rightarrow> Some (OnMsgBladderControlMoveToPos e me msg)
      | XMSG_FLUID_MIX msg \<Rightarrow> Some (OnMsgBladderControlMix me msg)
      | _ \<Rightarrow> Some (Fluidic_defaultEvents e me pEv))"

definition FluidicState_Err :: "env \<Rightarrow> Fluidic_t \<Rightarrow> XEvent_t \<Rightarrow> XState \<times> Fluidic_t" where
  "FluidicState_Err e me pEv =
     (case pEv of
        X_EV_ENTRY \<Rightarrow> (X_RET_HANDLED, Fluidic_OnErrorStateEntry e me)
      | XMSG_FLUID_ERR_CLEAR \<Rightarrow> X_TRAN me S_Idle
      | _ \<Rightarrow> Fluidic_defaultEvents e me pEv)"

subsection \<open>Dispatch\<close>

fun state_handler ::
  "state_id \<Rightarrow> env \<Rightarrow> Fluidic_t \<Rightarrow> XEvent_t \<Rightarrow> (XState \<times> Fluidic_t) option" where
  "state_handler S_Init e me pEv = Some (FluidicState_Init me)"
| "state_handler S_Idle e me pEv = Some (FluidicState_Idle e me pEv)"
| "state_handler S_CheckForStrip e me pEv = Some (FluidicState_CheckForStrip e me pEv)"
| "state_handler S_MoveContact e me pEv = FluidicState_MoveContact e me pEv"
| "state_handler S_MoveOther e me pEv = FluidicState_MoveOther e me pEv"
| "state_handler S_LiftUpBladder e me pEv = FluidicState_LiftUpBladder e me pEv"
| "state_handler S_WaitForContact e me pEv = FluidicState_WaitForContact e me pEv"
| "state_handler S_WaitForPiezoStop e me pEv = Some (FluidicState_WaitForPiezoStop e me pEv)"
| "state_handler S_MixContactControlled e me pEv = FluidicState_MixContactControlled e me pEv"
| "state_handler S_MixPiezoControlled e me pEv = Some (FluidicState_MixPiezoControlled e me pEv)"
| "state_handler S_MixWaitContinue e me pEv = Some (FluidicState_MixWaitContinue e me pEv)"
| "state_handler S_MonitorFluidBreach e me pEv = FluidicState_MonitorFluidBreach e me pEv"
| "state_handler S_Err e me pEv = Some (FluidicState_Err e me pEv)"

text \<open>
  Modelled from the spec: the framework's dispatcher is not among the sources. Spec
  sections 4.2, 5 and 9: an event goes to the handler of the current leaf state; when the
  handler answers "transition", the state left receives the exit event (the default
  handler stops the timer) and the state entered receives the entry event. An entry
  action can itself end in a transition (a critical error in \<open>FluidicsErrorSet\<close> leads to
  the error state, whose own entry never transitions), which is followed the same way.
\<close>

definition enter_state :: "env \<Rightarrow> state_id \<Rightarrow> Fluidic_t \<Rightarrow> Fluidic_t option" where
  "enter_state e src me =
     do {
       (r0, me1) \<leftarrow> (if src = S_Init then Some (X_RET_HANDLED, me)
                     else state_handler src e me X_EV_EXIT);
       let tgt = state me;
       (r1, me2) \<leftarrow> state_handler tgt e (me1\<lparr>state := tgt\<rparr>) X_EV_ENTRY;
       if r1 = X_RET_TRAN then
         do {
           (r2, me3) \<leftarrow> state_handler tgt e me2 X_EV_EXIT;
           let tgt2 = state me2;
           (r3, me4) \<leftarrow> state_handler tgt2 e (me3\<lparr>state := tgt2\<rparr>) X_EV_ENTRY;
           Some me4
         }
       else Some me2
     }"

definition dispatch :: "env \<Rightarrow> Fluidic_t \<Rightarrow> XEvent_t \<Rightarrow> Fluidic_t option" where
  "dispatch e me pEv =
     do {
       (r, me1) \<leftarrow> state_handler (state me) e me pEv;
       if r = X_RET_TRAN then enter_state e (state me) me1 else Some me1
     }"

text \<open>Events handled one after the other, each with the answers of the collaborators.\<close>

fun run :: "Fluidic_t \<Rightarrow> (env \<times> XEvent_t) list \<Rightarrow> Fluidic_t option" where
  "run me [] = Some me"
| "run me ((e, pEv) # evs) = (case dispatch e me pEv of None \<Rightarrow> None | Some me1 \<Rightarrow> run me1 evs)"


text \<open>
  Start of the object: the framework calls the initial handler and follows its transition.
\<close>

definition XActiveStart :: "env \<Rightarrow> Fluidic_t \<Rightarrow> Fluidic_t option" where
  "XActiveStart e me = enter_state e S_Init (snd (FluidicState_Init me))"

subsection \<open>The move legality matrix, in the words of the specification\<close>

definition non_sentinel :: "eFluidicPositions_t \<Rightarrow> bool" where
  "non_sentinel p = (p = BC_POS_HOME \<or> p = BC_POS_DOWN \<or> p = BC_POS_FLUID_A
                     \<or> p = BC_POS_FLUID_B \<or> p = BC_POS_FLUID_C)"

text \<open>
  From Home: Home or Down. From Down and from A, B, C: any non-sentinel. From Unknown or
  None: only Home.
\<close>

fun legal_move_matrix :: "eFluidicPositions_t \<Rightarrow> eFluidicPositions_t \<Rightarrow> bool" where
  "legal_move_matrix BC_POS_HOME t = (t = BC_POS_HOME \<or> t = BC_POS_DOWN)"
| "legal_move_matrix BC_POS_DOWN t = non_sentinel t"
| "legal_move_matrix BC_POS_FLUID_A t = non_sentinel t"
| "legal_move_matrix BC_POS_FLUID_B t = non_sentinel t"
| "legal_move_matrix BC_POS_FLUID_C t = non_sentinel t"
| "legal_move_matrix BC_POS_UNKNOWN t = (t = BC_POS_HOME)"
| "legal_move_matrix BC_NONE t = (t = BC_POS_HOME)"

subsection \<open>Example values\<close>

text \<open>
  An environment in which every collaborator succeeds, with sample values for the
  constants of piezo.h, and a channel-1 controller built from the default bundle.
\<close>

definition env_ok :: env where
  "env_ok = \<lparr>PIEZO_RAMP_MAX = 100, PIEZO_MIN_VOLTAGE = 0, PIEZO_VOLT_MAX = 100,
             ecDisable_ret = OK_STATUS, ecSetModeFillDetect_ret = OK_STATUS,
             piezoStop_ret = OK_STATUS, piezoHome_ret = OK_STATUS,
             piezoVoltageSet_ret = OK_COMMAND_ACCEPTED,
             piezoVoltageGet_ret = 40, ecGetFluidPosition_ret = FLUID_DETECTED,
             outsideTable_targetVolts = 0\<rparr>"

text \<open>The same environment, but the electrochemistry driver is busy when asked to stop.\<close>

definition env_busy :: env where
  "env_busy = env_ok\<lparr>ecDisable_ret := ERROR_FLUID_CHANNEL_ECHEM_BUSY\<rparr>"

definition fc1 :: Fluidic_t where
  "fc1 = FluidicInit 1 100 (bladder1DefaultParams env_ok)"

text \<open>The controller \<open>fc1\<close> placed in a state, at a last known position, with no target.\<close>

definition fc1_at :: "state_id \<Rightarrow> eFluidicPositions_t \<Rightarrow> Fluidic_t" where
  "fc1_at s p = fc1\<lparr>state := s, eLastKnownPos := p, eTargetPos := BC_NONE\<rparr>"

subsection \<open>Observations and scenario preconditions\<close>

text \<open>What the properties below read off a controller: state, positions and trace.\<close>

definition obs ::
  "Fluidic_t \<Rightarrow> state_id \<times> eFluidicPositions_t \<times> eFluidicPositions_t \<times> action list" where
  "obs me = (state me, eLastKnownPos me, eTargetPos me, trace me)"

text \<open>A fluid-status message that reports the same reading on every channel.\<close>

definition fluidPositions_all ::
  "eEcFluidDetectPosition_t \<Rightarrow> eElectrochemicalChannel \<Rightarrow> eEcFluidDetectPosition_t" where
  "fluidPositions_all p c = p"

text \<open>The bladder-up event of a channel.\<close>

fun bladderUpEvent :: "eElectrochemicalChannel \<Rightarrow> XEvent_t" where
  "bladderUpEvent EC_STRIP_CHAN_1 = XMSG_EC_A1_BLDR_UP"
| "bladderUpEvent EC_STRIP_CHAN_2 = XMSG_EC_B2_BLDR_UP"
| "bladderUpEvent EC_STRIP_CHAN_3 = XMSG_EC_A3_BLDR_UP"
| "bladderUpEvent EC_STRIP_CHAN_4 = XMSG_EC_B4_BLDR_UP"

text \<open>
  A controller in the breach monitor, holding a position of the table, that receives a
  fluid status whose reading on its channel differs from the Forward requirement of the
  held position. Nothing is asked of the collaborators.
\<close>

definition breach_pre ::
  "Fluidic_t \<Rightarrow> (eElectrochemicalChannel \<Rightarrow> eEcFluidDetectPosition_t) \<Rightarrow> bool" where
  "breach_pre me fluidPositions =
     (state me = S_MonitorFluidBreach \<and> non_sentinel (eLastKnownPos me)
      \<and> fluidPositions (eChannel (pParams me))
           \<noteq> echemRequirements (positionLimits (pParams me) (eLastKnownPos me)) FLUID_MOVE_FWD)"


text \<open>A started controller, in any state, whose collaborators succeed.\<close>

definition door_pre :: "env \<Rightarrow> Fluidic_t \<Rightarrow> bool" where
  "door_pre e me =
     (state me \<noteq> S_Init
      \<and> ecDisable_ret e = OK_STATUS \<and> piezoStop_ret e = OK_STATUS \<and> piezoHome_ret e = OK_STATUS)"

text \<open>An idle controller and a mix message that passes the parameter check.\<close>

definition mix_pre :: "env \<Rightarrow> Fluidic_t \<Rightarrow> FluidicMixMsg_t \<Rightarrow> bool" where
  "mix_pre e me msg =
     (state me = S_Idle
      \<and> FluidCheckMixParams me (mx_eTargetPos msg) (mx_mixFrequency msg) (mx_mixTime msg)
            (mx_mixCycles msg) (mx_eMixType msg) (mx_openLoopCompensationFactor msg)
            (mx_mixDownstrokeProportion msg) = OK_STATUS
      \<and> ecSetModeFillDetect_ret e = OK_STATUS
      \<and> piezoVoltageSet_ret e = OK_COMMAND_ACCEPTED)"

text \<open>An open-loop mix message from B towards A with a compensation factor of one half.\<close>

definition open_loop_msg :: FluidicMixMsg_t where
  "open_loop_msg = \<lparr>mx_eTargetPos = BC_POS_FLUID_A, mx_mixFrequency = 1, mx_mixTime = 30000,
                     mx_mixCycles = 3, mx_eMixType = FLUID_MIX_OPEN_LOOP,
                     mx_openLoopCompensationFactor = 1 / 2,
                     mx_mixDownstrokeProportion = 1 / 2\<rparr>"

subsection \<open>Counting the publications of a mix\<close>

definition is_stageComplete :: "action \<Rightarrow> bool" where
  "is_stageComplete a = (case a of Publish_stageCompelteMsg c \<Rightarrow> True | _ \<Rightarrow> False)"

definition is_mixComplete :: "action \<Rightarrow> bool" where
  "is_mixComplete a = (case a of Publish_mixCmpltMsg c p \<Rightarrow> True | _ \<Rightarrow> False)"

definition count_stageComplete :: "Fluidic_t \<Rightarrow> nat" where
  "count_stageComplete me = length (filter is_stageComplete (trace me))"

definition count_mixComplete :: "Fluidic_t \<Rightarrow> nat" where
  "count_mixComplete me = length (filter is_mixComplete (trace me))"

text \<open>
  How a stroke of a closed-loop mix ends: the piezo reports the end of its ramp (with its
  voltage), or a fluid status arrives (the reading of each channel) and the next timer
  tick finds the fluid front where the stroke wants it.
\<close>

datatype stroke_end =
  PiezoDone real
  | FluidSeen "eElectrochemicalChannel \<Rightarrow> eEcFluidDetectPosition_t"

fun stroke_events :: "env \<Rightarrow> nat \<Rightarrow> stroke_end \<Rightarrow> (env \<times> XEvent_t) list" where
  "stroke_events e c (PiezoDone v) = [(e, XMSG_PIEZO_MOVE_COMPLTE c v)]"
| "stroke_events e c (FluidSeen fp) = [(e, XMSG_EC_FLUID_STATUS_CHANGED fp), (e, X_EV_TIMER)]"

text \<open>Strokes that are each followed by the external \<open>MixContinue\<close>.\<close>

fun strokes_events :: "env \<Rightarrow> nat \<Rightarrow> stroke_end list \<Rightarrow> (env \<times> XEvent_t) list" where
  "strokes_events e c [] = []"
| "strokes_events e c (s # ss) =
     stroke_events e c s @ (e, XMSG_FLUID_MIX_CONTINUE) # strokes_events e c ss"

text \<open>The change of direction between two strokes, as \<open>FluidMixMovementContinue\<close> makes it.\<close>

fun flipDir :: "eFluidicMoveDirection_t \<Rightarrow> eFluidicMoveDirection_t" where
  "flipDir FLUID_MOVE_REV = FLUID_MOVE_FWD"
| "flipDir _ = FLUID_MOVE_REV"

text \<open>
  The reading of channel \<open>ec\<close> ends a stroke whose requirement is \<open>a\<close>: at or below it on a
  reverse stroke, at or above it on a forward stroke (the two tests of
  \<open>FluidicMixContactControlled_OnTick\<close>). In \<open>strokes_ok\<close> the requirement and the direction
  alternate from stroke to stroke.
\<close>

fun fluid_ok ::
  "eElectrochemicalChannel \<Rightarrow> eEcFluidDetectPosition_t \<Rightarrow> eFluidicMoveDirection_t
     \<Rightarrow> stroke_end \<Rightarrow> bool" where
  "fluid_ok ec a d (PiezoDone v) = True"
| "fluid_ok ec a d (FluidSeen fp) =
     (if d = FLUID_MOVE_REV then fd_ord (fp ec) \<le> fd_ord a else fd_ord a \<le> fd_ord (fp ec))"

fun strokes_ok ::
  "eElectrochemicalChannel \<Rightarrow> eEcFluidDetectPosition_t \<Rightarrow> eEcFluidDetectPosition_t
     \<Rightarrow> eFluidicMoveDirection_t \<Rightarrow> stroke_end list \<Rightarrow> bool" where
  "strokes_ok ec a b d [] = True"
| "strokes_ok ec a b d (s # ss) = (fluid_ok ec a d s \<and> strokes_ok ec b a (flipDir d) ss)"

text \<open>The number of strokes that end on a timer tick.\<close>

fun fluid_strokes :: "stroke_end list \<Rightarrow> nat" where
  "fluid_strokes [] = 0"
| "fluid_strokes (PiezoDone v # ss) = fluid_strokes ss"
| "fluid_strokes (FluidSeen fp # ss) = Suc (fluid_strokes ss)"

text \<open>
  A dual-point closed-loop stroke in progress between two positions of the table; the
  collaborators accept the commands of the next stroke.
\<close>

definition mixing :: "env \<Rightarrow> Fluidic_t \<Rightarrow> bool" where
  "mixing e me =
     (state me = S_MixContactControlled
      \<and> eMixType (pParams me) = FLUID_MIX_DUAL_POINT_LOOP
      \<and> non_sentinel (eTargetPos me) \<and> non_sentinel (eLastKnownPos me)
      \<and> ecSetModeFillDetect_ret e = OK_STATUS
      \<and> piezoVoltageSet_ret e = OK_COMMAND_ACCEPTED)"

text \<open>
  What the counting argument follows through a mix; the last two components are the
  requirement of the stroke in progress and that of the stroke after it.
\<close>

definition mix_abs ::
  "Fluidic_t \<Rightarrow> state_id \<times> eFluidMixingType_t \<times> eFluidicPositions_t \<times> eFluidicPositions_t
     \<times> eFluidicMoveDirection_t \<times> 32 word \<times> 32 word \<times> eFluidicPositions_t \<times> nat
     \<times> eElectrochemicalChannel \<times> 32 word \<times> 32 word \<times> nat \<times> nat
     \<times> eEcFluidDetectPosition_t \<times> eEcFluidDetectPosition_t" where
  "mix_abs me = (state me, eMixType (pParams me), eLastKnownPos me, eTargetPos me,
                 eMoveDirection (status me),
                 mixingStagesCompleted (status me), targetMixCycles (pParams me),
                 eMixEndPosition (pParams me), pPiezo_chan me, eChannel (pParams me),
                 mixTimer me, mixTimeout_ms (pParams me),
                 count_stageComplete me, count_mixComplete me,
                 echemRequirements (positionLimits (pParams me) (eTargetPos me))
                   (eMoveDirection (status me)),
                 echemRequirements (positionLimits (pParams me) (eLastKnownPos me))
                   (flipDir (eMoveDirection (status me))))"

text \<open>What a mix shows from outside: state, positions and the two counts.\<close>

definition mix_obs ::
  "Fluidic_t \<Rightarrow> state_id \<times> eFluidicPositions_t \<times> eFluidicPositions_t \<times> nat \<times> nat" where
  "mix_obs me = (state me, eLastKnownPos me, eTargetPos me,
                 count_stageComplete me, count_mixComplete me)"

text \<open>
  A started dual-point mix message that passes the parameter check, from a rest position
  of the table, for \<open>n\<close> cycles with \<open>1 \<le> n < 2^31\<close>; the collaborators succeed.
\<close>

definition dual_mix_pre :: "env \<Rightarrow> Fluidic_t \<Rightarrow> FluidicMixMsg_t \<Rightarrow> nat \<Rightarrow> bool" where
  "dual_mix_pre e me msg n =
     (mix_pre e me msg \<and> mx_eMixType msg = FLUID_MIX_DUAL_POINT_LOOP
      \<and> non_sentinel (eLastKnownPos me)
      \<and> mx_mixCycles msg = of_nat n \<and> 0 < n \<and> 2 * n < 2 ^ 32
      \<and> ecDisable_ret e = OK_STATUS \<and> piezoStop_ret e = OK_STATUS)"

text \<open>
  The \<open>2n\<close> strokes of such a mix, the first one in reverse towards the target of the
  message: every stroke that ends on a timer tick has a fitting reading, and the ticks
  stay below the mix timeout of the message.
\<close>

definition strokes_pre ::
  "Fluidic_t \<Rightarrow> FluidicMixMsg_t \<Rightarrow> nat \<Rightarrow> stroke_end list \<Rightarrow> bool" where
  "strokes_pre me msg n ss =
     (length ss = 2 * n
      \<and> strokes_ok (eChannel (pParams me))
           (echemRequirements (positionLimits (pParams me) (mx_eTargetPos msg)) FLUID_MOVE_REV)
           (echemRequirements (positionLimits (pParams me) (eLastKnownPos me)) FLUID_MOVE_FWD)
           FLUID_MOVE_REV ss
      \<and> 20 * fluid_strokes ss < unat (mx_mixTime msg))"

text \<open>The mix of scenario 4: dual-point closed loop, 1 Hz, 30 s, 3 cycles, towards A.\<close>

definition dual_msg :: FluidicMixMsg_t where
  "dual_msg = \<lparr>mx_eTargetPos = BC_POS_FLUID_A, mx_mixFrequency = 1, mx_mixTime = 30000,
                mx_mixCycles = 3, mx_eMixType = FLUID_MIX_DUAL_POINT_LOOP,
                mx_openLoopCompensationFactor = 0, mx_mixDownstrokeProportion = 0\<rparr>"

subsection \<open>Hysteresis of a position\<close>

text \<open>The hysteresis voltage the controller holds for a position of the table.\<close>

definition hyst :: "Fluidic_t \<Rightarrow> eFluidicPositions_t \<Rightarrow> real" where
  "hyst me p = posHysterisis (positionLimits (pParams me) p)"

text \<open>The same, read from a parameter bundle.\<close>

definition hystP :: "FluidicParams_t \<Rightarrow> eFluidicPositions_t \<Rightarrow> real" where
  "hystP pp p = posHysterisis (positionLimits pp p)"

text \<open>The range \<open>FLUIDIC_HYSETRISIS_MIN\<close> .. \<open>FLUIDIC_HYSETRISIS_MAX\<close>.\<close>

definition hyst_in_range :: "real \<Rightarrow> bool" where
  "hyst_in_range h = (FLUIDIC_HYSETRISIS_MIN \<le> h \<and> h \<le> FLUIDIC_HYSETRISIS_MAX)"

text \<open>Between two controllers, the hysteresis of \<open>p\<close> is the same or is within the range.\<close>

definition hyst_kept :: "eFluidicPositions_t \<Rightarrow> Fluidic_t \<Rightarrow> Fluidic_t \<Rightarrow> bool" where
  "hyst_kept p me me' = (hyst me' p = hyst me p \<or> hyst_in_range (hyst me' p))"

text \<open>
  Channel 1 with the default bundle at the end of a contact move from Down to A: waiting
  for the piezo to stop.
\<close>

definition fc1_arriving :: Fluidic_t where
  "fc1_arriving = fc1\<lparr>state := S_WaitForPiezoStop, eLastKnownPos := BC_POS_DOWN,
                       eTargetPos := BC_POS_FLUID_A\<rparr>"

text \<open>A dual-point closed-loop mix towards Down.\<close>

definition down_msg :: FluidicMixMsg_t where
  "down_msg = \<lparr>mx_eTargetPos = BC_POS_DOWN, mx_mixFrequency = 1, mx_mixTime = 30000,
                mx_mixCycles = 3, mx_eMixType = FLUID_MIX_DUAL_POINT_LOOP,
                mx_openLoopCompensationFactor = 0, mx_mixDownstrokeProportion = 0\<rparr>"

section \<open>Properties\<close>

subsection \<open>Parameter checks and the API\<close>

lemma valid_pos_change_matrix:
  "bladderControlCheckValidPosChange c t = legal_move_matrix c t"
  by (cases c; cases t; simp add: bladderControlCheckValidPosChange_def non_sentinel_def)

lemma move_valid_matrix:
  "bladderControlCheckMoveValid me t = legal_move_matrix (eLastKnownPos me) t"
  by (cases "eLastKnownPos me"; cases t;
      simp add: bladderControlCheckMoveValid_def bladderControlCheckValidPosChange_def
        non_sentinel_def)

lemma fc1_at_simps [simp]:
  "state (fc1_at s p) = s" "eLastKnownPos (fc1_at s p) = p" "eTargetPos (fc1_at s p) = BC_NONE"
  by (simp_all add: fc1_at_def)

text \<open>
  C5. The position check of the code is the legality matrix of the specification, for
  every pair of last known position and target: \<open>bladderControlCheckValidPosChange\<close>
  computes it, \<open>bladderControlCheckMoveValid\<close> applies it to the controller's last known
  position (a Home target, always valid in the code, is legal in every row of the matrix),
  and \<open>FluidCheckMoveParams\<close> answers \<open>ERROR_FLUID_CHANNEL_INVALID_MOVE\<close> exactly for the
  pairs the matrix rejects.
\<close>

theorem move_legality_matrix:
  "bladderControlCheckValidPosChange c t = legal_move_matrix c t
   \<and> bladderControlCheckMoveValid me t = legal_move_matrix (eLastKnownPos me) t
   \<and> ((FluidCheckMoveParams e me t ramp timeout cmode cprop = ERROR_FLUID_CHANNEL_INVALID_MOVE)
        = (\<not> legal_move_matrix (eLastKnownPos me) t))"
  by (simp add: valid_pos_change_matrix move_valid_matrix FluidCheckMoveParams_def Let_def)

theorem move_legality_matrix_witness:
  "bladderControlCheckValidPosChange BC_POS_HOME BC_POS_FLUID_C = False
   \<and> bladderControlCheckMoveValid (fc1_at S_Idle BC_POS_UNKNOWN) BC_POS_FLUID_A = False
   \<and> FluidCheckMoveParams env_ok (fc1_at S_Idle BC_POS_UNKNOWN) BC_POS_FLUID_A (5 / 2) 30000
        FLUID_OVERSHOOT_COMP_NONE 0 = ERROR_FLUID_CHANNEL_INVALID_MOVE"
  using move_legality_matrix [of BC_POS_HOME BC_POS_FLUID_C "fc1_at S_Idle BC_POS_UNKNOWN"]
    move_legality_matrix [of BC_POS_UNKNOWN BC_POS_FLUID_A "fc1_at S_Idle BC_POS_UNKNOWN"
      env_ok "5 / 2" 30000 FLUID_OVERSHOOT_COMP_NONE 0]
  by simp

text \<open>
  C9. When the state machine is neither in Idle nor in MonitorFluidBreach, a call of the
  Move API with another target than Home, and a call of the Mix API, return
  \<open>ERROR_OBJECT_NOT_READY\<close> and leave the controller as it was, whatever the arguments
  are. So a validation error (\<open>ERROR_FLUID_SPEED\<close>, \<open>ERROR_BAD_ARGS\<close>,
  \<open>ERROR_FLUID_CHANNEL_INVALID_MOVE\<close>) is returned only in one of the two accepting states.
\<close>

theorem not_ready_before_validation:
  "(state me \<noteq> S_Idle \<and> state me \<noteq> S_MonitorFluidBreach \<longrightarrow>
      (t \<noteq> BC_POS_HOME \<longrightarrow>
         FluidicMove e (Some me) t ramp timeout cmode cprop = (ERROR_OBJECT_NOT_READY, Some me))
      \<and> FluidicMix (Some me) t freq mixTimeout cycles ty olcf down
          = (ERROR_OBJECT_NOT_READY, Some me))
   \<and> (t \<noteq> BC_POS_HOME
        \<and> fst (FluidicMove e (Some me) t ramp timeout cmode cprop)
            \<in> {ERROR_FLUID_SPEED, ERROR_BAD_ARGS, ERROR_FLUID_CHANNEL_INVALID_MOVE}
      \<longrightarrow> state me = S_Idle \<or> state me = S_MonitorFluidBreach)
   \<and> (fst (FluidicMix (Some me) t freq mixTimeout cycles ty olcf down)
            \<in> {ERROR_BAD_ARGS, ERROR_FLUID_CHANNEL_INVALID_MOVE}
      \<longrightarrow> state me = S_Idle \<or> state me = S_MonitorFluidBreach)"
  by (auto simp add: FluidicMove_def FluidicMix_def FluidicStateCanAcceptCommand_def
        XFSM_IS_STATE_def Let_def)

text \<open>
  Witness: in MoveContact at Unknown, a move to A above the ramp limit with an
  out-of-range overshoot mode, and a mix towards Home with frequency 0 and timeout 0, are
  both answered "not ready".
\<close>

theorem not_ready_before_validation_witness:
  "FluidicMove env_ok (Some (fc1_at S_MoveContact BC_POS_UNKNOWN)) BC_POS_FLUID_A 1000 0
       FLUID_OVERSHOOT_COMP_NUM 2
     = (ERROR_OBJECT_NOT_READY, Some (fc1_at S_MoveContact BC_POS_UNKNOWN))
   \<and> FluidicMix (Some (fc1_at S_MoveContact BC_POS_UNKNOWN)) BC_POS_HOME 0 0 0
       FLUID_MIX_OPEN_LOOP 0 0
     = (ERROR_OBJECT_NOT_READY, Some (fc1_at S_MoveContact BC_POS_UNKNOWN))"
  using not_ready_before_validation [of "fc1_at S_MoveContact BC_POS_UNKNOWN" BC_POS_FLUID_A
      env_ok 1000 0 FLUID_OVERSHOOT_COMP_NUM 2]
    not_ready_before_validation [of "fc1_at S_MoveContact BC_POS_UNKNOWN" BC_POS_HOME
      env_ok 1000 0 FLUID_OVERSHOOT_COMP_NUM 2 0 0 0 FLUID_MIX_OPEN_LOOP 0 0]
  by simp

text \<open>
  C10. \<open>FluidicLiftUpBladder\<close> stores Home in \<open>eTargetPos\<close> before it validates anything:
  after every call, accepted or rejected, the target position of the controller is Home.
  The codes the call can return are "accepted", "not ready", "speed" and "invalid move"
  (the overshoot arguments it passes to the check are constants, so "bad arguments"
  cannot come out of it).
\<close>

theorem lift_sets_target_before_validation:
  "eTargetPos (snd (FluidicLiftUpBladder e me ramp timeout)) = BC_POS_HOME
   \<and> fst (FluidicLiftUpBladder e me ramp timeout)
       \<in> {OK_COMMAND_ACCEPTED, ERROR_OBJECT_NOT_READY, ERROR_FLUID_SPEED,
          ERROR_FLUID_CHANNEL_INVALID_MOVE}"
  by (simp add: FluidicLiftUpBladder_def FluidCheckMoveParams_def Let_def emit_def
        FLUIDIC_MAX_COMPENSATION_FACTOR_def)

text \<open>
  Witness: rejected calls that change the target from None to Home, one for "not ready"
  (a controller busy in MoveContact) and one for "invalid move" (Idle at Unknown).
\<close>

theorem lift_sets_target_before_validation_witness:
  "eTargetPos (fc1_at S_MoveContact BC_POS_DOWN) = BC_NONE
   \<and> fst (FluidicLiftUpBladder env_ok (fc1_at S_MoveContact BC_POS_DOWN) (5 / 2) 10000)
       = ERROR_OBJECT_NOT_READY
   \<and> eTargetPos (snd (FluidicLiftUpBladder env_ok (fc1_at S_MoveContact BC_POS_DOWN) (5 / 2) 10000))
       = BC_POS_HOME
   \<and> fst (FluidicLiftUpBladder env_ok (fc1_at S_Idle BC_POS_UNKNOWN) (5 / 2) 10000)
       = ERROR_FLUID_CHANNEL_INVALID_MOVE
   \<and> eTargetPos (snd (FluidicLiftUpBladder env_ok (fc1_at S_Idle BC_POS_UNKNOWN) (5 / 2) 10000))
       = BC_POS_HOME"
  using lift_sets_target_before_validation [of env_ok "fc1_at S_MoveContact BC_POS_DOWN" "5 / 2" 10000]
    lift_sets_target_before_validation [of env_ok "fc1_at S_Idle BC_POS_UNKNOWN" "5 / 2" 10000]
  by (simp add: FluidicLiftUpBladder_def FluidCheckMoveParams_def Let_def emit_def
        FLUIDIC_MAX_COMPENSATION_FACTOR_def bladderControlCheckMoveValid_def
        bladderControlCheckValidPosChange_def FluidicStateCanAcceptCommand_def
        XFSM_IS_STATE_def env_ok_def)


subsection \<open>Running the state machine\<close>

lemma FluidicsErrorSet_OK [simp]: "FluidicsErrorSet me OK_STATUS r = (r, me)"
  by (simp add: FluidicsErrorSet_def)

lemma bladderUpEvent_channel [simp]:
  "bladderUpChannel (bladderUpEvent c) = Some c"
  "bladderDownChannel (bladderUpEvent c) = None"
  "bladderUpEvent c \<noteq> X_EV_ENTRY" "bladderUpEvent c \<noteq> X_EV_TIMER"
  by (cases c; simp)+


lemmas handler_defs =
  FluidicState_Idle_def FluidicState_CheckForStrip_def
  FluidicState_MoveContact_def FluidicState_MoveOther_def FluidicState_LiftUpBladder_def
  FluidicState_WaitForContact_def FluidicState_WaitForPiezoStop_def
  FluidicState_MixContactControlled_def FluidicState_MixPiezoControlled_def
  FluidicState_MixWaitContinue_def FluidicState_MonitorFluidBreach_def FluidicState_Err_def
  Fluidic_defaultEvents_def isBladderEvent_def dispatch_def enter_state_def

lemmas helper_defs =
  X_TRAN_def X_TRAN_ERROR_def XFSM_IS_STATE_def emit_def ASSERT_def
  piezoStop_def piezoHome_def piezoVoltageSet_def piezoVoltageGet_def ecDisable_def
  ecSetModeFillDetect_def ecGetFluidPosition_def
  FluidicSetCurrentAndTargetPositions_def FluidicStopMove_def
  FluidicOnMoveCompleteMsg_def FluidicOnMoveFailMsg_def
  Fluidic_OnIdleEntry_def FluidicsErrorSet_def FLUIDIC_CIRITICAL_ERR_def
  BC_VALID_POS_COUNT_def FLUIDIC_TIMER_COUNT_MS_def Let_def set_targetVolts_def
  set_posHysterisis_def obs_def

lemmas example_defs =
  fc1_at_def fc1_def FluidicInit_def env_ok_def zero_moveMsg_def
  bladder1DefaultParams_def bladderDefaultParams_def defaultLimits_def
  fluidPositions_all_def non_sentinel_def

subsection \<open>Breach monitor\<close>

text \<open>
  C1, as the code has it. In the breach monitor, holding a position of the table, a
  fluid status whose reading differs from the Forward requirement of the held position
  makes the handler publish one \<open>BreachDetected\<close>, one move failure for the held position
  and the command failure carrying \<open>ERROR_FLUID_CHANNEL_FLUID_FRONT\<close>, and answer with a
  transition to Idle: the breach error is not passed to \<open>FluidicsErrorSet\<close>, so the breach
  itself never leads to the error state (first equation, whatever the collaborators
  answer). What follows is the entry of Idle, which disables the electrochemistry and
  stops the piezo: the controller stays in Idle, with the last known position kept and no
  target, unless the error that \<open>Fluidic_OnIdleEntry\<close> returns (the answer of \<open>ecDisable\<close>
  if it is not \<open>OK_STATUS\<close>, else the answer of \<open>piezoStop\<close>) is a critical one; then that
  driver error takes the controller to the error state, at Unknown (second equation,
  with everything the controller does on the way).
\<close>

theorem breach_publishes_and_goes_idle:
  assumes "breach_pre me fluidPositions"
  shows "map_option (map_prod id obs)
           (FluidicState_MonitorFluidBreach e me (XMSG_EC_FLUID_STATUS_CHANGED fluidPositions))
         = Some (X_RET_TRAN, S_Idle, eLastKnownPos me, eTargetPos me,
                 trace me @
                 [Publish_breachDetectedMsg,
                  Publish_moveFailMsg (eChannel (pParams me)) (eLastKnownPos me),
                  Publish_cmdFail ERROR_FLUID_CHANNEL_FLUID_FRONT])
       \<and> map_option obs (dispatch e me (XMSG_EC_FLUID_STATUS_CHANGED fluidPositions))
         = Some (if FLUIDIC_CIRITICAL_ERR (fst (Fluidic_OnIdleEntry e me)) then S_Err else S_Idle,
                 if FLUIDIC_CIRITICAL_ERR (fst (Fluidic_OnIdleEntry e me)) then BC_POS_UNKNOWN
                 else eLastKnownPos me,
                 BC_NONE,
                 trace me @
                 [Publish_breachDetectedMsg,
                  Publish_moveFailMsg (eChannel (pParams me)) (eLastKnownPos me),
                  Publish_cmdFail ERROR_FLUID_CHANNEL_FLUID_FRONT,
                  Call_XTimerStop, Call_ecDisable (eChannel (pParams me)), Call_XTimerStop]
                 @ (if ecDisable_ret e = OK_STATUS then [Call_piezoStop] else [])
                 @ (if fst (Fluidic_OnIdleEntry e me) = OK_STATUS then []
                    else [Call_ERROR_CHECK (fst (Fluidic_OnIdleEntry e me))])
                 @ (if FLUIDIC_CIRITICAL_ERR (fst (Fluidic_OnIdleEntry e me))
                    then [Call_XTimerStop, Call_ecDisable (eChannel (pParams me)),
                          Call_ERROR_CHECK (ecDisable_ret e), Call_piezoStop,
                          Call_ERROR_CHECK (piezoStop_ret e),
                          Publish_errorMsg (fst (Fluidic_OnIdleEntry e me))]
                    else []))"
  using assms
  by (cases "eLastKnownPos me")
     (simp_all add: breach_pre_def handler_defs helper_defs fluidGetEchemRequirement_def
        FluidOnEchemStatusChange_def non_sentinel_def split_beta Fluidic_OnErrorStateEntry_def)

text \<open>
  Witness: a breach at B on channel 1 (the detector falls back to "fluid"). With the
  collaborators succeeding the controller ends in Idle at B; with the electrochemistry
  driver busy at the entry of Idle it ends in the error state at Unknown.
\<close>

theorem breach_publishes_and_goes_idle_witness:
  "breach_pre (fc1_at S_MonitorFluidBreach BC_POS_FLUID_B) (fluidPositions_all FLUID_DETECTED)
   \<and> map_option obs (dispatch env_ok (fc1_at S_MonitorFluidBreach BC_POS_FLUID_B)
        (XMSG_EC_FLUID_STATUS_CHANGED (fluidPositions_all FLUID_DETECTED)))
     = Some (S_Idle, BC_POS_FLUID_B, BC_NONE,
             [Publish_breachDetectedMsg,
              Publish_moveFailMsg EC_STRIP_CHAN_1 BC_POS_FLUID_B,
              Publish_cmdFail ERROR_FLUID_CHANNEL_FLUID_FRONT,
              Call_XTimerStop, Call_ecDisable EC_STRIP_CHAN_1,
              Call_XTimerStop, Call_piezoStop])
   \<and> map_option obs (dispatch env_busy (fc1_at S_MonitorFluidBreach BC_POS_FLUID_B)
        (XMSG_EC_FLUID_STATUS_CHANGED (fluidPositions_all FLUID_DETECTED)))
     = Some (S_Err, BC_POS_UNKNOWN, BC_NONE,
             [Publish_breachDetectedMsg,
              Publish_moveFailMsg EC_STRIP_CHAN_1 BC_POS_FLUID_B,
              Publish_cmdFail ERROR_FLUID_CHANNEL_FLUID_FRONT,
              Call_XTimerStop, Call_ecDisable EC_STRIP_CHAN_1, Call_XTimerStop,
              Call_ERROR_CHECK ERROR_FLUID_CHANNEL_ECHEM_BUSY,
              Call_XTimerStop, Call_ecDisable EC_STRIP_CHAN_1,
              Call_ERROR_CHECK ERROR_FLUID_CHANNEL_ECHEM_BUSY, Call_piezoStop,
              Call_ERROR_CHECK OK_STATUS,
              Publish_errorMsg ERROR_FLUID_CHANNEL_ECHEM_BUSY])"
proof -
  have pre: "breach_pre (fc1_at S_MonitorFluidBreach BC_POS_FLUID_B)
               (fluidPositions_all FLUID_DETECTED)"
    by (simp add: breach_pre_def example_defs)
  have ok: "fst (Fluidic_OnIdleEntry env_ok (fc1_at S_MonitorFluidBreach BC_POS_FLUID_B))
            = OK_STATUS"
    and busy: "fst (Fluidic_OnIdleEntry env_busy (fc1_at S_MonitorFluidBreach BC_POS_FLUID_B))
            = ERROR_FLUID_CHANNEL_ECHEM_BUSY"
    by (simp_all add: helper_defs split_beta env_ok_def env_busy_def)
  have vals: "eLastKnownPos (fc1_at S_MonitorFluidBreach BC_POS_FLUID_B) = BC_POS_FLUID_B"
    "eChannel (pParams (fc1_at S_MonitorFluidBreach BC_POS_FLUID_B)) = EC_STRIP_CHAN_1"
    "trace (fc1_at S_MonitorFluidBreach BC_POS_FLUID_B) = []"
    "ecDisable_ret env_ok = OK_STATUS" "piezoStop_ret env_ok = OK_STATUS"
    "ecDisable_ret env_busy = ERROR_FLUID_CHANNEL_ECHEM_BUSY" "piezoStop_ret env_busy = OK_STATUS"
    by (simp_all add: example_defs env_busy_def)
  show ?thesis
    using pre
      conjunct2 [OF breach_publishes_and_goes_idle [OF pre, of env_ok]]
      conjunct2 [OF breach_publishes_and_goes_idle [OF pre, of env_busy]]
    unfolding ok busy vals
    by (simp add: FLUIDIC_CIRITICAL_ERR_def)
qed

text \<open>
  The claim as stated fails: after a breach at B (the detector falls back to "fluid") the
  controller is in Idle, not in the error state, and a move to C, which the error state
  would ignore, is accepted.
\<close>

theorem breach_ends_in_error_state_counterexample:
  "map_option state (dispatch env_ok (fc1_at S_MonitorFluidBreach BC_POS_FLUID_B)
       (XMSG_EC_FLUID_STATUS_CHANGED (fluidPositions_all FLUID_DETECTED))) = Some S_Idle
   \<and> map_option (\<lambda>m. fst (FluidicMove env_ok (Some m) BC_POS_FLUID_C (5 / 2) 30000
                            FLUID_OVERSHOOT_COMP_NONE 0))
       (dispatch env_ok (fc1_at S_MonitorFluidBreach BC_POS_FLUID_B)
          (XMSG_EC_FLUID_STATUS_CHANGED (fluidPositions_all FLUID_DETECTED)))
     = Some OK_COMMAND_ACCEPTED"
  by (simp add: handler_defs helper_defs fluidGetEchemRequirement_def
        FluidOnEchemStatusChange_def example_defs FluidicMove_def FluidCheckMoveParams_def
        bladderControlCheckMoveValid_def bladderControlCheckValidPosChange_def
        FluidicStateCanAcceptCommand_def FLUIDIC_MAX_COMPENSATION_FACTOR_def)

subsection \<open>Lifting the bladders\<close>





subsection \<open>Door opened\<close>

text \<open>
  C3: the code against the claim. In every state of a started controller a door-opened
  event clears \<open>publishCompletionEvent\<close> and starts the home move (state MoveOther, target
  Home, \<open>piezoHome\<close> called). When the piezo then reports the move complete on the own
  channel, \<open>FluidicOnMoveCompleteMsg\<close> publishes the move-success message for Home all the
  same: nothing reads the flag.
\<close>

theorem door_open_home_move_completion_is_published:
  assumes "door_pre e me"
  shows "map_option (\<lambda>m. (state m, eTargetPos m, publishCompletionEvent m, trace m))
           (dispatch e me XMSG_DOOR_OPENED)
         = Some (S_MoveOther, BC_POS_HOME, False,
                 trace me @ [Call_XTimerStop, Call_XTimerStart, Call_piezoHome])
       \<and> map_option obs (run me [(e, XMSG_DOOR_OPENED),
                                  (e, XMSG_PIEZO_MOVE_COMPLTE (pPiezo_chan me) v)])
         = Some (S_Idle, BC_POS_HOME, BC_NONE,
                 trace me @
                 [Call_XTimerStop, Call_XTimerStart, Call_piezoHome,
                  Publish_moveSuccessMsg (eChannel (pParams me)) BC_POS_HOME 0 (piezoVoltageGet e),
                  Call_XTimerStop, Call_ecDisable (eChannel (pParams me)),
                  Call_XTimerStop, Call_piezoStop])"
  using assms
  by (cases "state me")
     (simp_all add: door_pre_def handler_defs helper_defs OnFluidMoveOther_Entry_def
        FluidicHomeMoveBegin_def)

theorem door_open_home_move_completion_is_published_witness:
  "door_pre env_ok (fc1_at S_MoveContact BC_POS_FLUID_A)
   \<and> map_option obs (run (fc1_at S_MoveContact BC_POS_FLUID_A)
        [(env_ok, XMSG_DOOR_OPENED), (env_ok, XMSG_PIEZO_MOVE_COMPLTE 1 100)])
     = Some (S_Idle, BC_POS_HOME, BC_NONE,
             [Call_XTimerStop, Call_XTimerStart, Call_piezoHome,
              Publish_moveSuccessMsg EC_STRIP_CHAN_1 BC_POS_HOME 0 40,
              Call_XTimerStop, Call_ecDisable EC_STRIP_CHAN_1,
              Call_XTimerStop, Call_piezoStop])"
proof -
  have pre: "door_pre env_ok (fc1_at S_MoveContact BC_POS_FLUID_A)"
    by (simp add: door_pre_def example_defs)
  have chan: "eChannel (pParams (fc1_at S_MoveContact BC_POS_FLUID_A)) = EC_STRIP_CHAN_1"
    "pPiezo_chan (fc1_at S_MoveContact BC_POS_FLUID_A) = 1"
    "trace (fc1_at S_MoveContact BC_POS_FLUID_A) = []"
    "piezoVoltageGet env_ok = 40"
    by (simp_all add: fc1_at_def fc1_def FluidicInit_def env_ok_def bladder1DefaultParams_def
          bladderDefaultParams_def piezoVoltageGet_def)
  show ?thesis
    using pre door_open_home_move_completion_is_published [OF pre, where v = 100]
    by (simp add: chan)
qed

subsection \<open>Move to Home\<close>

lemma default_move_home:
  "mv_eTargetPos msg = BC_POS_HOME \<Longrightarrow>
   Fluidic_defaultEvents e me (XMSG_FLUID_CHANNEL_MOVE_TO msg) = OnMsgBladderControlMoveToPos e me msg"
  by (simp add: Fluidic_defaultEvents_def split: prod.splits)

lemma handler_move_home:
  assumes "state me \<noteq> S_Init" "mv_eTargetPos msg = BC_POS_HOME"
  shows "state_handler (state me) e me (XMSG_FLUID_CHANNEL_MOVE_TO msg)
           = Some (OnMsgBladderControlMoveToPos e me msg)"
  using assms
  by (cases "state me")
     (simp_all add: default_move_home FluidicState_Idle_def FluidicState_CheckForStrip_def
        FluidicState_MoveContact_def FluidicState_MoveOther_def FluidicState_LiftUpBladder_def
        FluidicState_WaitForContact_def FluidicState_WaitForPiezoStop_def
        FluidicState_MixContactControlled_def FluidicState_MixPiezoControlled_def
        FluidicState_MixWaitContinue_def FluidicState_MonitorFluidBreach_def FluidicState_Err_def
        isBladderEvent_def split: prod.splits)

lemma move_home_overrides:
  assumes "mv_eTargetPos msg = BC_POS_HOME"
  shows "OnMsgBladderControlMoveToPos e me msg =
           (X_RET_TRAN, me\<lparr>state := S_MoveOther, eTargetPos := BC_POS_HOME,
              pParams := (pParams me)\<lparr>rampSpeedVoltsPerSec := FLUID_SPEED_HIGH_DEFAULT_V_PER_S e,
                 timeout_ms := 1000, compensationProportion := 0,
                 eOvershootCompensationType := FLUID_OVERSHOOT_COMP_NONE\<rparr>\<rparr>)"
  using assms
  by (simp add: OnMsgBladderControlMoveToPos_def X_TRAN_def Let_def)

text \<open>
  C6. \<open>FluidicMove\<close> with the target Home returns "accepted" and posts the move message
  with the target Home, for every controller, state and argument, without a check. The
  handler of every state of a started controller answers a move message whose target is
  Home with the transition to MoveOther, having set the target to Home, the ramp speed to
  \<open>FLUID_SPEED_HIGH_DEFAULT_V_PER_S\<close>, the timeout to 1000 ms, the compensation proportion
  to 0 and the overshoot mode to None, whatever the message carries. A move to another
  target is accepted only in Idle or MonitorFluidBreach.
\<close>

theorem move_home_always_accepted:
  "FluidicMove e (Some me) BC_POS_HOME ramp timeout cmode cprop
     = (OK_COMMAND_ACCEPTED,
        Some (me\<lparr>moveMsg := (moveMsg me)\<lparr>mv_eTargetPos := BC_POS_HOME\<rparr>,
                 trace := trace me @ [Post (XMSG_FLUID_CHANNEL_MOVE_TO
                            ((moveMsg me)\<lparr>mv_eTargetPos := BC_POS_HOME\<rparr>))]\<rparr>))
   \<and> (state me \<noteq> S_Init \<and> mv_eTargetPos msg = BC_POS_HOME \<longrightarrow>
        state_handler (state me) e me (XMSG_FLUID_CHANNEL_MOVE_TO msg)
          = Some (X_RET_TRAN,
                  me\<lparr>state := S_MoveOther, eTargetPos := BC_POS_HOME,
                     pParams := (pParams me)\<lparr>
                        rampSpeedVoltsPerSec := FLUID_SPEED_HIGH_DEFAULT_V_PER_S e,
                        timeout_ms := 1000, compensationProportion := 0,
                        eOvershootCompensationType := FLUID_OVERSHOOT_COMP_NONE\<rparr>\<rparr>))
   \<and> (t \<noteq> BC_POS_HOME
        \<and> fst (FluidicMove e (Some me) t ramp timeout cmode cprop) = OK_COMMAND_ACCEPTED
      \<longrightarrow> state me = S_Idle \<or> state me = S_MonitorFluidBreach)"
  by (auto simp add: handler_move_home move_home_overrides)
     (auto simp add: FluidicMove_def emit_def Let_def FluidicStateCanAcceptCommand_def
        XFSM_IS_STATE_def FluidCheckMoveParams_def split: if_splits)

text \<open>
  Witness: a controller waiting between two mix strokes, with the last position Unknown;
  the call carries a ramp above the limit and an out-of-range overshoot mode, and the
  message a ramp of 7 V/s, a timeout of 5 ms, break-and-remake compensation.
\<close>

theorem move_home_always_accepted_witness:
  "fst (FluidicMove env_ok (Some (fc1_at S_MixWaitContinue BC_POS_UNKNOWN)) BC_POS_HOME 1000 0
          FLUID_OVERSHOOT_COMP_NUM 2) = OK_COMMAND_ACCEPTED
   \<and> map_option (\<lambda>(r, m). (r, state m, eTargetPos m, rampSpeedVoltsPerSec (pParams m),
                            timeout_ms (pParams m), eOvershootCompensationType (pParams m),
                            compensationProportion (pParams m)))
       (state_handler S_MixWaitContinue env_ok (fc1_at S_MixWaitContinue BC_POS_UNKNOWN)
          (XMSG_FLUID_CHANNEL_MOVE_TO
             \<lparr>mv_eTargetPos = BC_POS_HOME, mv_rampSpeedVoltsPerSec = 7,
              mv_eOvershootComp = FLUID_OVERSHOOT_COMP_BREAK_REMAKE,
              mv_overshootCompProportion = 1, mv_timeout_ms = 5\<rparr>))
     = Some (X_RET_TRAN, S_MoveOther, BC_POS_HOME, 100, 1000, FLUID_OVERSHOOT_COMP_NONE, 0)"
  using move_home_always_accepted [of env_ok "fc1_at S_MixWaitContinue BC_POS_UNKNOWN" 1000 0
      FLUID_OVERSHOOT_COMP_NUM 2
      "\<lparr>mv_eTargetPos = BC_POS_HOME, mv_rampSpeedVoltsPerSec = 7,
        mv_eOvershootComp = FLUID_OVERSHOOT_COMP_BREAK_REMAKE,
        mv_overshootCompProportion = 1, mv_timeout_ms = 5\<rparr>" BC_POS_HOME]
  by (simp add: FLUID_SPEED_HIGH_DEFAULT_V_PER_S_def env_ok_def)

subsection \<open>Open-loop mix\<close>

text \<open>
  C8: the code against the claim. The first stroke of an accepted open-loop mix is the
  first reverse stroke: the mix message sets the direction to Reverse and the stage
  counter to 0 and enters the piezo-controlled state. Its piezo command goes to
  \<open>startV - (startV - V(target)) * downstrokeProportion\<close>: the compensation factor does
  not appear, since the entry action subtracts the bias only when the stage counter is 1.
\<close>

theorem open_loop_first_reverse_stroke_has_no_bias:
  assumes "mix_pre e me msg" and "mx_eMixType msg = FLUID_MIX_OPEN_LOOP"
  shows "map_option (\<lambda>m. (state m, eMoveDirection (status m), mixingStagesCompleted (status m),
                          openLoopCompensationFactor (pParams m), trace m))
           (dispatch e me (XMSG_FLUID_MIX msg))
         = Some (S_MixPiezoControlled, FLUID_MOVE_REV, 0, mx_openLoopCompensationFactor msg,
                 trace me @
                 [Call_XTimerStop, Call_XTimerStart,
                  Call_piezoVoltageSet
                    (piezoVoltage (status me)
                       - (piezoVoltage (status me)
                            - targetVolts (positionLimits (pParams me) (mx_eTargetPos msg)))
                         * mx_mixDownstrokeProportion msg)
                    (\<bar>(piezoVoltage (status me)
                         - targetVolts (positionLimits (pParams me) (mx_eTargetPos msg)))
                       * mx_mixDownstrokeProportion msg\<bar> * 2 * mx_mixFrequency msg)
                    False,
                  Call_ERROR_CHECK OK_COMMAND_ACCEPTED])"
  using assms
  by (simp add: mix_pre_def handler_defs helper_defs OnMsgBladderControlMix_def
        FluidicMixPiezoControlled_OnEntry_def FluidicMixCalculateDownStrokeMixProportion_def
        fluidicMixingCalculaterampSpeedVoltsPerSec_def)

text \<open>
  At the failing input: from B, with the piezo at 60 V and the target A at 60 V by
  default (set to 20 V here), proportion and compensation factor one half. The stroke
  goes to 40 V; with the bias of the claim it would go to 20 V.
\<close>

theorem open_loop_first_reverse_stroke_has_no_bias_witness:
  "mix_pre env_ok
     ((set_targetVolts BC_POS_FLUID_A 20 (fc1_at S_Idle BC_POS_FLUID_B))
        \<lparr>status := (status fc1)\<lparr>piezoVoltage := 60\<rparr>\<rparr>) open_loop_msg
   \<and> map_option trace
       (dispatch env_ok
          ((set_targetVolts BC_POS_FLUID_A 20 (fc1_at S_Idle BC_POS_FLUID_B))
             \<lparr>status := (status fc1)\<lparr>piezoVoltage := 60\<rparr>\<rparr>)
          (XMSG_FLUID_MIX open_loop_msg))
     = Some [Call_XTimerStop, Call_XTimerStart, Call_piezoVoltageSet 40 40 False,
             Call_ERROR_CHECK OK_COMMAND_ACCEPTED]"
proof -
  let ?me = "(set_targetVolts BC_POS_FLUID_A 20 (fc1_at S_Idle BC_POS_FLUID_B))
               \<lparr>status := (status fc1)\<lparr>piezoVoltage := 60\<rparr>\<rparr>"
  have pre: "mix_pre env_ok ?me open_loop_msg"
    by (simp add: mix_pre_def example_defs open_loop_msg_def set_targetVolts_def
          FluidCheckMixParams_def isFrequencyOk_def isMixPositionOk_def isMixTimeoutOk_def
          FLUIDIC_MAX_MIX_TIMEOUT_DEFAULT_MS_def FLUIDIC_DEFAULT_TARGET_POSITION_def Let_def)
  have ty: "mx_eMixType open_loop_msg = FLUID_MIX_OPEN_LOOP"
    by (simp add: open_loop_msg_def)
  have "map_option trace (dispatch env_ok ?me (XMSG_FLUID_MIX open_loop_msg))
        = Some [Call_XTimerStop, Call_XTimerStart, Call_piezoVoltageSet 40 40 False,
                Call_ERROR_CHECK OK_COMMAND_ACCEPTED]"
    using open_loop_first_reverse_stroke_has_no_bias [OF pre ty]
    by (simp add: example_defs open_loop_msg_def set_targetVolts_def map_option_case
          split: option.splits)
  with pre show ?thesis by simp
qed

subsection \<open>Cycle accounting of a mix\<close>

lemma non_sentinel_neq:
  "non_sentinel p \<Longrightarrow> p \<noteq> BC_POS_UNKNOWN \<and> p \<noteq> BC_NONE \<and> pos_ord p \<noteq> 5"
  by (auto simp add: non_sentinel_def)

lemmas mix_defs =
  AdjustHysterisisVoltage_def FluidMixOnStageComplete_def FluidMixMovementContinue_def
  FluidicMixContactControlled_OnEntry_def FluidicBeginPiezoMoveToTarget_def
  fluidicMixingCalculaterampSpeedVoltsPerSec_def FLUID_NUM_MIXING_STAGES_PER_CYCLE_def
  FluidicOnMixComplete_def OnMsgBladderControlMix_def FluidicMixContactControlled_OnTick_def
  fluidGetEchemRequirement_def FluidOnEchemStatusChange_def
  mix_abs_def mix_obs_def count_stageComplete_def count_mixComplete_def is_stageComplete_def
  is_mixComplete_def

text \<open>A stroke that does not end the mix, and the continuation: the two positions swap.\<close>

lemma piezo_pair_step:
  assumes "mixing e me"
    and "eMoveDirection (status me) = FLUID_MOVE_REV \<or> eMoveDirection (status me) = FLUID_MOVE_FWD"
    and "(mixingStagesCompleted (status me) + 1) div 2 < targetMixCycles (pParams me)"
  shows "map_option mix_abs (run me [(e, XMSG_PIEZO_MOVE_COMPLTE (pPiezo_chan me) v),
                                   (e, XMSG_FLUID_MIX_CONTINUE)])
         = Some (S_MixContactControlled, FLUID_MIX_DUAL_POINT_LOOP, eTargetPos me,
                 eLastKnownPos me, flipDir (eMoveDirection (status me)),
                 mixingStagesCompleted (status me) + 1,
                 targetMixCycles (pParams me),
                 eMixEndPosition (pParams me), pPiezo_chan me, eChannel (pParams me),
                 mixTimer me, mixTimeout_ms (pParams me),
                 Suc (count_stageComplete me), count_mixComplete me,
                 echemRequirements (positionLimits (pParams me) (eLastKnownPos me))
                   (flipDir (eMoveDirection (status me))),
                 echemRequirements (positionLimits (pParams me) (eTargetPos me))
                   (eMoveDirection (status me)))"
  using assms
  apply (elim disjE)
  apply (simp_all add: mixing_def handler_defs helper_defs mix_defs
        non_sentinel_neq linorder_not_le[symmetric])
  done

lemma fluid_pair_step:
  assumes "mixing e me"
    and "eMoveDirection (status me) = FLUID_MOVE_REV \<or> eMoveDirection (status me) = FLUID_MOVE_FWD"
    and "(mixingStagesCompleted (status me) + 1) div 2 < targetMixCycles (pParams me)"
    and "fluid_ok (eChannel (pParams me))
           (echemRequirements (positionLimits (pParams me) (eTargetPos me))
              (eMoveDirection (status me)))
           (eMoveDirection (status me)) (FluidSeen fp)"
    and "mixTimer me + 20 < mixTimeout_ms (pParams me)"
  shows "map_option mix_abs (run me [(e, XMSG_EC_FLUID_STATUS_CHANGED fp), (e, X_EV_TIMER),
                                   (e, XMSG_FLUID_MIX_CONTINUE)])
         = Some (S_MixContactControlled, FLUID_MIX_DUAL_POINT_LOOP, eTargetPos me,
                 eLastKnownPos me, flipDir (eMoveDirection (status me)),
                 mixingStagesCompleted (status me) + 1,
                 targetMixCycles (pParams me),
                 eMixEndPosition (pParams me), pPiezo_chan me, eChannel (pParams me),
                 mixTimer me + 20, mixTimeout_ms (pParams me),
                 Suc (count_stageComplete me), count_mixComplete me,
                 echemRequirements (positionLimits (pParams me) (eLastKnownPos me))
                   (flipDir (eMoveDirection (status me))),
                 echemRequirements (positionLimits (pParams me) (eTargetPos me))
                   (eMoveDirection (status me)))"
  using assms
  apply (elim disjE)
  apply (simp_all add: mixing_def handler_defs helper_defs mix_defs
        non_sentinel_neq linorder_not_le[symmetric])
  done


lemma stages_below_target:
  assumes "j + 1 < 2 * n" and "2 * n < 2 ^ 32"
  shows "((of_nat j :: 32 word) + 1) div 2 < of_nat n"
proof -
  have e: "(of_nat j :: 32 word) + 1 = of_nat (j + 1)" by simp
  have u1: "unat (of_nat (j + 1) :: 32 word) = j + 1"
    unfolding unat_of_nat using assms by simp
  have u2: "unat (of_nat n :: 32 word) = n"
    unfolding unat_of_nat using assms by simp
  have u3: "unat (2 :: 32 word) = 2" by simp
  show ?thesis
    unfolding e word_less_nat_alt unat_div u1 u2 u3 using assms by linarith
qed

lemma last_stage_word:
  assumes "0 < n"
  shows "(of_nat (2 * n - 1) :: 32 word) + 1 = of_nat (2 * n)"
proof -
  have "Suc (2 * n - 1) = 2 * n" using assms by simp
  then show ?thesis by (metis of_nat_Suc add.commute)
qed

lemma stages_reach_target:
  assumes "0 < n" and "2 * n < 2 ^ 32"
  shows "of_nat n \<le> ((of_nat (2 * n - 1) :: 32 word) + 1) div 2"
proof -
  have u1: "unat (of_nat (2 * n) :: 32 word) = 2 * n"
    unfolding unat_of_nat using assms by simp
  have u2: "unat (of_nat n :: 32 word) = n"
    unfolding unat_of_nat using assms by simp
  have u3: "unat (2 :: 32 word) = 2" by simp
  show ?thesis
    unfolding last_stage_word [OF assms(1)] word_le_nat_alt unat_div u1 u2 u3 by simp
qed

lemma timer_below:
  assumes "tm + 20 < unat (T :: 32 word)"
  shows "(of_nat tm :: 32 word) + 20 < T"
proof -
  have lt: "unat T < 2 ^ 32" using unsigned_less [of T] by simp
  have e: "(of_nat tm :: 32 word) + 20 = of_nat (tm + 20)" by simp
  have u: "unat (of_nat (tm + 20) :: 32 word) = tm + 20"
    unfolding unat_of_nat using assms lt by simp
  show ?thesis
    unfolding e word_less_nat_alt u using assms by simp
qed

lemma mix_target_non_sentinel:
  assumes "mix_pre e me msg"
  shows "non_sentinel (mx_eTargetPos msg)"
proof -
  have "isMixPositionOk me (mx_eTargetPos msg)"
    using assms by (auto simp add: mix_pre_def FluidCheckMixParams_def Let_def split: if_splits)
  then show ?thesis
    by (cases "mx_eTargetPos msg")
       (auto simp add: isMixPositionOk_def non_sentinel_def Let_def split: if_splits)
qed

text \<open>The stroke that ends the mix.\<close>

lemma piezo_last_step:
  assumes "mixing e me"
    and "targetMixCycles (pParams me) \<le> (mixingStagesCompleted (status me) + 1) div 2"
    and "ecDisable_ret e = OK_STATUS" and "piezoStop_ret e = OK_STATUS"
  shows "map_option mix_obs (dispatch e me (XMSG_PIEZO_MOVE_COMPLTE (pPiezo_chan me) v))
         = Some (S_Idle, eTargetPos me, BC_NONE,
                 count_stageComplete me, Suc (count_mixComplete me))"
  using assms
  by (simp add: mixing_def handler_defs helper_defs mix_defs non_sentinel_neq)

lemma fluid_last_step:
  assumes "mixing e me"
    and "eMoveDirection (status me) = FLUID_MOVE_REV \<or> eMoveDirection (status me) = FLUID_MOVE_FWD"
    and "targetMixCycles (pParams me) \<le> (mixingStagesCompleted (status me) + 1) div 2"
    and "ecDisable_ret e = OK_STATUS" and "piezoStop_ret e = OK_STATUS"
    and "fluid_ok (eChannel (pParams me))
           (echemRequirements (positionLimits (pParams me) (eTargetPos me))
              (eMoveDirection (status me)))
           (eMoveDirection (status me)) (FluidSeen fp)"
    and "mixTimer me + 20 < mixTimeout_ms (pParams me)"
  shows "map_option mix_obs (run me [(e, XMSG_EC_FLUID_STATUS_CHANGED fp), (e, X_EV_TIMER)])
         = Some (S_Idle, eTargetPos me, BC_NONE,
                 count_stageComplete me, Suc (count_mixComplete me))"
  using assms
  apply (elim disjE)
  apply (simp_all add: mixing_def handler_defs helper_defs mix_defs
        non_sentinel_neq linorder_not_le[symmetric])
  done

lemma mix_start_step:
  assumes "mix_pre e me msg" and "mx_eMixType msg = FLUID_MIX_DUAL_POINT_LOOP"
  shows "map_option mix_abs (dispatch e me (XMSG_FLUID_MIX msg))
         = Some (S_MixContactControlled, FLUID_MIX_DUAL_POINT_LOOP, eLastKnownPos me,
                 mx_eTargetPos msg, FLUID_MOVE_REV, 0, mx_mixCycles msg,
                 eLastKnownPos me, pPiezo_chan me, eChannel (pParams me),
                 0, mx_mixTime msg,
                 count_stageComplete me, count_mixComplete me,
                 echemRequirements (positionLimits (pParams me) (mx_eTargetPos msg)) FLUID_MOVE_REV,
                 echemRequirements (positionLimits (pParams me) (eLastKnownPos me)) FLUID_MOVE_FWD)"
  using assms mix_target_non_sentinel [OF assms(1)]
  by (simp add: mix_pre_def handler_defs helper_defs mix_defs non_sentinel_neq)


lemma run_append:
  "run me (xs @ ys) = (case run me xs of None \<Rightarrow> None | Some m \<Rightarrow> run m ys)"
  by (induction xs arbitrary: me) (auto split: option.splits)

lemma flipDir_twice:
  "d = FLUID_MOVE_REV \<or> d = FLUID_MOVE_FWD \<Longrightarrow> flipDir (flipDir d) = d"
  by auto

lemma flipDir_two:
  "flipDir d = FLUID_MOVE_REV \<or> flipDir d = FLUID_MOVE_FWD"
  by (cases d) simp_all

lemma mix_strokes:
  assumes env: "ecSetModeFillDetect_ret e = OK_STATUS" "piezoVoltageSet_ret e = OK_COMMAND_ACCEPTED"
    and big: "2 * n < 2 ^ 32"
  shows "mix_abs me = (S_MixContactControlled, FLUID_MIX_DUAL_POINT_LOOP, l, t, d, of_nat j, of_nat n,
                    ep, c, ec, of_nat tm, T, cs, cm, a, b)
         \<Longrightarrow> non_sentinel l \<Longrightarrow> non_sentinel t
         \<Longrightarrow> d = FLUID_MOVE_REV \<or> d = FLUID_MOVE_FWD
         \<Longrightarrow> j + length ss < 2 * n
         \<Longrightarrow> strokes_ok ec a b d ss
         \<Longrightarrow> tm + 20 * fluid_strokes ss < unat T
         \<Longrightarrow> map_option mix_abs (run me (strokes_events e c ss))
             = Some (S_MixContactControlled, FLUID_MIX_DUAL_POINT_LOOP,
                     (if even (length ss) then l else t), (if even (length ss) then t else l),
                     (if even (length ss) then d else flipDir d),
                     of_nat (j + length ss), of_nat n, ep, c, ec,
                     of_nat (tm + 20 * fluid_strokes ss), T, cs + length ss, cm,
                     (if even (length ss) then a else b), (if even (length ss) then b else a))"
proof (induction ss arbitrary: me j l t d tm cs a b)
  case Nil
  then show ?case by simp
next
  case (Cons s ss)
  have abs: "state me = S_MixContactControlled" "eMixType (pParams me) = FLUID_MIX_DUAL_POINT_LOOP"
    "eLastKnownPos me = l" "eTargetPos me = t" "eMoveDirection (status me) = d"
    "mixingStagesCompleted (status me) = of_nat j"
    "targetMixCycles (pParams me) = of_nat n" "eMixEndPosition (pParams me) = ep"
    "pPiezo_chan me = c" "eChannel (pParams me) = ec"
    "mixTimer me = of_nat tm" "mixTimeout_ms (pParams me) = T"
    "count_stageComplete me = cs" "count_mixComplete me = cm"
    "echemRequirements (positionLimits (pParams me) t) d = a"
    "echemRequirements (positionLimits (pParams me) l) (flipDir d) = b"
    using Cons.prems(1) by (auto simp add: mix_abs_def)
  have m: "mixing e me"
    using abs Cons.prems env by (simp add: mixing_def)
  have dir: "eMoveDirection (status me) = FLUID_MOVE_REV \<or> eMoveDirection (status me) = FLUID_MOVE_FWD"
    using Cons.prems(4) abs by simp
  have lt: "(mixingStagesCompleted (status me) + 1) div 2 < targetMixCycles (pParams me)"
    using stages_below_target [of j n] Cons.prems(5) big by (simp add: abs)
  have ok: "fluid_ok ec a d s" and oks: "strokes_ok ec b a (flipDir d) ss"
    using Cons.prems(6) by simp_all
  have len: "Suc j + length ss < 2 * n" using Cons.prems(5) by simp
  have ff: "flipDir (flipDir d) = d" by (rule flipDir_twice [OF Cons.prems(4)])
  show ?case
  proof (cases s)
    case (PiezoDone v)
    from piezo_pair_step [OF m dir lt, of v]
    obtain me2 where r2: "run me [(e, XMSG_PIEZO_MOVE_COMPLTE c v), (e, XMSG_FLUID_MIX_CONTINUE)]
                          = Some me2"
      and a2: "mix_abs me2 = (S_MixContactControlled, FLUID_MIX_DUAL_POINT_LOOP, t, l, flipDir d,
                           of_nat (Suc j), of_nat n, ep, c, ec, of_nat tm, T, Suc cs, cm, b, a)"
      by (auto simp add: abs)
    have tmr: "tm + 20 * fluid_strokes ss < unat T"
      using Cons.prems(7) PiezoDone by simp
    have ih: "map_option mix_abs (run me2 (strokes_events e c ss))
        = Some (S_MixContactControlled, FLUID_MIX_DUAL_POINT_LOOP,
                (if even (length ss) then t else l), (if even (length ss) then l else t),
                (if even (length ss) then flipDir d else flipDir (flipDir d)),
                of_nat (Suc j + length ss), of_nat n, ep, c, ec,
                of_nat (tm + 20 * fluid_strokes ss), T, Suc cs + length ss, cm,
                (if even (length ss) then b else a), (if even (length ss) then a else b))"
      by (rule Cons.IH [OF a2 Cons.prems(3) Cons.prems(2) flipDir_two len oks tmr])
    have eq: "run me (strokes_events e c (s # ss)) = run me2 (strokes_events e c ss)"
      using run_append [of me "[(e, XMSG_PIEZO_MOVE_COMPLTE c v), (e, XMSG_FLUID_MIX_CONTINUE)]"
                          "strokes_events e c ss"] r2 PiezoDone
      by simp
    show ?thesis
      unfolding eq ih ff using PiezoDone by (cases "even (length ss)") simp_all
  next
    case (FluidSeen fp)
    have tmr: "Suc (Suc (tm + 18)) + 20 * fluid_strokes ss < unat T" and t1: "tm + 20 < unat T"
      using Cons.prems(7) FluidSeen by simp_all
    have tw: "mixTimer me + 20 < mixTimeout_ms (pParams me)"
      using timer_below [OF t1] by (simp add: abs)
    have fo: "fluid_ok (eChannel (pParams me))
           (echemRequirements (positionLimits (pParams me) (eTargetPos me))
              (eMoveDirection (status me)))
           (eMoveDirection (status me)) (FluidSeen fp)"
      using ok FluidSeen by (simp add: abs)
    have tm20: "(of_nat tm :: 32 word) + 20 = of_nat (Suc (Suc (tm + 18)))" by simp
    from fluid_pair_step [OF m dir lt fo tw]
    obtain me2 where r2: "run me [(e, XMSG_EC_FLUID_STATUS_CHANGED fp), (e, X_EV_TIMER),
                                   (e, XMSG_FLUID_MIX_CONTINUE)] = Some me2"
      and a2: "mix_abs me2 = (S_MixContactControlled, FLUID_MIX_DUAL_POINT_LOOP, t, l, flipDir d,
                           of_nat (Suc j), of_nat n, ep, c, ec, of_nat (Suc (Suc (tm + 18))), T,
                           Suc cs, cm, b, a)"
      unfolding abs tm20 by auto
    have ih: "map_option mix_abs (run me2 (strokes_events e c ss))
        = Some (S_MixContactControlled, FLUID_MIX_DUAL_POINT_LOOP,
                (if even (length ss) then t else l), (if even (length ss) then l else t),
                (if even (length ss) then flipDir d else flipDir (flipDir d)),
                of_nat (Suc j + length ss), of_nat n, ep, c, ec,
                of_nat (Suc (Suc (tm + 18)) + 20 * fluid_strokes ss), T, Suc cs + length ss, cm,
                (if even (length ss) then b else a), (if even (length ss) then a else b))"
      by (rule Cons.IH [OF a2 Cons.prems(3) Cons.prems(2) flipDir_two len oks tmr])
    have eq: "run me (strokes_events e c (s # ss)) = run me2 (strokes_events e c ss)"
      using run_append [of me "[(e, XMSG_EC_FLUID_STATUS_CHANGED fp), (e, X_EV_TIMER),
                                (e, XMSG_FLUID_MIX_CONTINUE)]"
                          "strokes_events e c ss"] r2 FluidSeen
      by simp
    have tme: "Suc (Suc (tm + 18)) + 20 * fluid_strokes ss = tm + 20 * fluid_strokes (s # ss)"
      using FluidSeen by simp
    show ?thesis
      unfolding eq ih ff tme using FluidSeen by (cases "even (length ss)") simp_all
  qed
qed


lemma strokes_ok_snoc:
  "d = FLUID_MOVE_REV \<or> d = FLUID_MOVE_FWD
   \<Longrightarrow> strokes_ok ec a b d (ss @ [s])
       = (strokes_ok ec a b d ss
          \<and> fluid_ok ec (if even (length ss) then a else b)
                (if even (length ss) then d else flipDir d) s)"
proof (induction ss arbitrary: a b d)
  case Nil
  then show ?case by simp
next
  case (Cons x ss)
  have ff: "flipDir (flipDir d) = d" by (rule flipDir_twice [OF Cons.prems])
  show ?case
    unfolding append_Cons strokes_ok.simps Cons.IH [OF flipDir_two] ff
    by auto
qed

lemma fluid_strokes_snoc:
  "fluid_strokes (ss @ [s]) = fluid_strokes ss + fluid_strokes [s]"
  by (induction ss rule: fluid_strokes.induct) simp_all

lemma mix_obs_of_mix_abs:
  "map_option mix_abs r = Some (st, ty, l, t, d, sg, n, ep, c, ec, tm, T, cs, cm, a, b)
   \<Longrightarrow> map_option mix_obs r = Some (st, l, t, cs, cm)"
  by (cases r) (auto simp add: mix_abs_def mix_obs_def)

text \<open>
  The whole mix: the message, \<open>2n - 1\<close> strokes with their continuations, and the last
  stroke.
\<close>

lemma mix_run_summary:
  assumes "dual_mix_pre e me msg n" and "strokes_pre me msg n (ss @ [s])"
  shows "map_option mix_obs
           (run me ((e, XMSG_FLUID_MIX msg) # strokes_events e (pPiezo_chan me) ss))
         = Some (S_MixContactControlled, mx_eTargetPos msg, eLastKnownPos me,
                 count_stageComplete me + (2 * n - 1), count_mixComplete me)
       \<and> map_option mix_obs
           (run me ((e, XMSG_FLUID_MIX msg) # strokes_events e (pPiezo_chan me) ss
                    @ stroke_events e (pPiezo_chan me) s))
         = Some (S_Idle, eLastKnownPos me, BC_NONE,
                 count_stageComplete me + (2 * n - 1), Suc (count_mixComplete me))"
proof -
  let ?a = "echemRequirements (positionLimits (pParams me) (mx_eTargetPos msg)) FLUID_MOVE_REV"
  let ?b = "echemRequirements (positionLimits (pParams me) (eLastKnownPos me)) FLUID_MOVE_FWD"
  let ?ec = "eChannel (pParams me)"
  have pre: "mix_pre e me msg" and ty: "mx_eMixType msg = FLUID_MIX_DUAL_POINT_LOOP"
    and rest: "non_sentinel (eLastKnownPos me)"
    and n: "mx_mixCycles msg = of_nat n" "0 < n" "2 * n < 2 ^ 32"
    and env: "ecDisable_ret e = OK_STATUS" "piezoStop_ret e = OK_STATUS"
    using assms(1) by (simp_all add: dual_mix_pre_def)
  have len1: "Suc (length ss) = 2 * n"
    and oks: "strokes_ok ?ec ?a ?b FLUID_MOVE_REV (ss @ [s])"
    and tmr: "20 * fluid_strokes (ss @ [s]) < unat (mx_mixTime msg)"
    using assms(2) by (simp_all add: strokes_pre_def)
  have len: "length ss = 2 * n - 1" using len1 by arith
  have odd: "\<not> even (length ss)" using len n by simp
  have ok1: "strokes_ok ?ec ?a ?b FLUID_MOVE_REV ss" and ok2: "fluid_ok ?ec ?b FLUID_MOVE_FWD s"
    using oks odd by (simp_all add: strokes_ok_snoc)
  have tm1: "0 + 20 * fluid_strokes ss < unat (mx_mixTime msg)"
    and tm2: "20 * fluid_strokes ss + 20 * fluid_strokes [s] < unat (mx_mixTime msg)"
    using tmr unfolding fluid_strokes_snoc by simp_all
  have env2: "ecSetModeFillDetect_ret e = OK_STATUS" "piezoVoltageSet_ret e = OK_COMMAND_ACCEPTED"
    using pre by (simp_all add: mix_pre_def)
  have tgt: "non_sentinel (mx_eTargetPos msg)"
    by (rule mix_target_non_sentinel [OF pre])
  from mix_start_step [OF pre ty]
  obtain me1 where r1: "dispatch e me (XMSG_FLUID_MIX msg) = Some me1"
    and a1: "mix_abs me1 = (S_MixContactControlled, FLUID_MIX_DUAL_POINT_LOOP, eLastKnownPos me,
                 mx_eTargetPos msg, FLUID_MOVE_REV, of_nat 0, of_nat n,
                 eLastKnownPos me, pPiezo_chan me, ?ec, of_nat 0, mx_mixTime msg,
                 count_stageComplete me, count_mixComplete me, ?a, ?b)"
    by (auto simp add: n)
  have jl: "0 + length ss < 2 * n" using len1 by simp
  have before: "map_option mix_abs (run me1 (strokes_events e (pPiezo_chan me) ss))
        = Some (S_MixContactControlled, FLUID_MIX_DUAL_POINT_LOOP,
                mx_eTargetPos msg, eLastKnownPos me, FLUID_MOVE_FWD,
                of_nat (2 * n - 1), of_nat n, eLastKnownPos me, pPiezo_chan me, ?ec,
                of_nat (20 * fluid_strokes ss), mx_mixTime msg,
                count_stageComplete me + (2 * n - 1), count_mixComplete me, ?b, ?a)"
    using mix_strokes [OF env2 n(3) a1 rest tgt _ jl ok1 tm1] odd len by simp
  then obtain me2 where r2: "run me1 (strokes_events e (pPiezo_chan me) ss) = Some me2"
    and a2: "mix_abs me2 = (S_MixContactControlled, FLUID_MIX_DUAL_POINT_LOOP,
                mx_eTargetPos msg, eLastKnownPos me, FLUID_MOVE_FWD,
                of_nat (2 * n - 1), of_nat n, eLastKnownPos me, pPiezo_chan me, ?ec,
                of_nat (20 * fluid_strokes ss), mx_mixTime msg,
                count_stageComplete me + (2 * n - 1), count_mixComplete me, ?b, ?a)"
    by auto
  have st2: "state me2 = S_MixContactControlled" "eMixType (pParams me2) = FLUID_MIX_DUAL_POINT_LOOP"
    "eLastKnownPos me2 = mx_eTargetPos msg" "eTargetPos me2 = eLastKnownPos me"
    "eMoveDirection (status me2) = FLUID_MOVE_FWD"
    "mixingStagesCompleted (status me2) = of_nat (2 * n - 1)"
    "targetMixCycles (pParams me2) = of_nat n"
    "pPiezo_chan me2 = pPiezo_chan me" "eChannel (pParams me2) = ?ec"
    "mixTimer me2 = of_nat (20 * fluid_strokes ss)" "mixTimeout_ms (pParams me2) = mx_mixTime msg"
    "count_stageComplete me2 = count_stageComplete me + (2 * n - 1)"
    "count_mixComplete me2 = count_mixComplete me"
    "echemRequirements (positionLimits (pParams me2) (eLastKnownPos me)) FLUID_MOVE_FWD = ?b"
    using a2 by (auto simp add: mix_abs_def)
  have m2: "mixing e me2"
    using st2 rest tgt env2 by (simp add: mixing_def)
  have ge: "targetMixCycles (pParams me2) \<le> (mixingStagesCompleted (status me2) + 1) div 2"
    using stages_reach_target [of n] n by (simp add: st2)
  have fin: "map_option mix_obs (run me2 (stroke_events e (pPiezo_chan me) s))
        = Some (S_Idle, eLastKnownPos me, BC_NONE,
                count_stageComplete me + (2 * n - 1), Suc (count_mixComplete me))"
  proof (cases s)
    case (PiezoDone v)
    show ?thesis
      using piezo_last_step [OF m2 ge env, of v] PiezoDone unfolding st2
      by (auto split: option.splits)
  next
    case (FluidSeen fp)
    have t1: "20 * fluid_strokes ss + 20 < unat (mx_mixTime msg)"
      using tm2 FluidSeen by simp
    have tw: "mixTimer me2 + 20 < mixTimeout_ms (pParams me2)"
      using timer_below [OF t1] by (simp add: st2)
    have fo: "fluid_ok (eChannel (pParams me2))
           (echemRequirements (positionLimits (pParams me2) (eTargetPos me2))
              (eMoveDirection (status me2)))
           (eMoveDirection (status me2)) (FluidSeen fp)"
      using ok2 FluidSeen unfolding st2 by simp
    show ?thesis
      using fluid_last_step [OF m2 _ ge env fo tw] FluidSeen unfolding st2
      by simp
  qed
  have eq1: "run me ((e, XMSG_FLUID_MIX msg) # strokes_events e (pPiezo_chan me) ss)
             = run me1 (strokes_events e (pPiezo_chan me) ss)"
    using r1 by simp
  have eq2: "run me ((e, XMSG_FLUID_MIX msg) # strokes_events e (pPiezo_chan me) ss
                    @ stroke_events e (pPiezo_chan me) s)
            = run me2 (stroke_events e (pPiezo_chan me) s)"
    using r1 r2 by (simp add: run_append split: option.splits)
  show ?thesis
    unfolding eq1 eq2 by (rule conjI [OF mix_obs_of_mix_abs [OF before] fin])
qed


lemma stage_complete_decides:
  "FluidMixOnStageComplete m =
     (X_RET_TRAN,
      if targetMixCycles (pParams m) \<le> (mixingStagesCompleted (status m) + 1) div 2
      then (FluidicOnMixComplete
              (m\<lparr>status := (status m)\<lparr>mixingStagesCompleted := mixingStagesCompleted (status m) + 1\<rparr>\<rparr>))
           \<lparr>state := S_Idle\<rparr>
      else m\<lparr>status := (status m)\<lparr>mixingStagesCompleted := mixingStagesCompleted (status m) + 1\<rparr>,
             state := S_MixWaitContinue\<rparr>)"
  by (simp add: FluidMixOnStageComplete_def X_TRAN_def Let_def FLUID_NUM_MIXING_STAGES_PER_CYCLE_def)

text \<open>
  The stage counter is a \<open>uint32_t\<close>: half of it stays below \<open>2^31\<close>, so a target of \<open>2^31\<close>
  cycles or more is never reached.
\<close>

lemma half_below_target:
  assumes "2 ^ 31 \<le> unat (N :: 32 word)"
  shows "\<not> N \<le> (x + 1) div 2"
proof -
  have "unat (x + 1) < 2 ^ 32" using unsigned_less [of "x + 1"] by simp
  then have "unat (x + 1) div 2 < 2 ^ 31" by simp
  then have "unat ((x + 1) div 2) < unat N"
    using assms by (simp add: unat_div)
  then show ?thesis by (simp add: word_le_nat_alt)
qed

lemma stage_complete_never_ends:
  "2 ^ 31 \<le> unat (targetMixCycles (pParams m))
   \<Longrightarrow> state (snd (FluidMixOnStageComplete m)) = S_MixWaitContinue"
  using half_below_target [of "targetMixCycles (pParams m)" "mixingStagesCompleted (status m)"]
  by (simp add: stage_complete_decides)

lemma dual_example_pre: "dual_mix_pre env_ok (fc1_at S_Idle BC_POS_FLUID_B) dual_msg 3"
  by (simp add: dual_mix_pre_def mix_pre_def example_defs dual_msg_def
        FluidCheckMixParams_def isFrequencyOk_def isMixPositionOk_def isMixTimeoutOk_def
        FLUIDIC_MAX_MIX_TIMEOUT_DEFAULT_MS_def Let_def)

text \<open>
  C4, as the code has it. Every stage completion increments the stage counter and ends
  the mix exactly when the counter divided by 2 (integer division) has reached the target
  cycle count: then \<open>MixComplete\<close> is published and the controller goes to Idle; otherwise
  it goes to MixWaitContinue, whose entry publishes the stage-complete event (first
  equation); with a target of \<open>2^31\<close> cycles or more that never happens. So a dual-point
  closed-loop mix of \<open>n\<close> cycles, \<open>1 \<le> n < 2^31\<close>, from a rest position of the table, with the
  collaborators succeeding, whose strokes each end either with the piezo's move-complete
  or on a timer tick that finds the fluid front in place, and which is neither cancelled
  nor timed out, publishes \<open>2n - 1\<close> stage-complete events and no \<open>MixComplete\<close> up to the
  start of its last stroke, and the last stroke publishes the single \<open>MixComplete\<close> and no
  stage-complete event; the controller is then in Idle with the rest position as last
  known position and no target.
\<close>

theorem mix_cycle_accounting:
  assumes "dual_mix_pre e me msg n" and "strokes_pre me msg n (ss @ [s])"
  shows "FluidMixOnStageComplete m =
           (X_RET_TRAN,
            if targetMixCycles (pParams m) \<le> (mixingStagesCompleted (status m) + 1) div 2
            then (FluidicOnMixComplete
                    (m\<lparr>status := (status m)\<lparr>mixingStagesCompleted :=
                                               mixingStagesCompleted (status m) + 1\<rparr>\<rparr>))
                 \<lparr>state := S_Idle\<rparr>
            else m\<lparr>status := (status m)\<lparr>mixingStagesCompleted :=
                                          mixingStagesCompleted (status m) + 1\<rparr>,
                   state := S_MixWaitContinue\<rparr>)
       \<and> (2 ^ 31 \<le> unat (targetMixCycles (pParams m))
            \<longrightarrow> state (snd (FluidMixOnStageComplete m)) = S_MixWaitContinue)
       \<and> map_option mix_obs
           (run me ((e, XMSG_FLUID_MIX msg) # strokes_events e (pPiezo_chan me) ss))
         = Some (S_MixContactControlled, mx_eTargetPos msg, eLastKnownPos me,
                 count_stageComplete me + (2 * n - 1), count_mixComplete me)
       \<and> map_option mix_obs
           (run me ((e, XMSG_FLUID_MIX msg) # strokes_events e (pPiezo_chan me) ss
                    @ stroke_events e (pPiezo_chan me) s))
         = Some (S_Idle, eLastKnownPos me, BC_NONE,
                 count_stageComplete me + (2 * n - 1), Suc (count_mixComplete me))"
  using mix_run_summary [OF assms] stage_complete_decides [of m] stage_complete_never_ends [of m]
  by simp

text \<open>
  Witness: scenario 4 (three cycles between B and A on channel 1), four strokes ending on
  a timer tick and two on the piezo's move-complete: five stage-complete events and one
  \<open>MixComplete\<close>; and a target of \<open>2^31\<close> cycles.
\<close>

theorem mix_cycle_accounting_witness:
  "dual_mix_pre env_ok (fc1_at S_Idle BC_POS_FLUID_B) dual_msg 3
   \<and> strokes_pre (fc1_at S_Idle BC_POS_FLUID_B) dual_msg 3
        ([FluidSeen (fluidPositions_all FLUID_DETECTED), PiezoDone 60,
          FluidSeen (fluidPositions_all FLUID_DETECTED),
          FluidSeen (fluidPositions_all FLUID_POSITION_B), PiezoDone 20]
         @ [FluidSeen (fluidPositions_all FLUID_POSITION_B)])
   \<and> 2 ^ 31 \<le> unat (targetMixCycles
                        (pParams (fc1\<lparr>pParams := (pParams fc1)\<lparr>targetMixCycles := 2147483648\<rparr>\<rparr>)))
   \<and> state (snd (FluidMixOnStageComplete
                    (fc1\<lparr>pParams := (pParams fc1)\<lparr>targetMixCycles := 2147483648\<rparr>\<rparr>)))
       = S_MixWaitContinue
   \<and> map_option mix_obs
       (run (fc1_at S_Idle BC_POS_FLUID_B)
          [(env_ok, XMSG_FLUID_MIX dual_msg),
           (env_ok, XMSG_EC_FLUID_STATUS_CHANGED (fluidPositions_all FLUID_DETECTED)),
           (env_ok, X_EV_TIMER), (env_ok, XMSG_FLUID_MIX_CONTINUE),
           (env_ok, XMSG_PIEZO_MOVE_COMPLTE 1 60), (env_ok, XMSG_FLUID_MIX_CONTINUE),
           (env_ok, XMSG_EC_FLUID_STATUS_CHANGED (fluidPositions_all FLUID_DETECTED)),
           (env_ok, X_EV_TIMER), (env_ok, XMSG_FLUID_MIX_CONTINUE),
           (env_ok, XMSG_EC_FLUID_STATUS_CHANGED (fluidPositions_all FLUID_POSITION_B)),
           (env_ok, X_EV_TIMER), (env_ok, XMSG_FLUID_MIX_CONTINUE),
           (env_ok, XMSG_PIEZO_MOVE_COMPLTE 1 20), (env_ok, XMSG_FLUID_MIX_CONTINUE),
           (env_ok, XMSG_EC_FLUID_STATUS_CHANGED (fluidPositions_all FLUID_POSITION_B)),
           (env_ok, X_EV_TIMER)])
     = Some (S_Idle, BC_POS_FLUID_B, BC_NONE, 5, 1)"
proof -
  have sp: "strokes_pre (fc1_at S_Idle BC_POS_FLUID_B) dual_msg 3
        ([FluidSeen (fluidPositions_all FLUID_DETECTED), PiezoDone 60,
          FluidSeen (fluidPositions_all FLUID_DETECTED),
          FluidSeen (fluidPositions_all FLUID_POSITION_B), PiezoDone 20]
         @ [FluidSeen (fluidPositions_all FLUID_POSITION_B)])"
    by (simp add: strokes_pre_def example_defs dual_msg_def)
  have big: "2 ^ 31 \<le> unat (targetMixCycles
                        (pParams (fc1\<lparr>pParams := (pParams fc1)\<lparr>targetMixCycles := 2147483648\<rparr>\<rparr>)))"
    by simp
  have vals: "pPiezo_chan (fc1_at S_Idle BC_POS_FLUID_B) = 1"
    "count_stageComplete (fc1_at S_Idle BC_POS_FLUID_B) = 0"
    "count_mixComplete (fc1_at S_Idle BC_POS_FLUID_B) = 0"
    by (simp_all add: example_defs count_stageComplete_def count_mixComplete_def)
  have five: "2 * 3 - 1 = (5::nat)" by simp
  note t = mix_cycle_accounting [OF dual_example_pre sp,
        where m = "fc1\<lparr>pParams := (pParams fc1)\<lparr>targetMixCycles := 2147483648\<rparr>\<rparr>"]
  have c2: "state (snd (FluidMixOnStageComplete
                    (fc1\<lparr>pParams := (pParams fc1)\<lparr>targetMixCycles := 2147483648\<rparr>\<rparr>)))
       = S_MixWaitContinue"
    by (rule mp [OF conjunct1 [OF conjunct2 [OF t]] big])
  have c4: "map_option mix_obs
       (run (fc1_at S_Idle BC_POS_FLUID_B)
          [(env_ok, XMSG_FLUID_MIX dual_msg),
           (env_ok, XMSG_EC_FLUID_STATUS_CHANGED (fluidPositions_all FLUID_DETECTED)),
           (env_ok, X_EV_TIMER), (env_ok, XMSG_FLUID_MIX_CONTINUE),
           (env_ok, XMSG_PIEZO_MOVE_COMPLTE 1 60), (env_ok, XMSG_FLUID_MIX_CONTINUE),
           (env_ok, XMSG_EC_FLUID_STATUS_CHANGED (fluidPositions_all FLUID_DETECTED)),
           (env_ok, X_EV_TIMER), (env_ok, XMSG_FLUID_MIX_CONTINUE),
           (env_ok, XMSG_EC_FLUID_STATUS_CHANGED (fluidPositions_all FLUID_POSITION_B)),
           (env_ok, X_EV_TIMER), (env_ok, XMSG_FLUID_MIX_CONTINUE),
           (env_ok, XMSG_PIEZO_MOVE_COMPLTE 1 20), (env_ok, XMSG_FLUID_MIX_CONTINUE),
           (env_ok, XMSG_EC_FLUID_STATUS_CHANGED (fluidPositions_all FLUID_POSITION_B)),
           (env_ok, X_EV_TIMER)])
     = Some (S_Idle, BC_POS_FLUID_B, BC_NONE, 5, 1)"
    using conjunct2 [OF conjunct2 [OF conjunct2 [OF t]]]
    unfolding vals five by (simp del: run.simps)
  show ?thesis
    by (intro conjI dual_example_pre sp big c2 c4)
qed

text \<open>
  The claim as stated fails: in the three-cycle dual-point mix the controller publishes
  five stage-complete events, not six; the sixth stage ends the mix.
\<close>

theorem six_stage_events_counterexample:
  "map_option count_stageComplete
     (run (fc1_at S_Idle BC_POS_FLUID_B)
        [(env_ok, XMSG_FLUID_MIX dual_msg),
         (env_ok, XMSG_PIEZO_MOVE_COMPLTE 1 60), (env_ok, XMSG_FLUID_MIX_CONTINUE),
         (env_ok, XMSG_PIEZO_MOVE_COMPLTE 1 60), (env_ok, XMSG_FLUID_MIX_CONTINUE),
         (env_ok, XMSG_PIEZO_MOVE_COMPLTE 1 60), (env_ok, XMSG_FLUID_MIX_CONTINUE),
         (env_ok, XMSG_PIEZO_MOVE_COMPLTE 1 60), (env_ok, XMSG_FLUID_MIX_CONTINUE),
         (env_ok, XMSG_PIEZO_MOVE_COMPLTE 1 60), (env_ok, XMSG_FLUID_MIX_CONTINUE),
         (env_ok, XMSG_PIEZO_MOVE_COMPLTE 1 60)])
   = Some 5"
proof -
  have sp: "strokes_pre (fc1_at S_Idle BC_POS_FLUID_B) dual_msg 3
        ([PiezoDone 60, PiezoDone 60, PiezoDone 60, PiezoDone 60, PiezoDone 60] @ [PiezoDone 60])"
    by (simp add: strokes_pre_def dual_msg_def)
  have vals: "pPiezo_chan (fc1_at S_Idle BC_POS_FLUID_B) = 1"
    "count_stageComplete (fc1_at S_Idle BC_POS_FLUID_B) = 0"
    by (simp_all add: example_defs count_stageComplete_def)
  have five: "2 * 3 - 1 = (5::nat)" by simp
  have "map_option mix_obs
     (run (fc1_at S_Idle BC_POS_FLUID_B)
        [(env_ok, XMSG_FLUID_MIX dual_msg),
         (env_ok, XMSG_PIEZO_MOVE_COMPLTE 1 60), (env_ok, XMSG_FLUID_MIX_CONTINUE),
         (env_ok, XMSG_PIEZO_MOVE_COMPLTE 1 60), (env_ok, XMSG_FLUID_MIX_CONTINUE),
         (env_ok, XMSG_PIEZO_MOVE_COMPLTE 1 60), (env_ok, XMSG_FLUID_MIX_CONTINUE),
         (env_ok, XMSG_PIEZO_MOVE_COMPLTE 1 60), (env_ok, XMSG_FLUID_MIX_CONTINUE),
         (env_ok, XMSG_PIEZO_MOVE_COMPLTE 1 60), (env_ok, XMSG_FLUID_MIX_CONTINUE),
         (env_ok, XMSG_PIEZO_MOVE_COMPLTE 1 60)])
     = Some (S_Idle, BC_POS_FLUID_B, BC_NONE, 5,
             Suc (count_mixComplete (fc1_at S_Idle BC_POS_FLUID_B)))"
    using conjunct2 [OF mix_run_summary [OF dual_example_pre sp]]
    unfolding vals five by (simp del: run.simps)
  then show ?thesis
    by (cases "run (fc1_at S_Idle BC_POS_FLUID_B)
        [(env_ok, XMSG_FLUID_MIX dual_msg),
         (env_ok, XMSG_PIEZO_MOVE_COMPLTE 1 60), (env_ok, XMSG_FLUID_MIX_CONTINUE),
         (env_ok, XMSG_PIEZO_MOVE_COMPLTE 1 60), (env_ok, XMSG_FLUID_MIX_CONTINUE),
         (env_ok, XMSG_PIEZO_MOVE_COMPLTE 1 60), (env_ok, XMSG_FLUID_MIX_CONTINUE),
         (env_ok, XMSG_PIEZO_MOVE_COMPLTE 1 60), (env_ok, XMSG_FLUID_MIX_CONTINUE),
         (env_ok, XMSG_PIEZO_MOVE_COMPLTE 1 60), (env_ok, XMSG_FLUID_MIX_CONTINUE),
         (env_ok, XMSG_PIEZO_MOVE_COMPLTE 1 60)]")
       (simp_all add: mix_obs_def del: run.simps)
qed

subsection \<open>Hysteresis range\<close>

text \<open>
  No field update other than the store into \<open>posHysterisis\<close> changes a hysteresis, so every
  helper and every handler but the two that call \<open>AdjustHysterisisVoltage\<close> leaves the
  hysteresis of all positions as it was.
\<close>

lemma hyst_fields [simp]:
  "hyst (state_update f0 me) = hyst me"
  "hyst (errorCode_update f1 me) = hyst me"
  "hyst (eLastKnownPos_update f2 me) = hyst me"
  "hyst (eTargetPos_update f3 me) = hyst me"
  "hyst (timeoutTimer_update f4 me) = hyst me"
  "hyst (mixTimer_update f5 me) = hyst me"
  "hyst (status_update f6 me) = hyst me"
  "hyst (publishCompletionEvent_update f7 me) = hyst me"
  "hyst (chTargetPosReached_update f8 me) = hyst me"
  "hyst (trace_update f9 me) = hyst me"
  "hyst (me\<lparr>pParams := pp\<rparr>) = hystP pp"
  "hystP (pParams me) = hyst me"
  by (simp_all add: hyst_def hystP_def fun_eq_iff)

lemma hystP_fields [simp]:
  "hystP (eChannel_update g1 pp) = hystP pp"
  "hystP (timeout_ms_update g2 pp) = hystP pp"
  "hystP (mixFrequency_Hz_update g3 pp) = hystP pp"
  "hystP (mixTimeout_ms_update g4 pp) = hystP pp"
  "hystP (targetMixCycles_update g5 pp) = hystP pp"
  "hystP (rampSpeedVoltsPerSec_update g6 pp) = hystP pp"
  "hystP (mixTimeoutMax_ms_update g7 pp) = hystP pp"
  "hystP (eMixEndPosition_update g8 pp) = hystP pp"
  "hystP (hysterisisMultipliersVolts_update g9 pp) = hystP pp"
  "hystP (eOvershootCompensationType_update g10 pp) = hystP pp"
  "hystP (compensationProportion_update g11 pp) = hystP pp"
  "hystP (returnSpeedRedcutionFactor_update g12 pp) = hystP pp"
  "hystP (eMixType_update g13 pp) = hystP pp"
  "hystP (openLoopCompensationFactor_update g14 pp) = hystP pp"
  "hystP (mixDownstrokeProportion_update g15 pp) = hystP pp"
  "hystP (monitorBreachAfterMove_update g16 pp) = hystP pp"
  by (simp_all add: hystP_def fun_eq_iff)

text \<open>A store with an index outside the table leaves the table as it was.\<close>

lemma store_outside_table:
  "\<not> in_array q \<Longrightarrow> in_array p
   \<Longrightarrow> positionLimits (pParams (set_targetVolts q v me)) p = positionLimits (pParams me) p"
  by (auto simp add: set_targetVolts_def)

lemma hyst_set_targetVolts [simp]: "hyst (set_targetVolts q v me) = hyst me"
  unfolding hyst_def set_targetVolts_def by (simp add: fun_eq_iff)

lemma hyst_set_posHysterisis [simp]: "hyst (set_posHysterisis q v me) = (hyst me)(q := v)"
  unfolding hyst_def set_posHysterisis_def by (simp add: fun_eq_iff)

lemma hyst_emit [simp]: "hyst (emit a me) = hyst me"
  by (simp add: emit_def)

lemma hyst_X_TRAN [simp]: "hyst (snd (X_TRAN me s)) = hyst me"
  by (simp add: X_TRAN_def)

lemma hyst_X_TRAN_ERROR [simp]: "hyst (snd (X_TRAN_ERROR me s err)) = hyst me"
  by (simp add: X_TRAN_ERROR_def)

lemma hyst_FluidicsErrorSet [simp]: "hyst (snd (FluidicsErrorSet me err r)) = hyst me"
  by (simp add: FluidicsErrorSet_def Let_def)

lemma hyst_collab [simp]:
  "hyst (snd (piezoStop e me)) = hyst me"
  "hyst (snd (piezoHome e me)) = hyst me"
  "hyst (snd (piezoVoltageSet e me v r b)) = hyst me"
  "hyst (snd (ecDisable e me c)) = hyst me"
  "hyst (snd (ecSetModeFillDetect e me c cp)) = hyst me"
  by (simp_all add: piezoStop_def piezoHome_def piezoVoltageSet_def ecDisable_def
        ecSetModeFillDetect_def)

lemma hyst_helpers [simp]:
  "hyst (FluidicSetCurrentAndTargetPositions me a b) = hyst me"
  "hyst (snd (FluidicStopMove e me)) = hyst me"
  "hyst (snd (FluidicHomeMoveBegin e me)) = hyst me"
  "hyst (FluidicOnMoveCompleteMsg e me) = hyst me"
  "hyst (FluidicOnMoveFailMsg me pos err) = hyst me"
  "hyst (FluidicOnMixComplete me) = hyst me"
  "hyst (snd (FluidOnPiezoStop me chan volts)) = hyst me"
  "hyst (snd (FluidOnPiezoMoveComplete me chan volts)) = hyst me"
  "hyst (snd (FluidOnEchemStatusChange me fp)) = hyst me"
  "hyst (fluidicMixingCalculaterampSpeedVoltsPerSec me sv ev) = hyst me"
  "hyst (OnMsgUpdateParams me upd) = hyst me"
  "hyst (snd (OnMsgWaitForFluidAtContact me wmsg)) = hyst me"
  "hyst (snd (mixCancel me)) = hyst me"
  by (simp_all add: FluidicSetCurrentAndTargetPositions_def FluidicStopMove_def
        FluidicHomeMoveBegin_def FluidicOnMoveCompleteMsg_def FluidicOnMoveFailMsg_def
        FluidicOnMixComplete_def FluidOnPiezoStop_def FluidOnPiezoMoveComplete_def
        FluidOnEchemStatusChange_def fluidicMixingCalculaterampSpeedVoltsPerSec_def
        OnMsgUpdateParams_def OnMsgWaitForFluidAtContact_def mixCancel_def Let_def X_TRAN_def)

lemma hyst_helpers2 [simp]:
  "hyst (snd (OnMsgBladderControlMoveToPos e me msg)) = hyst me"
  "hyst (snd (OnMsgLiftUpBladders e me msg)) = hyst me"
  "hyst (snd (OnMsgBladderControlMix me mmsg)) = hyst me"
  "hyst (snd (FluidMixOnStageComplete me)) = hyst me"
  "hyst (snd (FluidMixMovementContinue me)) = hyst me"
  "hyst (snd (mixTimerTick me)) = hyst me"
  "hyst (snd (Fluidic_OnIdleEntry e me)) = hyst me"
  "hyst (Fluidic_OnErrorStateEntry e me) = hyst me"
  "hyst (snd (FluidicMixPiezoControlled_OnEntry e me)) = hyst me"
  "hyst (snd (FluidicMonitorBladderDetection e me ev)) = hyst me"
  by (simp_all add: OnMsgBladderControlMoveToPos_def OnMsgLiftUpBladders_def
        OnMsgBladderControlMix_def FluidMixOnStageComplete_def FluidMixMovementContinue_def
        mixTimerTick_def Fluidic_OnIdleEntry_def Fluidic_OnErrorStateEntry_def
        FluidicMixPiezoControlled_OnEntry_def FluidicMonitorBladderDetection_def
        Let_def X_TRAN_def split_beta split: option.splits)


lemma hyst_BeginPiezoMoveToTarget:
  "FluidicBeginPiezoMoveToTarget e me = Some res \<Longrightarrow> hyst (snd res) = hyst me"
  by (auto simp add: FluidicBeginPiezoMoveToTarget_def Let_def ASSERT_def bind_eq_Some_conv
        piezoVoltageSet_def emit_def split: if_splits)

lemma hyst_BeginPiezoMoveToLift:
  "FluidicBeginPiezoMoveToLift e me = Some res \<Longrightarrow> hyst (snd res) = hyst me"
  by (auto simp add: FluidicBeginPiezoMoveToLift_def Let_def ASSERT_def bind_eq_Some_conv
        piezoVoltageSet_def emit_def split: if_splits)

lemma hyst_OnFluidMoveContact_Entry:
  "OnFluidMoveContact_Entry e me = Some res \<Longrightarrow> hyst (snd res) = hyst me"
  by (auto simp add: OnFluidMoveContact_Entry_def Let_def ASSERT_def bind_eq_Some_conv
        split_beta split: if_splits dest!: hyst_BeginPiezoMoveToTarget)

lemma hyst_OnFluidMoveOther_Entry:
  "OnFluidMoveOther_Entry e me = Some res \<Longrightarrow> hyst (snd res) = hyst me"
  by (auto simp add: OnFluidMoveOther_Entry_def Let_def ASSERT_def bind_eq_Some_conv
        split_beta ecDisable_def emit_def split: if_splits dest!: hyst_BeginPiezoMoveToTarget)

lemma hyst_OnLiftUpBladders_Entry:
  "OnLiftUpBladders_Entry e me = Some res \<Longrightarrow> hyst (snd res) = hyst me"
  by (auto simp add: OnLiftUpBladders_Entry_def Let_def ASSERT_def bind_eq_Some_conv
        split_beta split: if_splits dest!: hyst_BeginPiezoMoveToLift)

lemma hyst_MoveContact_OnTick:
  "FluidicMoveContact_OnTick e me = Some res \<Longrightarrow> hyst (snd res) = hyst me"
  by (auto simp add: FluidicMoveContact_OnTick_def Let_def ASSERT_def bind_eq_Some_conv
        split_beta split: if_splits)

lemma hyst_MixContactControlled_OnEntry:
  "FluidicMixContactControlled_OnEntry e me = Some res \<Longrightarrow> hyst (snd res) = hyst me"
  by (auto simp add: FluidicMixContactControlled_OnEntry_def Let_def bind_eq_Some_conv
        split_beta split: if_splits dest!: hyst_BeginPiezoMoveToTarget)

lemma hyst_CheckForStrip_OnTick [simp]:
  "hyst (snd (FluidicState_CheckForStrip_OnTick e me)) = hyst me"
  by (simp add: FluidicState_CheckForStrip_OnTick_def Let_def split_beta X_TRAN_def)

lemma hyst_defaultEvents [simp]:
  "hyst (snd (Fluidic_defaultEvents e me ev)) = hyst me"
  by (cases ev) (simp_all add: Fluidic_defaultEvents_def Let_def split_beta X_TRAN_def)

lemma hyst_WaitForPiezoStop_OnPiezoStop [simp]:
  "hyst (snd (FluidicStateWaitForPiezoStop_OnPiezoStop e me chan volts)) = hyst me"
  by (simp add: FluidicStateWaitForPiezoStop_OnPiezoStop_def Let_def split_beta X_TRAN_def)


lemma hyst_kept_eq: "hyst me' = hyst me \<Longrightarrow> hyst_kept p me me'"
  by (simp add: hyst_kept_def)

lemma hyst_kept_trans: "hyst_kept p a b \<Longrightarrow> hyst_kept p b c \<Longrightarrow> hyst_kept p a c"
  by (auto simp add: hyst_kept_def)

lemma hyst_AdjustHysterisisVoltage:
  "hyst (AdjustHysterisisVoltage me ty)
   = (hyst me)(eTargetPos me :=
        (if FLUIDIC_HYSETRISIS_MAX
              < hyst me (eTargetPos me) * hysterisisMultipliersVolts (pParams me) ty
         then FLUIDIC_HYSETRISIS_MAX
         else if hyst me (eTargetPos me) * hysterisisMultipliersVolts (pParams me) ty
                   < FLUIDIC_HYSETRISIS_MIN
              then FLUIDIC_HYSETRISIS_MIN
              else hyst me (eTargetPos me) * hysterisisMultipliersVolts (pParams me) ty))"
  unfolding hyst_def AdjustHysterisisVoltage_def set_posHysterisis_def Let_def
  by (simp add: fun_eq_iff)

lemma hyst_MixContactControlled_OnTick:
  "FluidicMixContactControlled_OnTick e me = Some res \<Longrightarrow> hyst_kept p me (snd res)"
  by (auto simp add: FluidicMixContactControlled_OnTick_def Let_def bind_eq_Some_conv
        ASSERT_def split_beta X_TRAN_def hyst_kept_def hyst_AdjustHysterisisVoltage
        hyst_in_range_def FLUIDIC_HYSETRISIS_MAX_def FLUIDIC_HYSETRISIS_MIN_def
        split: if_splits)

lemma hyst_Init [simp]: "hyst (snd (FluidicState_Init me)) = hyst me"
  by (simp add: FluidicState_Init_def Let_def split_beta)

lemma hyst_Idle [simp]: "hyst (snd (FluidicState_Idle e me ev)) = hyst me"
  by (cases ev) (simp_all add: FluidicState_Idle_def Let_def split_beta)

lemma hyst_CheckForStrip [simp]: "hyst (snd (FluidicState_CheckForStrip e me ev)) = hyst me"
  by (cases ev) (simp_all add: FluidicState_CheckForStrip_def Let_def split_beta)

lemma hyst_MixPiezoControlled [simp]:
  "hyst (snd (FluidicState_MixPiezoControlled e me ev)) = hyst me"
  by (cases ev) (simp_all add: FluidicState_MixPiezoControlled_def Let_def split_beta)

lemma hyst_MixWaitContinue [simp]:
  "hyst (snd (FluidicState_MixWaitContinue e me ev)) = hyst me"
  by (cases ev) (simp_all add: FluidicState_MixWaitContinue_def Let_def split_beta)

lemma hyst_Err [simp]: "hyst (snd (FluidicState_Err e me ev)) = hyst me"
  by (cases ev) (simp_all add: FluidicState_Err_def Let_def split_beta X_TRAN_def)

lemma hyst_MoveContact:
  "FluidicState_MoveContact e me ev = Some res \<Longrightarrow> hyst (snd res) = hyst me"
  by (cases ev)
     (auto simp add: FluidicState_MoveContact_def Let_def split_beta bind_eq_Some_conv
        dest!: hyst_OnFluidMoveContact_Entry hyst_MoveContact_OnTick)

lemma hyst_MoveOther:
  "FluidicState_MoveOther e me ev = Some res \<Longrightarrow> hyst (snd res) = hyst me"
  by (cases ev)
     (auto simp add: FluidicState_MoveOther_def Let_def split_beta bind_eq_Some_conv
        X_TRAN_def isBladderEvent_def
        split: if_splits dest!: hyst_OnFluidMoveOther_Entry)

lemma hyst_LiftUpBladder:
  "FluidicState_LiftUpBladder e me ev = Some res \<Longrightarrow> hyst (snd res) = hyst me"
  by (cases ev)
     (auto simp add: FluidicState_LiftUpBladder_def Let_def split_beta bind_eq_Some_conv
        X_TRAN_def isBladderEvent_def
        split: if_splits dest!: hyst_OnLiftUpBladders_Entry)

lemma hyst_WaitForContact:
  "FluidicState_WaitForContact e me ev = Some res \<Longrightarrow> hyst (snd res) = hyst me"
  by (cases ev)
     (auto simp add: FluidicState_WaitForContact_def Let_def split_beta bind_eq_Some_conv
        X_TRAN_def split: if_splits)

lemma hyst_WaitForPiezoStop [simp]:
  "hyst (snd (FluidicState_WaitForPiezoStop e me ev)) = hyst me"
  by (cases ev) (simp_all add: FluidicState_WaitForPiezoStop_def Let_def split_beta X_TRAN_def)

lemma hyst_MonitorFluidBreach:
  "FluidicState_MonitorFluidBreach e me ev = Some res \<Longrightarrow> hyst (snd res) = hyst me"
  by (cases ev)
     (auto simp add: FluidicState_MonitorFluidBreach_def Let_def split_beta bind_eq_Some_conv
        X_TRAN_def split: if_splits)

lemma hyst_MixContactControlled:
  "FluidicState_MixContactControlled e me ev = Some res \<Longrightarrow> hyst_kept p me (snd res)"
  by (cases ev)
     (auto simp add: FluidicState_MixContactControlled_def Let_def split_beta bind_eq_Some_conv
        hyst_kept_def hyst_AdjustHysterisisVoltage
        hyst_in_range_def FLUIDIC_HYSETRISIS_MAX_def FLUIDIC_HYSETRISIS_MIN_def
        split: if_splits
        dest!: hyst_MixContactControlled_OnEntry hyst_MixContactControlled_OnTick [where p = p])

lemma hyst_state_handler:
  "state_handler s e me ev = Some res \<Longrightarrow> hyst_kept p me (snd res)"
  by (cases s)
     (auto simp add: hyst_kept_eq
        dest!: hyst_MoveContact hyst_MoveOther hyst_LiftUpBladder hyst_WaitForContact
               hyst_MonitorFluidBreach
               hyst_MixContactControlled [where p = p])


lemma hyst_enter_state:
  "enter_state e src me = Some me' \<Longrightarrow> hyst_kept p me me'"
  by (auto simp add: enter_state_def Let_def split_beta bind_eq_Some_conv hyst_kept_def
        split: if_splits dest!: hyst_state_handler [where p = p])

lemma hyst_dispatch:
  "dispatch e me ev = Some me' \<Longrightarrow> hyst_kept p me me'"
  by (auto simp add: dispatch_def Let_def split_beta bind_eq_Some_conv hyst_kept_def
        split: if_splits
        dest!: hyst_state_handler [where p = p] hyst_enter_state [where p = p])

lemma hyst_run:
  "run me evs = Some me' \<Longrightarrow> hyst_kept p me me'"
proof (induction evs arbitrary: me)
  case Nil
  then show ?case by (simp add: hyst_kept_def)
next
  case (Cons a evs)
  obtain e ev where a: "a = (e, ev)" by (cases a)
  from Cons.prems obtain me1 where d: "dispatch e me ev = Some me1" and r: "run me1 evs = Some me'"
    by (auto simp add: a split: option.splits)
  show ?case
    by (rule hyst_kept_trans [OF hyst_dispatch [OF d] Cons.IH [OF r]])
qed

lemma hyst_defaults:
  "hyst (FluidicInit chan ramp (bladderDefaultParams e c)) BC_POS_HOME = 0"
  "hyst (FluidicInit chan ramp (bladderDefaultParams e c)) BC_POS_DOWN = 0"
  "hyst (FluidicInit chan ramp (bladderDefaultParams e c)) BC_POS_FLUID_A = 10"
  "hyst (FluidicInit chan ramp (bladderDefaultParams e c)) BC_POS_FLUID_B = 5"
  "hyst (FluidicInit chan ramp (bladderDefaultParams e c)) BC_POS_FLUID_C = 5"
  by (simp_all add: hyst_def FluidicInit_def bladderDefaultParams_def defaultLimits_def
        FLUIDIC_HYSTERISIS_NONE_def FLUIDIC_POS_A_HYSTERISIS_V_def
        FLUIDIC_DEFAULT_HYSTERISIS_V_def)

lemma adjust_in_range:
  "hyst_in_range (hyst (AdjustHysterisisVoltage m ty) (eTargetPos m))"
  by (simp add: hyst_AdjustHysterisisVoltage hyst_in_range_def
        FLUIDIC_HYSETRISIS_MAX_def FLUIDIC_HYSETRISIS_MIN_def)

text \<open>
  C7, as the code has it. The only store into a hysteresis is the clamped one of
  \<open>AdjustHysterisisVoltage\<close>, so in every state that the controller reaches by handling a
  sequence of events, from any controller (\<open>run\<close> is \<open>None\<close> only when an \<open>ASSERT\<close> of the code
  fails), the hysteresis of a position either has the value it had or lies within
  [1, 10] V; a hysteresis within the range stays within it, and after an adaptation the
  hysteresis of the adapted position is within the range. At construction with a default
  bundle the hysteresis is 10 V for A and 5 V for B and C, within the range, and 0 V for
  Home and Down, below it.
\<close>

theorem hysteresis_kept_or_in_range:
  assumes "run me evs = Some me'"
  shows "(hyst me' p = hyst me p \<or> hyst_in_range (hyst me' p))
       \<and> (hyst_in_range (hyst me p) \<longrightarrow> hyst_in_range (hyst me' p))
       \<and> hyst_in_range (hyst (AdjustHysterisisVoltage m ty) (eTargetPos m))
       \<and> hyst (FluidicInit chan ramp (bladderDefaultParams e c)) BC_POS_HOME = 0
       \<and> hyst (FluidicInit chan ramp (bladderDefaultParams e c)) BC_POS_DOWN = 0
       \<and> hyst (FluidicInit chan ramp (bladderDefaultParams e c)) BC_POS_FLUID_A = 10
       \<and> hyst (FluidicInit chan ramp (bladderDefaultParams e c)) BC_POS_FLUID_B = 5
       \<and> hyst (FluidicInit chan ramp (bladderDefaultParams e c)) BC_POS_FLUID_C = 5"
  using hyst_run [OF assms, of p] adjust_in_range [of m ty] hyst_defaults [of chan ramp e c]
  by (auto simp add: hyst_kept_def)


text \<open>
  A contact move that completes without compensation is handled: the store after
  \<open>FluidicOnMoveCompleteMsg\<close> goes outside the table and the controller goes to Idle or to
  the breach monitor.
\<close>

lemma completed_move_is_handled:
  assumes "state me = S_WaitForPiezoStop"
    and "eOvershootCompensationType (pParams me) = FLUID_OVERSHOOT_COMP_NONE"
    and "ecDisable_ret e = OK_STATUS" and "piezoStop_ret e = OK_STATUS"
    and "ecSetModeFillDetect_ret e = OK_STATUS"
  shows "map_option (\<lambda>x. (state x, eLastKnownPos x, eTargetPos x))
           (dispatch e me (XMSG_PIEZO_STOPPED (pPiezo_chan me) v))
         = Some (if monitorBreachAfterMove (pParams me) then S_MonitorFluidBreach else S_Idle,
                 eTargetPos me, BC_NONE)"
  using assms
  by (simp add: handler_defs helper_defs FluidicStateWaitForPiezoStop_OnPiezoStop_def
        FluidOnPiezoStop_def split_beta)

lemma arriving_mix_run:
  "map_option (\<lambda>x. (state x, hyst x BC_POS_HOME, hyst x BC_POS_DOWN, hyst x BC_POS_FLUID_A))
     (run fc1_arriving
        [(env_ok, XMSG_PIEZO_STOPPED 1 40), (env_ok, XMSG_FLUID_MIX down_msg),
         (env_ok, XMSG_PIEZO_MOVE_COMPLTE 1 0)])
   = Some (S_MixWaitContinue, 0, 1, 10)"
  by (simp add: handler_defs helper_defs example_defs down_msg_def hyst_def fc1_arriving_def
        AdjustHysterisisVoltage_def FluidMixOnStageComplete_def
        FluidicMixContactControlled_OnEntry_def FluidicBeginPiezoMoveToTarget_def
        fluidicMixingCalculaterampSpeedVoltsPerSec_def FLUID_NUM_MIXING_STAGES_PER_CYCLE_def
        FluidicOnMixComplete_def OnMsgBladderControlMix_def
        FluidicStateWaitForPiezoStop_OnPiezoStop_def FluidOnPiezoStop_def split_beta
        FluidCheckMixParams_def isFrequencyOk_def isMixPositionOk_def isMixTimeoutOk_def
        FLUIDIC_MAX_MIX_TIMEOUT_DEFAULT_MS_def
        FLUIDIC_HYSTERISIS_NONE_def FLUIDIC_POS_A_HYSTERISIS_V_def
        FLUIDIC_DEFAULT_HYSTERISIS_V_def FLUIDIC_HYSETRISIS_MAX_def FLUIDIC_HYSETRISIS_MIN_def
        FLUID_HYST_MULTIPLIER_INC_DEFAULT_def FLUIDIC_DEFAULT_TARGET_POSITION_def
        del: hyst_fields hystP_fields)

text \<open>
  Witness: channel 1 with the default bundle completes a contact move to A, starts a
  dual-point mix towards Down, and the piezo completes the first stroke. A keeps 10 V,
  Home keeps 0 V, Down goes from 0 V to 1 V.
\<close>

theorem hysteresis_kept_or_in_range_witness:
  "\<exists>me'. run fc1_arriving
            [(env_ok, XMSG_PIEZO_STOPPED 1 40), (env_ok, XMSG_FLUID_MIX down_msg),
             (env_ok, XMSG_PIEZO_MOVE_COMPLTE 1 0)] = Some me'
         \<and> hyst_in_range (hyst fc1_arriving BC_POS_FLUID_A)
         \<and> hyst_in_range (hyst me' BC_POS_FLUID_A)
         \<and> state me' = S_MixWaitContinue
         \<and> hyst me' BC_POS_DOWN = 1 \<and> hyst me' BC_POS_HOME = 0"
proof -
  from arriving_mix_run obtain me' where
    r: "run fc1_arriving
          [(env_ok, XMSG_PIEZO_STOPPED 1 40), (env_ok, XMSG_FLUID_MIX down_msg),
           (env_ok, XMSG_PIEZO_MOVE_COMPLTE 1 0)] = Some me'"
    and v: "state me' = S_MixWaitContinue" "hyst me' BC_POS_DOWN = 1" "hyst me' BC_POS_HOME = 0"
    by auto
  have a: "hyst_in_range (hyst fc1_arriving BC_POS_FLUID_A)"
    by (simp add: hyst_def hyst_in_range_def example_defs fc1_arriving_def
          FLUIDIC_POS_A_HYSTERISIS_V_def FLUIDIC_HYSETRISIS_MAX_def FLUIDIC_HYSETRISIS_MIN_def)
  have "hyst_in_range (hyst me' BC_POS_FLUID_A)"
    using hysteresis_kept_or_in_range [OF r, where p = BC_POS_FLUID_A] a by simp
  then show ?thesis
    using r v a by simp
qed

text \<open>
  The claim as stated fails at construction: the default bundle of channel 1 gives Home a
  hysteresis of 0 V, outside [1, 10] V.
\<close>

theorem default_home_hysteresis_counterexample:
  "hyst (FluidicInit 1 100 (bladder1DefaultParams env_ok)) BC_POS_HOME = 0
   \<and> \<not> hyst_in_range (hyst (FluidicInit 1 100 (bladder1DefaultParams env_ok)) BC_POS_HOME)"
  by (simp add: hyst_def hyst_in_range_def FluidicInit_def bladder1DefaultParams_def
        bladderDefaultParams_def defaultLimits_def FLUIDIC_HYSTERISIS_NONE_def
        FLUIDIC_HYSETRISIS_MAX_def FLUIDIC_HYSETRISIS_MIN_def)

end
